theory Spec2Isabelle
  imports Complex_Main
begin

section \<open>Errors and floating-point values\<close>

text \<open>
  Exceptions of the Python program are values. \<open>RuntimeError\<close> stands for every error
  that torch raises for ill-shaped operands.
\<close>

datatype error = RuntimeError | AssertionError | ZeroDivisionError | ValueError | NameError
  | AttributeError

text \<open>
  Tensor entries are IEEE floating-point numbers. The model keeps the special values
  (infinities and NaN) and the rules by which torch produces them, and computes finite
  values exactly: rounding and overflow are left out, and a zero is the positive zero.
  Rounding to single precision is a function of its own, \<open>f32\<close> below, which the
  single-precision variant of the min-max normalizer applies after every operation.
\<close>

datatype fval = Fin real | PInf | NInf | NaN

fun fneg :: "fval \<Rightarrow> fval" where
  "fneg (Fin a) = Fin (- a)"
| "fneg PInf = NInf"
| "fneg NInf = PInf"
| "fneg NaN = NaN"

fun fadd :: "fval \<Rightarrow> fval \<Rightarrow> fval" where
  "fadd NaN _ = NaN"
| "fadd _ NaN = NaN"
| "fadd (Fin a) (Fin b) = Fin (a + b)"
| "fadd PInf NInf = NaN"
| "fadd NInf PInf = NaN"
| "fadd PInf _ = PInf"
| "fadd NInf _ = NInf"
| "fadd (Fin a) PInf = PInf"
| "fadd (Fin a) NInf = NInf"

definition fsub :: "fval \<Rightarrow> fval \<Rightarrow> fval" where
  "fsub x y = fadd x (fneg y)"

fun fmul :: "fval \<Rightarrow> fval \<Rightarrow> fval" where
  "fmul NaN _ = NaN"
| "fmul _ NaN = NaN"
| "fmul (Fin a) (Fin b) = Fin (a * b)"
| "fmul PInf (Fin b) = (if b = 0 then NaN else if 0 < b then PInf else NInf)"
| "fmul NInf (Fin b) = (if b = 0 then NaN else if 0 < b then NInf else PInf)"
| "fmul (Fin a) PInf = (if a = 0 then NaN else if 0 < a then PInf else NInf)"
| "fmul (Fin a) NInf = (if a = 0 then NaN else if 0 < a then NInf else PInf)"
| "fmul PInf PInf = PInf"
| "fmul PInf NInf = NInf"
| "fmul NInf PInf = NInf"
| "fmul NInf NInf = PInf"

fun fdiv :: "fval \<Rightarrow> fval \<Rightarrow> fval" where
  "fdiv NaN _ = NaN"
| "fdiv _ NaN = NaN"
| "fdiv (Fin a) (Fin b) =
     (if b = 0 then (if a = 0 then NaN else if 0 < a then PInf else NInf)
      else Fin (a / b))"
| "fdiv (Fin a) PInf = Fin 0"
| "fdiv (Fin a) NInf = Fin 0"
| "fdiv PInf (Fin b) = (if 0 \<le> b then PInf else NInf)"
| "fdiv NInf (Fin b) = (if 0 \<le> b then NInf else PInf)"
| "fdiv PInf _ = NaN"
| "fdiv NInf _ = NaN"

fun is_finite :: "fval \<Rightarrow> bool" where
  "is_finite (Fin a) = True"
| "is_finite _ = False"

text \<open>Sequencing of computations that may raise: the first error is the result.\<close>

definition ebind :: "error + 'a \<Rightarrow> ('a \<Rightarrow> error + 'b) \<Rightarrow> error + 'b" where
  "ebind m f = (case m of Inl e \<Rightarrow> Inl e | Inr v \<Rightarrow> f v)"

section \<open>Normalisation functions\<close>

text \<open>
  A data tensor is seen as the code's \<open>x.reshape(s[0], -1)\<close> sees it: \<open>size0\<close> samples,
  each a row of \<open>size1\<close> features.
\<close>

record 'a tensor2 =
  size0 :: nat
  size1 :: nat
  rows :: "'a list list"

definition wf2 :: "'a tensor2 \<Rightarrow> bool" where
  "wf2 t \<longleftrightarrow> length (rows t) = size0 t \<and> list_all (\<lambda>r. length r = size1 t) (rows t)"

definition flat :: "'a tensor2 \<Rightarrow> 'a list" where
  "flat t = concat (rows t)"

definition column :: "'a tensor2 \<Rightarrow> nat \<Rightarrow> 'a list" where
  "column t j = map (\<lambda>r. r ! j) (rows t)"

text \<open>
  Broadcasting of torch: two sizes fit when they are equal or one of them is 1, and an
  operand of size 1 is read at index 0.
\<close>

definition bc_dim :: "nat \<Rightarrow> nat \<Rightarrow> error + nat" where
  "bc_dim m n = (if m = n then Inr m else if m = 1 then Inr n else if n = 1 then Inr m
                 else Inl RuntimeError)"

definition bc_get :: "'a list \<Rightarrow> nat \<Rightarrow> 'a" where
  "bc_get v j = (if length v = 1 then v ! 0 else v ! j)"

text \<open>\<open>x op v\<close> for a tensor \<open>x\<close> of shape (n, k') and a vector \<open>v\<close> of shape (k).\<close>

definition bc_rows :: "('a \<Rightarrow> 'a \<Rightarrow> 'a) \<Rightarrow> 'a tensor2 \<Rightarrow> 'a list \<Rightarrow> error + 'a tensor2" where
  "bc_rows f x v =
     (case bc_dim (size1 x) (length v) of
        Inl e \<Rightarrow> Inl e
      | Inr K \<Rightarrow> Inr \<lparr>size0 = size0 x, size1 = K,
                       rows = map (\<lambda>r. map (\<lambda>j. f (bc_get r j) (bc_get v j)) [0..<K]) (rows x)\<rparr>)"

text \<open>\<open>torch.min(x)\<close> and \<open>torch.max(x)\<close> raise on a tensor with no element.\<close>

definition torch_min :: "real list \<Rightarrow> error + real" where
  "torch_min xs = (if xs = [] then Inl RuntimeError else Inr (Min (set xs)))"

definition torch_max :: "real list \<Rightarrow> error + real" where
  "torch_max xs = (if xs = [] then Inl RuntimeError else Inr (Max (set xs)))"

text \<open>\<open>torch.mean\<close> of no element is NaN; \<open>torch.std\<close> is the unbiased estimator, NaN
  for fewer than two elements.\<close>

definition torch_mean :: "real list \<Rightarrow> fval" where
  "torch_mean xs = (if xs = [] then NaN else Fin (sum_list xs / real (length xs)))"

definition torch_std :: "real list \<Rightarrow> fval" where
  "torch_std xs =
     (if length xs \<le> 1 then NaN
      else Fin (sqrt (sum_list (map (\<lambda>x. (x - sum_list xs / real (length xs))\<^sup>2) xs)
                      / real (length xs - 1))))"

subsection \<open>UnitGaussianNormalizer: pointwise gaussian, for x of shape ntrain*n\<close>

record UnitGaussianNormalizer =
  ug_mean :: "fval list"
  ug_std :: "fval list"
  ug_eps :: real

definition UnitGaussianNormalizer_init :: "real tensor2 \<Rightarrow> real \<Rightarrow> UnitGaussianNormalizer" where
  "UnitGaussianNormalizer_init x eps =
     \<lparr>ug_mean = map (\<lambda>j. torch_mean (column x j)) [0..<size1 x],
      ug_std = map (\<lambda>j. torch_std (column x j)) [0..<size1 x],
      ug_eps = eps\<rparr>"

definition UnitGaussianNormalizer_encode ::
  "UnitGaussianNormalizer \<Rightarrow> fval tensor2 \<Rightarrow> error + fval tensor2" where
  "UnitGaussianNormalizer_encode N x =
     ebind (bc_rows fsub x (ug_mean N))
       (\<lambda>d. bc_rows fdiv d (map (\<lambda>s. fadd s (Fin (ug_eps N))) (ug_std N)))"

text \<open>The call \<open>decode(x)\<close>, that is \<open>sample_idx = None\<close>.\<close>

definition UnitGaussianNormalizer_decode ::
  "UnitGaussianNormalizer \<Rightarrow> fval tensor2 \<Rightarrow> error + fval tensor2" where
  "UnitGaussianNormalizer_decode N x =
     (let std = map (\<lambda>s. fadd s (Fin (ug_eps N))) (ug_std N); mean = ug_mean N
      in ebind (bc_rows fmul x std) (\<lambda>d. bc_rows fadd d mean))"

subsection \<open>GaussianNormalizer\<close>

record GaussianNormalizer =
  g_mean :: fval
  g_std :: fval
  g_eps :: real

definition GaussianNormalizer_init :: "real tensor2 \<Rightarrow> real \<Rightarrow> GaussianNormalizer" where
  "GaussianNormalizer_init x eps =
     \<lparr>g_mean = torch_mean (flat x), g_std = torch_std (flat x), g_eps = eps\<rparr>"

definition GaussianNormalizer_encode :: "GaussianNormalizer \<Rightarrow> fval tensor2 \<Rightarrow> fval tensor2" where
  "GaussianNormalizer_encode N x =
     x\<lparr>rows := map (map (\<lambda>v. fdiv (fsub v (g_mean N)) (fadd (g_std N) (Fin (g_eps N))))) (rows x)\<rparr>"

definition GaussianNormalizer_decode :: "GaussianNormalizer \<Rightarrow> fval tensor2 \<Rightarrow> fval tensor2" where
  "GaussianNormalizer_decode N x =
     x\<lparr>rows := map (map (\<lambda>v. fadd (fmul v (fadd (g_std N) (Fin (g_eps N)))) (g_mean N))) (rows x)\<rparr>"

subsection \<open>RangeNormalizer: scaling by range, per feature\<close>

record RangeNormalizer =
  r_a :: "fval list"
  r_b :: "fval list"

text \<open>\<open>torch.min(x, 0)\<close> raises when there is no sample to reduce over.\<close>

definition RangeNormalizer_init :: "real tensor2 \<Rightarrow> real \<Rightarrow> real \<Rightarrow> error + RangeNormalizer" where
  "RangeNormalizer_init x low high =
     (if size0 x = 0 then Inl RuntimeError
      else
        let mymin = map (\<lambda>j. Min (set (column x j))) [0..<size1 x];
            mymax = map (\<lambda>j. Max (set (column x j))) [0..<size1 x];
            a = map2 (\<lambda>mx mn. fdiv (Fin (high - low)) (fsub (Fin mx) (Fin mn))) mymax mymin;
            b = map2 (\<lambda>av mx. fadd (fmul (fneg av) (Fin mx)) (Fin high)) a mymax
        in Inr \<lparr>r_a = a, r_b = b\<rparr>)"

text \<open>
  \<open>reshape(s[0], -1)\<close> raises on a tensor with no sample, where the size \<open>-1\<close> stands
  for is ambiguous, and \<open>view(s)\<close> raises when broadcasting has changed the number of
  elements.
\<close>

definition RangeNormalizer_encode :: "RangeNormalizer \<Rightarrow> fval tensor2 \<Rightarrow> error + fval tensor2" where
  "RangeNormalizer_encode N x =
     (if size0 x = 0 then Inl RuntimeError
      else ebind (bc_rows (\<lambda>xv av. fmul av xv) x (r_a N))
        (\<lambda>ax. ebind (bc_rows fadd ax (r_b N))
          (\<lambda>y. if size1 y = size1 x then Inr y else Inl RuntimeError)))"

definition RangeNormalizer_decode :: "RangeNormalizer \<Rightarrow> fval tensor2 \<Rightarrow> error + fval tensor2" where
  "RangeNormalizer_decode N x =
     (if size0 x = 0 then Inl RuntimeError
      else ebind (bc_rows fsub x (r_b N))
        (\<lambda>d. ebind (bc_rows fdiv d (r_a N))
          (\<lambda>y. if size1 y = size1 x then Inr y else Inl RuntimeError)))"

subsection \<open>MinMax\_Normalizer: rangewise but single value\<close>

record MinMax_Normalizer =
  mm_a :: fval
  mm_b :: fval

definition MinMax_Normalizer_init :: "real tensor2 \<Rightarrow> real \<Rightarrow> real \<Rightarrow> error + MinMax_Normalizer" where
  "MinMax_Normalizer_init x low high =
     ebind (torch_min (flat x)) (\<lambda>mymin.
     ebind (torch_max (flat x)) (\<lambda>mymax.
       let a = fdiv (Fin (high - low)) (fsub (Fin mymax) (Fin mymin));
           b = fadd (fmul (fneg a) (Fin mymax)) (Fin high)
       in Inr \<lparr>mm_a = a, mm_b = b\<rparr>))"

definition MinMax_Normalizer_encode :: "MinMax_Normalizer \<Rightarrow> fval tensor2 \<Rightarrow> error + fval tensor2" where
  "MinMax_Normalizer_encode N x =
     (if size0 x = 0 then Inl RuntimeError
      else Inr (x\<lparr>rows := map (map (\<lambda>v. fadd (fmul (mm_a N) v) (mm_b N))) (rows x)\<rparr>))"

definition MinMax_Normalizer_decode :: "MinMax_Normalizer \<Rightarrow> fval tensor2 \<Rightarrow> error + fval tensor2" where
  "MinMax_Normalizer_decode N x =
     (if size0 x = 0 then Inl RuntimeError
      else Inr (x\<lparr>rows := map (map (\<lambda>v. fdiv (fsub v (mm_b N)) (mm_a N))) (rows x)\<rparr>))"

text \<open>A tensor of finite values: no entry is an infinity or NaN.\<close>

definition all_finite :: "fval tensor2 \<Rightarrow> bool" where
  "all_finite x \<longleftrightarrow> list_all (list_all is_finite) (rows x)"

subsection \<open>Single precision\<close>

text \<open>
  The tensors of the script are \<open>float32\<close>. An operation on such values returns the exact
  result rounded to the nearest \<open>float32\<close> value, a tie going to the even significand;
  a rounded magnitude of \<open>2 ^ 128\<close> or more is an infinity. \<open>round_even\<close> rounds to the
  nearest integer, \<open>f32\<close> rounds a real number to a multiple of the quantum
  \<open>2 ^ (e - 23)\<close>, where \<open>2 ^ e\<close> is the power of two at or below the magnitude and \<open>e\<close>
  is no less than \<open>-126\<close>.
\<close>

definition round_even :: "real \<Rightarrow> int" where
  "round_even x =
     (let f = \<lfloor>x\<rfloor>; d = x - of_int f in
      if d < 1 / 2 then f else if 1 / 2 < d then f + 1 else if even f then f else f + 1)"

definition f32 :: "real \<Rightarrow> fval" where
  "f32 r =
     (if r = 0 then Fin 0
      else let e = max (- 126) \<lfloor>log 2 \<bar>r\<bar>\<rfloor>; q = 2 powi (e - 23);
               v = of_int (round_even (\<bar>r\<bar> / q)) * q
           in if 2 ^ 128 \<le> v then (if 0 < r then PInf else NInf) else Fin (sgn r * v))"

fun rnd :: "fval \<Rightarrow> fval" where
  "rnd (Fin r) = f32 r"
| "rnd v = v"

text \<open>
  \<open>MinMax_Normalizer\<close> with every operation rounded. A number divided by a tensor is
  computed by torch as the reciprocal of the tensor times the number; the numbers
  \<open>high - low\<close> and \<open>high\<close> enter the operations as \<open>float32\<close> values.
\<close>

definition MinMax_Normalizer_init_f32 :: "real tensor2 \<Rightarrow> real \<Rightarrow> real \<Rightarrow> error + MinMax_Normalizer" where
  "MinMax_Normalizer_init_f32 x low high =
     ebind (torch_min (flat x)) (\<lambda>mymin.
     ebind (torch_max (flat x)) (\<lambda>mymax.
       let range = rnd (fsub (Fin mymax) (Fin mymin));
           a = rnd (fmul (rnd (fdiv (Fin 1) range)) (f32 (high - low)));
           b = rnd (fadd (rnd (fmul (fneg a) (Fin mymax))) (f32 high))
       in Inr \<lparr>mm_a = a, mm_b = b\<rparr>))"

definition MinMax_Normalizer_encode_f32 :: "MinMax_Normalizer \<Rightarrow> fval tensor2 \<Rightarrow> error + fval tensor2" where
  "MinMax_Normalizer_encode_f32 N x =
     (if size0 x = 0 then Inl RuntimeError
      else Inr (x\<lparr>rows := map (map (\<lambda>v. rnd (fadd (rnd (fmul (mm_a N) v)) (mm_b N)))) (rows x)\<rparr>))"

section \<open>Loss functions\<close>

text \<open>
  \<open>t.reshape(n, -1)\<close> for a tensor of \<open>size0 t * size1 t\<close> elements: it raises when
  \<open>n\<close> is zero or does not divide their number, and regroups the elements, in row-major
  order, into \<open>n\<close> rows otherwise; these rows are empty for a tensor without elements.
\<close>

definition reshape_rows :: "nat \<Rightarrow> 'a tensor2 \<Rightarrow> error + 'a tensor2" where
  "reshape_rows n t =
     (let numel = size0 t * size1 t in
      if n = 0 \<or> numel mod n \<noteq> 0 then Inl RuntimeError
      else Inr \<lparr>size0 = n, size1 = numel div n,
                rows = map (\<lambda>i. take (numel div n) (drop (i * (numel div n)) (flat t))) [0..<n]\<rparr>)"

text \<open>An elementwise operation on two tensors of two axes, with broadcasting on both.\<close>

definition bc2 :: "('a \<Rightarrow> 'a \<Rightarrow> 'b) \<Rightarrow> 'a tensor2 \<Rightarrow> 'a tensor2 \<Rightarrow> error + 'b tensor2" where
  "bc2 f x y =
     ebind (bc_dim (size0 x) (size0 y)) (\<lambda>n.
     ebind (bc_dim (size1 x) (size1 y)) (\<lambda>k.
       Inr \<lparr>size0 = n, size1 = k,
            rows = map (\<lambda>i. map (\<lambda>j. f (bc_get (bc_get (rows x) i) j) (bc_get (bc_get (rows y) i) j))
                                [0..<k]) [0..<n]\<rparr>))"

text \<open>\<open>torch.norm(t, p, 1)\<close>: the p-norm of each row.\<close>

definition torch_norm :: "real \<Rightarrow> real tensor2 \<Rightarrow> real list" where
  "torch_norm p t = map (\<lambda>r. (sum_list (map (\<lambda>v. \<bar>v\<bar> powr p) r)) powr (1 / p)) (rows t)"

definition torch_sum :: "fval list \<Rightarrow> fval" where
  "torch_sum vs = foldl fadd (Fin 0) vs"

definition torch_mean_f :: "fval list \<Rightarrow> fval" where
  "torch_mean_f vs = fdiv (torch_sum vs) (Fin (real (length vs)))"

datatype loss_out = Scalar fval | PerExample "fval list"

record LpLoss =
  lp_d :: real
  lp_p :: real
  lp_reduction :: bool
  lp_size_average :: bool

definition LpLoss_init :: "real \<Rightarrow> real \<Rightarrow> bool \<Rightarrow> bool \<Rightarrow> error + LpLoss" where
  "LpLoss_init d p size_average reduction =
     (if 0 < d \<and> 0 < p
      then Inr \<lparr>lp_d = d, lp_p = p, lp_reduction = reduction, lp_size_average = size_average\<rparr>
      else Inl AssertionError)"

definition LpLoss_rel :: "LpLoss \<Rightarrow> real tensor2 \<Rightarrow> real tensor2 \<Rightarrow> error + loss_out" where
  "LpLoss_rel L x y =
     (let num_examples = size0 x in
      ebind (reshape_rows num_examples x) (\<lambda>xr.
      ebind (reshape_rows num_examples y) (\<lambda>yr.
      ebind (bc2 (-) xr yr) (\<lambda>diff.
        let diff_norms = torch_norm (lp_p L) diff;
            y_norms = torch_norm (lp_p L) yr;
            quot = map2 (\<lambda>dn yn. fdiv (Fin dn) (Fin yn)) diff_norms y_norms
        in if lp_reduction L
           then (if lp_size_average L then Inr (Scalar (torch_mean_f quot))
                 else Inr (Scalar (torch_sum quot)))
           else Inr (PerExample quot)))))"

definition LpLoss_call :: "LpLoss \<Rightarrow> real tensor2 \<Rightarrow> real tensor2 \<Rightarrow> error + loss_out" where
  "LpLoss_call L x y = LpLoss_rel L x y"

text \<open>Values that a quotient of two norms can take: no negative number, no negative infinity.\<close>

fun nonneg_f :: "fval \<Rightarrow> bool" where
  "nonneg_f (Fin a) = (0 \<le> a)"
| "nonneg_f PInf = True"
| "nonneg_f NaN = True"
| "nonneg_f NInf = False"

section \<open>Tensors of five axes\<close>

text \<open>
  A tensor is its sizes and its entries. Entries at indices beyond the sizes have no
  meaning. The weights of a Fourier layer have six axes.
\<close>

record 'a tensor5 =
  dim0 :: nat
  dim1 :: nat
  dim2 :: nat
  dim3 :: nat
  dim4 :: nat
  at5 :: "nat \<Rightarrow> nat \<Rightarrow> nat \<Rightarrow> nat \<Rightarrow> nat \<Rightarrow> 'a"

record 'a tensor6 =
  wdim0 :: nat
  wdim1 :: nat
  wdim2 :: nat
  wdim3 :: nat
  wdim4 :: nat
  wdim5 :: nat
  at6 :: "nat \<Rightarrow> nat \<Rightarrow> nat \<Rightarrow> nat \<Rightarrow> nat \<Rightarrow> nat \<Rightarrow> 'a"

definition shape5 :: "'a tensor5 \<Rightarrow> nat \<times> nat \<times> nat \<times> nat \<times> nat" where
  "shape5 t = (dim0 t, dim1 t, dim2 t, dim3 t, dim4 t)"

definition zeros5 :: "nat \<Rightarrow> nat \<Rightarrow> nat \<Rightarrow> nat \<Rightarrow> nat \<Rightarrow> 'a::zero tensor5" where
  "zeros5 n0 n1 n2 n3 n4 =
     \<lparr>dim0 = n0, dim1 = n1, dim2 = n2, dim3 = n3, dim4 = n4, at5 = (\<lambda>b i p x y. 0)\<rparr>"

text \<open>An operand of size \<open>d\<close> on a broadcast axis is read at index 0 when \<open>d = 1\<close>.\<close>

definition bc_ix :: "nat \<Rightarrow> nat \<Rightarrow> nat" where
  "bc_ix d k = (if d = 1 then 0 else k)"

text \<open>A value can be assigned to a slot of size \<open>s\<close> when its size is \<open>s\<close> or 1.\<close>

definition expands_to :: "nat \<Rightarrow> nat \<Rightarrow> bool" where
  "expands_to v s \<longleftrightarrow> v = s \<or> v = 1"

text \<open>
  The transforms of \<open>torch.fft\<close> and the activation \<open>F.gelu\<close> are library code. The
  results of the transforms have the documented shapes; the values that the library
  computes are parameters of the model. Both transforms raise on a tensor with an axis of
  size zero, and the inverse transform on a requested size of zero.
\<close>

record torch_lib =
  rfft2_at :: "real tensor5 \<Rightarrow> nat \<Rightarrow> nat \<Rightarrow> nat \<Rightarrow> nat \<Rightarrow> nat \<Rightarrow> complex"
  irfft2_at :: "complex tensor5 \<Rightarrow> nat \<Rightarrow> nat \<Rightarrow> nat \<Rightarrow> nat \<Rightarrow> nat \<Rightarrow> nat \<Rightarrow> nat \<Rightarrow> real"
  gelu_at :: "real \<Rightarrow> real"

definition rfft2 :: "torch_lib \<Rightarrow> real tensor5 \<Rightarrow> error + complex tensor5" where
  "rfft2 lib x =
     (if dim0 x = 0 \<or> dim1 x = 0 \<or> dim2 x = 0 \<or> dim3 x = 0 \<or> dim4 x = 0
      then Inl RuntimeError
      else Inr \<lparr>dim0 = dim0 x, dim1 = dim1 x, dim2 = dim2 x, dim3 = dim3 x,
                dim4 = dim4 x div 2 + 1, at5 = rfft2_at lib x\<rparr>)"

definition irfft2 :: "torch_lib \<Rightarrow> complex tensor5 \<Rightarrow> nat \<Rightarrow> nat \<Rightarrow> error + real tensor5" where
  "irfft2 lib t s0 s1 =
     (if dim0 t = 0 \<or> dim1 t = 0 \<or> dim2 t = 0 \<or> dim3 t = 0 \<or> dim4 t = 0 \<or> s0 = 0 \<or> s1 = 0
      then Inl RuntimeError
      else Inr \<lparr>dim0 = dim0 t, dim1 = dim1 t, dim2 = dim2 t, dim3 = s0, dim4 = s1,
                at5 = irfft2_at lib t s0 s1\<rparr>)"

section \<open>Fourier layer\<close>

record SpectralConv2d =
  in_channels_time :: nat
  out_channels_time :: nat
  in_channels_dim :: nat
  out_channels_dim :: nat
  modes1 :: nat
  modes2 :: nat
  scale :: real
  weights1 :: "complex tensor6"
  weights2 :: "complex tensor6"

text \<open>
  \<open>__init__\<close>. The draws of \<open>torch.rand\<close> are the arguments \<open>rand1\<close> and \<open>rand2\<close>. The
  only failure is the division in \<open>scale\<close>.
\<close>

definition SpectralConv2d_init ::
  "nat \<Rightarrow> nat \<Rightarrow> nat \<Rightarrow> nat \<Rightarrow> nat \<Rightarrow> nat
   \<Rightarrow> (nat \<Rightarrow> nat \<Rightarrow> nat \<Rightarrow> nat \<Rightarrow> nat \<Rightarrow> nat \<Rightarrow> complex)
   \<Rightarrow> (nat \<Rightarrow> nat \<Rightarrow> nat \<Rightarrow> nat \<Rightarrow> nat \<Rightarrow> nat \<Rightarrow> complex)
   \<Rightarrow> error + SpectralConv2d" where
  "SpectralConv2d_init in_t out_t in_d out_d m1 m2 rand1 rand2 =
     (if in_t * out_t = 0 then Inl ZeroDivisionError
      else
        let sc = 1 / real (in_t * out_t) in
        Inr \<lparr>in_channels_time = in_t, out_channels_time = out_t,
             in_channels_dim = in_d, out_channels_dim = out_d,
             modes1 = m1, modes2 = m2, scale = sc,
             weights1 = \<lparr>wdim0 = in_t, wdim1 = out_t, wdim2 = in_d, wdim3 = out_d,
                          wdim4 = m1, wdim5 = m2,
                          at6 = (\<lambda>i j p q x y. of_real sc * rand1 i j p q x y)\<rparr>,
             weights2 = \<lparr>wdim0 = in_t, wdim1 = out_t, wdim2 = in_d, wdim3 = out_d,
                          wdim4 = m1, wdim5 = m2,
                          at6 = (\<lambda>i j p q x y. of_real sc * rand2 i j p q x y)\<rparr>\<rparr>)"

text \<open>
  \<open>compl_mul2d\<close>: \<open>einsum("bipxy,ijpqxy->bjqxy")\<close>. The axes \<open>i\<close>, \<open>p\<close>, \<open>x\<close>, \<open>y\<close>
  of the two operands must fit by broadcasting.
\<close>

definition compl_mul2d :: "complex tensor5 \<Rightarrow> complex tensor6 \<Rightarrow> error + complex tensor5" where
  "compl_mul2d input weights =
     ebind (bc_dim (dim1 input) (wdim0 weights)) (\<lambda>ni.
     ebind (bc_dim (dim2 input) (wdim2 weights)) (\<lambda>np.
     ebind (bc_dim (dim3 input) (wdim4 weights)) (\<lambda>nx.
     ebind (bc_dim (dim4 input) (wdim5 weights)) (\<lambda>ny.
       Inr \<lparr>dim0 = dim0 input, dim1 = wdim1 weights, dim2 = wdim3 weights, dim3 = nx, dim4 = ny,
            at5 = (\<lambda>b j q x y. \<Sum>i<ni. \<Sum>p<np.
                     at5 input b (bc_ix (dim1 input) i) (bc_ix (dim2 input) p)
                       (bc_ix (dim3 input) x) (bc_ix (dim4 input) y)
                     * at6 weights (bc_ix (wdim0 weights) i) j (bc_ix (wdim2 weights) p) q
                         (bc_ix (wdim4 weights) x) (bc_ix (wdim5 weights) y))\<rparr>))))"

text \<open>
  The slices \<open>t[:, :, :, :m1, :m2]\<close> and \<open>t[:, :, :, -m1:, :m2]\<close>. A bound beyond the
  size is clipped, and \<open>-m1\<close> is the index 0 when \<open>m1\<close> is 0.
\<close>

definition hi_start :: "nat \<Rightarrow> nat \<Rightarrow> nat" where
  "hi_start n m1 = (if m1 = 0 then 0 else n - m1)"

definition slice_lo :: "'a tensor5 \<Rightarrow> nat \<Rightarrow> nat \<Rightarrow> 'a tensor5" where
  "slice_lo t m1 m2 = t\<lparr>dim3 := min m1 (dim3 t), dim4 := min m2 (dim4 t)\<rparr>"

definition slice_hi :: "'a tensor5 \<Rightarrow> nat \<Rightarrow> nat \<Rightarrow> 'a tensor5" where
  "slice_hi t m1 m2 =
     t\<lparr>dim3 := dim3 t - hi_start (dim3 t) m1, dim4 := min m2 (dim4 t),
       at5 := (\<lambda>b i p x y. at5 t b i p (hi_start (dim3 t) m1 + x) y)\<rparr>"

text \<open>
  The assignment \<open>t[:, :, :, start:stop, :m2] = v\<close>: the value must expand to the shape
  of the slot.
\<close>

definition setitem :: "'a tensor5 \<Rightarrow> nat \<Rightarrow> nat \<Rightarrow> nat \<Rightarrow> 'a tensor5 \<Rightarrow> error + 'a tensor5" where
  "setitem t start stop m2 v =
     (if expands_to (dim0 v) (dim0 t) \<and> expands_to (dim1 v) (dim1 t) \<and>
         expands_to (dim2 v) (dim2 t) \<and> expands_to (dim3 v) (stop - start) \<and>
         expands_to (dim4 v) (min m2 (dim4 t))
      then Inr (t\<lparr>at5 := (\<lambda>b j q x y.
                   if start \<le> x \<and> x < stop \<and> y < min m2 (dim4 t)
                   then at5 v (bc_ix (dim0 v) b) (bc_ix (dim1 v) j) (bc_ix (dim2 v) q)
                          (bc_ix (dim3 v) (x - start)) (bc_ix (dim4 v) y)
                   else at5 t b j q x y)\<rparr>)
      else Inl RuntimeError)"

text \<open>The first part of \<open>forward\<close>: the output spectrum \<open>out_ft\<close> after the two assignments.\<close>

definition forward_out_ft :: "torch_lib \<Rightarrow> SpectralConv2d \<Rightarrow> real tensor5 \<Rightarrow> error + complex tensor5" where
  "forward_out_ft lib L x =
     (let batchsize = dim0 x in
      ebind (rfft2 lib x) (\<lambda>x_ft.
        let out_ft = zeros5 batchsize (out_channels_time L) (out_channels_dim L)
                       (dim3 x) (dim4 x div 2 + 1) in
        ebind (compl_mul2d (slice_lo x_ft (modes1 L) (modes2 L)) (weights1 L)) (\<lambda>v1.
        ebind (setitem out_ft 0 (min (modes1 L) (dim3 x)) (modes2 L) v1) (\<lambda>out_ft.
        ebind (compl_mul2d (slice_hi x_ft (modes1 L) (modes2 L)) (weights2 L)) (\<lambda>v2.
          setitem out_ft (hi_start (dim3 x) (modes1 L)) (dim3 x) (modes2 L) v2)))))"

definition SpectralConv2d_forward :: "torch_lib \<Rightarrow> SpectralConv2d \<Rightarrow> real tensor5 \<Rightarrow> error + real tensor5" where
  "SpectralConv2d_forward lib L x =
     ebind (forward_out_ft lib L x) (\<lambda>out_ft. irfft2 lib out_ft (dim3 x) (dim4 x))"

text \<open>A layer whose weights have the shape that \<open>__init__\<close> gives them.\<close>

definition weights_shape :: "SpectralConv2d \<Rightarrow> complex tensor6 \<Rightarrow> bool" where
  "weights_shape L w \<longleftrightarrow>
     wdim0 w = in_channels_time L \<and> wdim1 w = out_channels_time L \<and>
     wdim2 w = in_channels_dim L \<and> wdim3 w = out_channels_dim L \<and>
     wdim4 w = modes1 L \<and> wdim5 w = modes2 L"

definition SpectralConv2d_wf :: "SpectralConv2d \<Rightarrow> bool" where
  "SpectralConv2d_wf L \<longleftrightarrow> weights_shape L (weights1 L) \<and> weights_shape L (weights2 L)"

text \<open>
  The contraction as the specification words it: the entry of the input spectrum at row
  \<open>r\<close> and column \<open>c\<close> is multiplied with the weight at mode \<open>(k, c)\<close> and summed over
  the in-time and in-variable channels.
\<close>

definition spec_contraction ::
  "(nat \<Rightarrow> nat \<Rightarrow> nat \<Rightarrow> nat \<Rightarrow> nat \<Rightarrow> complex) \<Rightarrow> complex tensor6
   \<Rightarrow> nat \<Rightarrow> nat \<Rightarrow> nat \<Rightarrow> nat \<Rightarrow> nat \<Rightarrow> nat \<Rightarrow> complex" where
  "spec_contraction x_ft w b j q r k c =
     (\<Sum>i<wdim0 w. \<Sum>p<wdim2 w. x_ft b i p r c * at6 w i j p q k c)"

text \<open>An entry of a result, when there is one.\<close>

definition entry5 :: "error + 'a tensor5 \<Rightarrow> nat \<Rightarrow> nat \<Rightarrow> nat \<Rightarrow> nat \<Rightarrow> nat \<Rightarrow> 'a option" where
  "entry5 res b i p x y = (case res of Inl e \<Rightarrow> None | Inr t \<Rightarrow> Some (at5 t b i p x y))"

section \<open>Example data\<close>

text \<open>
  A library whose forward transform is constantly 1 and whose activation halves its
  argument, a layer of one channel each way whose weights are constantly 2 and 3 (what
  \<open>__init__\<close> builds from such draws), and an input of four by four points.
\<close>

definition ex_lib :: torch_lib where
  "ex_lib = \<lparr>rfft2_at = (\<lambda>x b i p r c. 1), irfft2_at = (\<lambda>t s0 s1 b j q r c. 0),
       gelu_at = (\<lambda>v. v / 2)\<rparr>"

definition ex_layer :: "nat \<Rightarrow> SpectralConv2d" where
  "ex_layer m1 =
     \<lparr>in_channels_time = 1, out_channels_time = 1, in_channels_dim = 1, out_channels_dim = 1,
      modes1 = m1, modes2 = 1, scale = 1,
      weights1 = \<lparr>wdim0 = 1, wdim1 = 1, wdim2 = 1, wdim3 = 1, wdim4 = m1, wdim5 = 1,
                   at6 = (\<lambda>i j p q x y. 2)\<rparr>,
      weights2 = \<lparr>wdim0 = 1, wdim1 = 1, wdim2 = 1, wdim3 = 1, wdim4 = m1, wdim5 = 1,
                   at6 = (\<lambda>i j p q x y. 3)\<rparr>\<rparr>"

definition ex_input :: "real tensor5" where
  "ex_input = \<lparr>dim0 = 1, dim1 = 1, dim2 = 1, dim3 = 4, dim4 = 4, at5 = (\<lambda>b i p x y. 0)\<rparr>"

section \<open>The network\<close>

text \<open>
  The globals of the script that the model and the loops read. \<open>T_out\<close> is the script's
  \<open>T\<close>.
\<close>

record globals =
  T_in :: nat
  T_out :: nat
  step :: nat
  num_vars :: nat
  batch_size :: nat
  x_grid :: "real list"
  y_grid :: "real list"

subsection \<open>Library modules and functions\<close>

text \<open>\<open>nn.Linear\<close> acts on the last axis: \<open>y = x W\<^sup>T + b\<close>.\<close>

record Linear =
  in_features :: nat
  out_features :: nat
  weight :: "nat \<Rightarrow> nat \<Rightarrow> real"
  bias :: "nat \<Rightarrow> real"

definition Linear_forward :: "Linear \<Rightarrow> real tensor5 \<Rightarrow> error + real tensor5" where
  "Linear_forward l x =
     (if dim4 x \<noteq> in_features l then Inl RuntimeError
      else Inr (x\<lparr>dim4 := out_features l,
                  at5 := (\<lambda>b v r c h. (\<Sum>k<in_features l. at5 x b v r c k * weight l h k) + bias l h)\<rparr>))"

text \<open>
  \<open>nn.Conv3d\<close> with kernel size 1 mixes the channel axis, axis 1, at every point. It
  raises on an input with another number of channels or with an empty spatial axis.
\<close>

record Conv3d =
  in_channels :: nat
  out_channels :: nat
  conv_weight :: "nat \<Rightarrow> nat \<Rightarrow> real"
  conv_bias :: "nat \<Rightarrow> real"

definition Conv3d_forward :: "Conv3d \<Rightarrow> real tensor5 \<Rightarrow> error + real tensor5" where
  "Conv3d_forward w x =
     (if dim1 x \<noteq> in_channels w \<or> dim2 x = 0 \<or> dim3 x = 0 \<or> dim4 x = 0 then Inl RuntimeError
      else Inr (x\<lparr>dim1 := out_channels w,
                  at5 := (\<lambda>b h v r c. (\<Sum>k<in_channels w. conv_weight w h k * at5 x b k v r c)
                                        + conv_bias w h)\<rparr>))"

text \<open>\<open>F.gelu\<close>, entry by entry.\<close>

definition gelu :: "torch_lib \<Rightarrow> real tensor5 \<Rightarrow> real tensor5" where
  "gelu lib x = x\<lparr>at5 := (\<lambda>b i p r c. gelu_at lib (at5 x b i p r c))\<rparr>"

text \<open>\<open>x.permute(0, 4, 1, 2, 3)\<close> and \<open>x.permute(0, 2, 3, 4, 1)\<close>.\<close>

definition permute_04123 :: "'a tensor5 \<Rightarrow> 'a tensor5" where
  "permute_04123 x =
     \<lparr>dim0 = dim0 x, dim1 = dim4 x, dim2 = dim1 x, dim3 = dim2 x, dim4 = dim3 x,
      at5 = (\<lambda>b k v r c. at5 x b v r c k)\<rparr>"

definition permute_02341 :: "'a tensor5 \<Rightarrow> 'a tensor5" where
  "permute_02341 x =
     \<lparr>dim0 = dim0 x, dim1 = dim2 x, dim2 = dim3 x, dim3 = dim4 x, dim4 = dim1 x,
      at5 = (\<lambda>b v r c k. at5 x b k v r c)\<rparr>"

text \<open>\<open>torch.cat((a, b), dim=-1)\<close>: the other axes must agree.\<close>

definition cat_last :: "'a tensor5 \<Rightarrow> 'a tensor5 \<Rightarrow> error + 'a tensor5" where
  "cat_last a b =
     (if dim0 a = dim0 b \<and> dim1 a = dim1 b \<and> dim2 a = dim2 b \<and> dim3 a = dim3 b
      then Inr (a\<lparr>dim4 := dim4 a + dim4 b,
                  at5 := (\<lambda>i v r c k. if k < dim4 a then at5 a i v r c k
                                       else at5 b i v r c (k - dim4 a))\<rparr>)
      else Inl RuntimeError)"

text \<open>The slice \<open>t[..., lo:hi]\<close> of the last axis, for bounds that are not negative.\<close>

definition slice_last :: "'a tensor5 \<Rightarrow> nat \<Rightarrow> nat \<Rightarrow> 'a tensor5" where
  "slice_last t lo hi =
     t\<lparr>dim4 := min hi (dim4 t) - min lo (dim4 t),
       at5 := (\<lambda>i v r c k. at5 t i v r c (min lo (dim4 t) + k))\<rparr>"

text \<open>\<open>a + b\<close> with broadcasting.\<close>

definition add5 :: "real tensor5 \<Rightarrow> real tensor5 \<Rightarrow> error + real tensor5" where
  "add5 a b =
     ebind (bc_dim (dim0 a) (dim0 b)) (\<lambda>n0.
     ebind (bc_dim (dim1 a) (dim1 b)) (\<lambda>n1.
     ebind (bc_dim (dim2 a) (dim2 b)) (\<lambda>n2.
     ebind (bc_dim (dim3 a) (dim3 b)) (\<lambda>n3.
     ebind (bc_dim (dim4 a) (dim4 b)) (\<lambda>n4.
       Inr \<lparr>dim0 = n0, dim1 = n1, dim2 = n2, dim3 = n3, dim4 = n4,
            at5 = (\<lambda>i j p r c.
              at5 a (bc_ix (dim0 a) i) (bc_ix (dim1 a) j) (bc_ix (dim2 a) p)
                    (bc_ix (dim3 a) r) (bc_ix (dim4 a) c)
              + at5 b (bc_ix (dim0 b) i) (bc_ix (dim1 b) j) (bc_ix (dim2 b) p)
                      (bc_ix (dim3 b) r) (bc_ix (dim4 b) c))\<rparr>)))))"

subsection \<open>FNO2d\_Multi\<close>

text \<open>
  The module with its submodules; \<open>norm\<close> is \<open>nn.Identity()\<close>. \<open>training\<close> is the mode flag
  of \<open>nn.Module\<close>, which \<open>model.train()\<close> sets.
\<close>

record FNO2d_Multi =
  fno_modes1 :: nat
  fno_modes2 :: nat
  width :: nat
  fc0 :: Linear
  fc_d0 :: Linear
  conv0 :: SpectralConv2d
  conv1 :: SpectralConv2d
  conv2 :: SpectralConv2d
  conv3 :: SpectralConv2d
  conv4 :: SpectralConv2d
  conv5 :: SpectralConv2d
  w0 :: Conv3d
  w1 :: Conv3d
  w2 :: Conv3d
  w3 :: Conv3d
  w4 :: Conv3d
  w5 :: Conv3d
  fc1 :: Linear
  fc2 :: Linear
  fc_d1 :: Linear
  fc_d2 :: Linear
  training :: bool

definition norm_identity :: "real tensor5 \<Rightarrow> real tensor5" where
  "norm_identity x = x"

text \<open>
  The random initial parameters of the submodules: of the six linear layers in the order
  of their construction (\<open>fc0\<close>, \<open>fc_d0\<close>, \<open>fc1\<close>, \<open>fc2\<close>, \<open>fc_d1\<close>, \<open>fc_d2\<close>), of
  the six Fourier layers and of the six convolutions.
\<close>

record draws =
  linear_w :: "nat \<Rightarrow> nat \<Rightarrow> nat \<Rightarrow> real"
  linear_b :: "nat \<Rightarrow> nat \<Rightarrow> real"
  spectral_rand1 :: "nat \<Rightarrow> nat \<Rightarrow> nat \<Rightarrow> nat \<Rightarrow> nat \<Rightarrow> nat \<Rightarrow> nat \<Rightarrow> complex"
  spectral_rand2 :: "nat \<Rightarrow> nat \<Rightarrow> nat \<Rightarrow> nat \<Rightarrow> nat \<Rightarrow> nat \<Rightarrow> nat \<Rightarrow> complex"
  conv3d_w :: "nat \<Rightarrow> nat \<Rightarrow> nat \<Rightarrow> real"
  conv3d_b :: "nat \<Rightarrow> nat \<Rightarrow> real"

definition Linear_init :: "draws \<Rightarrow> nat \<Rightarrow> nat \<Rightarrow> nat \<Rightarrow> Linear" where
  "Linear_init d n i out = \<lparr>in_features = i, out_features = out,
                             weight = linear_w d n, bias = linear_b d n\<rparr>"

definition Conv3d_init :: "draws \<Rightarrow> nat \<Rightarrow> nat \<Rightarrow> nat \<Rightarrow> Conv3d" where
  "Conv3d_init d n i out = \<lparr>in_channels = i, out_channels = out,
                             conv_weight = conv3d_w d n, conv_bias = conv3d_b d n\<rparr>"

definition FNO2d_Multi_init :: "globals \<Rightarrow> draws \<Rightarrow> nat \<Rightarrow> nat \<Rightarrow> nat \<Rightarrow> error + FNO2d_Multi" where
  "FNO2d_Multi_init g d m1 m2 wd =
     (let sc = (\<lambda>n. SpectralConv2d_init wd wd (num_vars g) (num_vars g) m1 m2
                       (spectral_rand1 d n) (spectral_rand2 d n)) in
      ebind (sc 0) (\<lambda>c0. ebind (sc 1) (\<lambda>c1. ebind (sc 2) (\<lambda>c2.
      ebind (sc 3) (\<lambda>c3. ebind (sc 4) (\<lambda>c4. ebind (sc 5) (\<lambda>c5.
        Inr \<lparr>fno_modes1 = m1, fno_modes2 = m2, width = wd,
             fc0 = Linear_init d 0 (T_in g + 2) wd,
             fc_d0 = Linear_init d 1 (num_vars g) wd,
             conv0 = c0, conv1 = c1, conv2 = c2, conv3 = c3, conv4 = c4, conv5 = c5,
             w0 = Conv3d_init d 0 wd wd, w1 = Conv3d_init d 1 wd wd,
             w2 = Conv3d_init d 2 wd wd, w3 = Conv3d_init d 3 wd wd,
             w4 = Conv3d_init d 4 wd wd, w5 = Conv3d_init d 5 wd wd,
             fc1 = Linear_init d 2 wd 128,
             fc2 = Linear_init d 3 128 (step g),
             fc_d1 = Linear_init d 4 wd 128,
             fc_d2 = Linear_init d 5 128 (num_vars g),
             training = True\<rparr>)))))))"

text \<open>
  \<open>get_grid\<close>: the two coordinate arrays, reshaped and repeated to the shape (batch,
  variables, x, y, 1) and concatenated. The reshape raises when an array has another
  length than its axis.
\<close>

definition get_grid :: "globals \<Rightarrow> real tensor5 \<Rightarrow> error + real tensor5" where
  "get_grid g x =
     (let batchsize = dim0 x; nv = dim1 x; size_x = dim2 x; size_y = dim3 x in
      if length (x_grid g) \<noteq> size_x then Inl RuntimeError
      else if length (y_grid g) \<noteq> size_y then Inl RuntimeError
      else Inr \<lparr>dim0 = batchsize, dim1 = nv, dim2 = size_x, dim3 = size_y, dim4 = 2,
                at5 = (\<lambda>b v r c k. if k = 0 then x_grid g ! r else y_grid g ! c)\<rparr>)"

text \<open>The head of \<open>forward\<close>: the grid is appended, \<open>fc0\<close> lifts, the channels move to axis 1.\<close>

definition forward_lift :: "globals \<Rightarrow> FNO2d_Multi \<Rightarrow> real tensor5 \<Rightarrow> error + real tensor5" where
  "forward_lift g M x =
     ebind (get_grid g x) (\<lambda>grid.
     ebind (cat_last x grid) (\<lambda>x.
     ebind (Linear_forward (fc0 M) x) (\<lambda>x.
       Inr (permute_04123 x))))"

text \<open>The six blocks of \<open>forward\<close>, in the order of the source.\<close>

definition forward_blocks :: "torch_lib \<Rightarrow> FNO2d_Multi \<Rightarrow> real tensor5 \<Rightarrow> error + real tensor5" where
  "forward_blocks lib M x =
     ebind (SpectralConv2d_forward lib (conv0 M) (norm_identity x)) (\<lambda>x1.
     ebind (Conv3d_forward (w0 M) x) (\<lambda>x2.
     ebind (add5 (norm_identity x1) x2) (\<lambda>x.
     let x = gelu lib x in
     ebind (SpectralConv2d_forward lib (conv1 M) (norm_identity x)) (\<lambda>x1.
     ebind (Conv3d_forward (w1 M) x) (\<lambda>x2.
     ebind (add5 (norm_identity x1) x2) (\<lambda>x.
     let x = gelu lib x in
     ebind (SpectralConv2d_forward lib (conv2 M) (norm_identity x)) (\<lambda>x1.
     ebind (Conv3d_forward (w2 M) x) (\<lambda>x2.
     ebind (add5 (norm_identity x1) x2) (\<lambda>x.
     let x = gelu lib x in
     ebind (SpectralConv2d_forward lib (conv3 M) (norm_identity x)) (\<lambda>x1.
     ebind (Conv3d_forward (w3 M) x) (\<lambda>x2.
     ebind (add5 (norm_identity x1) x2) (\<lambda>x.
     ebind (SpectralConv2d_forward lib (conv4 M) (norm_identity x)) (\<lambda>x1.
     ebind (Conv3d_forward (w4 M) x) (\<lambda>x2.
     ebind (add5 (norm_identity x1) x2) (\<lambda>x.
     ebind (SpectralConv2d_forward lib (conv5 M) (norm_identity x)) (\<lambda>x1.
     ebind (Conv3d_forward (w5 M) x) (\<lambda>x2.
     add5 (norm_identity x1) x2)))))))))))))))))"

text \<open>The tail of \<open>forward\<close>: the channels move back to the last axis, \<open>fc1\<close>, GELU, \<open>fc2\<close>.\<close>

definition forward_project :: "torch_lib \<Rightarrow> FNO2d_Multi \<Rightarrow> real tensor5 \<Rightarrow> error + real tensor5" where
  "forward_project lib M x =
     (let x = permute_02341 x in
      ebind (Linear_forward (fc1 M) x) (\<lambda>x.
      let x = gelu lib x in
      Linear_forward (fc2 M) x))"

definition FNO2d_Multi_forward ::
  "globals \<Rightarrow> torch_lib \<Rightarrow> FNO2d_Multi \<Rightarrow> real tensor5 \<Rightarrow> error + real tensor5" where
  "FNO2d_Multi_forward g lib M x =
     ebind (forward_lift g M x) (\<lambda>x.
     ebind (forward_blocks lib M x) (\<lambda>x.
       forward_project lib M x))"

subsection \<open>The block stack as the specification words it\<close>

text \<open>
  A block is the sum of the Fourier layer and of the pointwise convolution of the latent
  tensor; a block with nonlinearity applies GELU to the sum.
\<close>

definition block_sum :: "torch_lib \<Rightarrow> SpectralConv2d \<Rightarrow> Conv3d \<Rightarrow> real tensor5 \<Rightarrow> error + real tensor5" where
  "block_sum lib conv w x =
     ebind (SpectralConv2d_forward lib conv x) (\<lambda>x1.
     ebind (Conv3d_forward w x) (\<lambda>x2. add5 x1 x2))"

definition block_gelu :: "torch_lib \<Rightarrow> SpectralConv2d \<Rightarrow> Conv3d \<Rightarrow> real tensor5 \<Rightarrow> error + real tensor5" where
  "block_gelu lib conv w x = ebind (block_sum lib conv w x) (\<lambda>s. Inr (gelu lib s))"

text \<open>The stack of the specification: the nonlinearity after blocks 1 to 4.\<close>

definition spec_blocks :: "torch_lib \<Rightarrow> FNO2d_Multi \<Rightarrow> real tensor5 \<Rightarrow> error + real tensor5" where
  "spec_blocks lib M x =
     ebind (block_gelu lib (conv0 M) (w0 M) x) (\<lambda>x.
     ebind (block_gelu lib (conv1 M) (w1 M) x) (\<lambda>x.
     ebind (block_gelu lib (conv2 M) (w2 M) x) (\<lambda>x.
     ebind (block_gelu lib (conv3 M) (w3 M) x) (\<lambda>x.
     ebind (block_sum lib (conv4 M) (w4 M) x) (\<lambda>x.
     block_sum lib (conv5 M) (w5 M) x)))))"

subsection \<open>An example network\<close>

text \<open>
  Globals, draws and the model that \<open>FNO2d_Multi(1, 1, 1)\<close> builds from them: every
  convolution and every linear layer has the weights 1 and the bias 0. A window of two
  time channels on four by four points, and a latent tensor.
\<close>

definition ex_globals :: globals where
  "ex_globals = \<lparr>T_in = 2, T_out = 4, step = 2, num_vars = 1, batch_size = 1,
                  x_grid = [0, 1, 2, 3], y_grid = [0, 1, 2, 3]\<rparr>"

definition ex_draws :: draws where
  "ex_draws = \<lparr>linear_w = (\<lambda>n h k. 1), linear_b = (\<lambda>n h. 0),
                spectral_rand1 = (\<lambda>n i j p q x y. 2), spectral_rand2 = (\<lambda>n i j p q x y. 3),
                conv3d_w = (\<lambda>n h k. 1), conv3d_b = (\<lambda>n h. 0)\<rparr>"

definition ex_window :: "real tensor5" where
  "ex_window = \<lparr>dim0 = 1, dim1 = 1, dim2 = 4, dim3 = 4, dim4 = 2, at5 = (\<lambda>b v r c k. 1)\<rparr>"

definition ex_conv3d :: Conv3d where
  "ex_conv3d = \<lparr>in_channels = 1, out_channels = 1, conv_weight = (\<lambda>h k. 1), conv_bias = (\<lambda>h. 0)\<rparr>"

definition ex_linear :: "nat \<Rightarrow> nat \<Rightarrow> Linear" where
  "ex_linear i out = \<lparr>in_features = i, out_features = out, weight = (\<lambda>h k. 1), bias = (\<lambda>h. 0)\<rparr>"

definition ex_model :: FNO2d_Multi where
  "ex_model =
     \<lparr>fno_modes1 = 1, fno_modes2 = 1, width = 1,
      fc0 = ex_linear 4 1, fc_d0 = ex_linear 1 1,
      conv0 = ex_layer 1, conv1 = ex_layer 1, conv2 = ex_layer 1,
      conv3 = ex_layer 1, conv4 = ex_layer 1, conv5 = ex_layer 1,
      w0 = ex_conv3d, w1 = ex_conv3d, w2 = ex_conv3d, w3 = ex_conv3d, w4 = ex_conv3d, w5 = ex_conv3d,
      fc1 = ex_linear 1 128, fc2 = ex_linear 128 2,
      fc_d1 = ex_linear 1 128, fc_d2 = ex_linear 128 1,
      training = True\<rparr>"

definition ex_latent :: "real tensor5" where
  "ex_latent = \<lparr>dim0 = 1, dim1 = 1, dim2 = 1, dim3 = 4, dim4 = 4, at5 = (\<lambda>b k v r c. 16)\<rparr>"

section \<open>Training and evaluation: the rollout over the horizon\<close>

text \<open>
  \<open>t.reshape(n, -1)\<close> for a tensor of five axes: element number \<open>e\<close>, in row-major order,
  is the entry at the indices that \<open>e\<close> unravels to.
\<close>

definition flat_at :: "'a tensor5 \<Rightarrow> nat \<Rightarrow> 'a" where
  "flat_at t e =
     at5 t (e div (dim1 t * dim2 t * dim3 t * dim4 t))
           ((e div (dim2 t * dim3 t * dim4 t)) mod dim1 t)
           ((e div (dim3 t * dim4 t)) mod dim2 t)
           ((e div dim4 t) mod dim3 t)
           (e mod dim4 t)"

definition reshape5 :: "nat \<Rightarrow> 'a tensor5 \<Rightarrow> error + 'a tensor2" where
  "reshape5 n t =
     (let numel = dim0 t * dim1 t * dim2 t * dim3 t * dim4 t in
      if n = 0 \<or> numel mod n \<noteq> 0 then Inl RuntimeError
      else Inr \<lparr>size0 = n, size1 = numel div n,
                rows = map (\<lambda>i. map (\<lambda>j. flat_at t (i * (numel div n) + j)) [0..<numel div n])
                           [0..<n]\<rparr>)"

text \<open>\<open>range(0, stop, stp)\<close> for bounds that are not negative.\<close>

definition py_range :: "nat \<Rightarrow> nat \<Rightarrow> error + nat list" where
  "py_range stop stp =
     (if stp = 0 then Inl ValueError
      else Inr (map (\<lambda>i. i * stp) [0..<(stop + stp - 1) div stp]))"

text \<open>\<open>myloss = LpLoss(size_average=False)\<close>.\<close>

definition myloss :: LpLoss where
  "myloss = \<lparr>lp_d = 2, lp_p = 2, lp_reduction = True, lp_size_average = False\<rparr>"

text \<open>
  \<open>loss += l\<close>. The variable \<open>loss\<close> starts as the number 0, here \<open>None\<close>, and the
  first addition makes it the tensor \<open>l\<close>; from then on the addition is in place, and
  \<open>l\<close> must expand to the shape of \<open>loss\<close>.
\<close>

fun add_loss :: "loss_out option \<Rightarrow> loss_out \<Rightarrow> error + loss_out" where
  "add_loss None l = Inr l"
| "add_loss (Some (Scalar a)) (Scalar b) = Inr (Scalar (fadd a b))"
| "add_loss (Some (Scalar a)) (PerExample bs) = Inl RuntimeError"
| "add_loss (Some (PerExample as)) (Scalar b) = Inr (PerExample (map (\<lambda>a. fadd a b) as))"
| "add_loss (Some (PerExample as)) (PerExample bs) =
     (if length bs = length as then Inr (PerExample (map2 fadd as bs))
      else if length bs = 1 then Inr (PerExample (map (\<lambda>a. fadd a (hd bs)) as))
      else Inl RuntimeError)"

text \<open>\<open>l.item()\<close> wants a tensor of one element; the number 0 has no such method.\<close>

fun item :: "loss_out option \<Rightarrow> error + fval" where
  "item None = Inl AttributeError"
| "item (Some (Scalar v)) = Inr v"
| "item (Some (PerExample vs)) = (if length vs = 1 then Inr (hd vs) else Inl RuntimeError)"

text \<open>
  The variables of the loop over the horizon: the window \<open>xx\<close>, the prediction buffer
  \<open>pred\<close>, unbound before the first pass, and the accumulated \<open>loss\<close>.
\<close>

record rollout_state =
  xx :: "real tensor5"
  pred :: "real tensor5 option"
  loss :: "loss_out option"

text \<open>One pass of the loop body, at the horizon index \<open>t\<close>.\<close>

definition rollout_step ::
  "globals \<Rightarrow> torch_lib \<Rightarrow> FNO2d_Multi \<Rightarrow> real tensor5 \<Rightarrow> nat \<Rightarrow> rollout_state
   \<Rightarrow> error + rollout_state" where
  "rollout_step g lib model yy t st =
     (let y = slice_last yy t (t + step g) in
      ebind (FNO2d_Multi_forward g lib model (xx st)) (\<lambda>im.
      ebind (reshape5 (batch_size g) im) (\<lambda>imr.
      ebind (reshape5 (batch_size g) y) (\<lambda>yr.
      ebind (LpLoss_call myloss imr yr) (\<lambda>l.
      ebind (add_loss (loss st) l) (\<lambda>loss'.
      ebind (if t = 0 then Inr im
             else (case pred st of None \<Rightarrow> Inl NameError | Some p \<Rightarrow> cat_last p im)) (\<lambda>pred'.
      ebind (cat_last (slice_last (xx st) (step g) (dim4 (xx st))) im) (\<lambda>xx'.
        Inr \<lparr>xx = xx', pred = Some pred', loss = Some loss'\<rparr>))))))))"

fun rollout_loop ::
  "globals \<Rightarrow> torch_lib \<Rightarrow> FNO2d_Multi \<Rightarrow> real tensor5 \<Rightarrow> nat list \<Rightarrow> rollout_state
   \<Rightarrow> error + rollout_state" where
  "rollout_loop g lib model yy [] st = Inr st"
| "rollout_loop g lib model yy (t # ts) st =
     ebind (rollout_step g lib model yy t st) (rollout_loop g lib model yy ts)"

text \<open>
  The rollout for one batch \<open>(xx, yy)\<close>: the loop, the step loss \<open>loss.item()\<close>, and the
  loss of the whole buffer against the whole target.
\<close>

definition rollout ::
  "globals \<Rightarrow> torch_lib \<Rightarrow> FNO2d_Multi \<Rightarrow> real tensor5 \<Rightarrow> real tensor5
   \<Rightarrow> error + (fval \<times> fval \<times> rollout_state)" where
  "rollout g lib model xx0 yy =
     ebind (py_range (T_out g) (step g)) (\<lambda>ts.
     ebind (rollout_loop g lib model yy ts \<lparr>xx = xx0, pred = None, loss = None\<rparr>) (\<lambda>st.
     ebind (item (loss st)) (\<lambda>l2_step.
       case pred st of
         None \<Rightarrow> Inl NameError
       | Some p \<Rightarrow>
           ebind (reshape5 (batch_size g) p) (\<lambda>pr.
           ebind (reshape5 (batch_size g) yy) (\<lambda>yr.
           ebind (LpLoss_call myloss pr yr) (\<lambda>l2_full.
           ebind (item (Some l2_full)) (\<lambda>l2_full_item.
             Inr (l2_step, l2_full_item, st))))))))"

text \<open>The length of the window in a result of the loop, when there is one.\<close>

definition window_length :: "error + rollout_state \<Rightarrow> nat option" where
  "window_length res = (case res of Inl e \<Rightarrow> None | Inr st \<Rightarrow> Some (dim4 (xx st)))"

subsection \<open>An example rollout\<close>

text \<open>
  A target of four time channels for the example window, and the example network for a
  step of four channels, which is longer than its window of two.
\<close>

definition ex_target :: "real tensor5" where
  "ex_target = \<lparr>dim0 = 1, dim1 = 1, dim2 = 4, dim3 = 4, dim4 = 4, at5 = (\<lambda>b v r c k. 1)\<rparr>"

definition ex_globals_wide :: globals where
  "ex_globals_wide = ex_globals\<lparr>step := 4\<rparr>"

definition ex_model_wide :: FNO2d_Multi where
  "ex_model_wide = ex_model\<lparr>fc2 := ex_linear 128 4\<rparr>"

text \<open>
  The example network for a step of one channel and a horizon of two, and a window whose
  two time channels hold the values 1 and 2.
\<close>

definition ex_globals_slide :: globals where
  "ex_globals_slide = ex_globals\<lparr>T_out := 2, step := 1\<rparr>"

definition ex_model_slide :: FNO2d_Multi where
  "ex_model_slide = ex_model\<lparr>fc2 := ex_linear 128 1\<rparr>"

definition ex_ramp :: "real tensor5" where
  "ex_ramp = \<lparr>dim0 = 1, dim1 = 1, dim2 = 4, dim3 = 4, dim4 = 2, at5 = (\<lambda>b v r c k. real k + 1)\<rparr>"

section \<open>Properties\<close>

subsection \<open>The min-max normalizer\<close>

lemma MinMax_init_fit:
  assumes "flat d \<noteq> []" "Min (set (flat d)) \<noteq> Max (set (flat d))"
  shows "MinMax_Normalizer_init d low high =
     Inr \<lparr>mm_a = Fin ((high - low) / (Max (set (flat d)) - Min (set (flat d)))),
          mm_b = Fin (- ((high - low) / (Max (set (flat d)) - Min (set (flat d)))) * Max (set (flat d)) + high)\<rparr>"
  using assms by (simp add: MinMax_Normalizer_init_def ebind_def torch_min_def torch_max_def fsub_def Let_def)

lemma f32_binade:
  fixes e :: int
  assumes "2 powi e \<le> \<bar>r\<bar>" "\<bar>r\<bar> < 2 powi (e + 1)" "- 126 \<le> e"
  shows "f32 r = (if 2 ^ 128 \<le> real_of_int (round_even (\<bar>r\<bar> / 2 powi (e - 23))) * 2 powi (e - 23)
                  then (if 0 < r then PInf else NInf)
                  else Fin (sgn r * (of_int (round_even (\<bar>r\<bar> / 2 powi (e - 23))) * 2 powi (e - 23))))"
proof -
  have pos: "0 < \<bar>r\<bar>"
    using assms(1) by (smt (verit) zero_less_power_int)
  then have r0: "r \<noteq> 0" by simp
  have p1: "(2::real) powr real_of_int e = 2 powi e"
    and p2: "(2::real) powr real_of_int (e + 1) = 2 powi (e + 1)"
    by (rule powr_real_of_int'; simp)+
  have "2 powr real_of_int e \<le> \<bar>r\<bar> \<and> \<bar>r\<bar> < 2 powr real_of_int (e + 1)"
    using assms(1,2) by (simp only: p1 p2)
  then have "\<lfloor>log 2 \<bar>r\<bar>\<rfloor> = e"
    using pos by (subst floor_log_eq_powr_iff) simp_all
  then have "max (- 126) \<lfloor>log 2 \<bar>r\<bar>\<rfloor> = e"
    using assms(3) by simp
  then show ?thesis
    using r0 by (simp add: f32_def Let_def)
qed

lemma f32_examples:
  "f32 8 = Fin 8" "f32 (1 / 8) = Fin (1 / 8)" "f32 (1 / 4) = Fin (1 / 4)" "f32 2 = Fin 2" "f32 1 = Fin 1"
  "f32 100000000 = Fin 100000000" "f32 100000008 = Fin 100000008"
  "f32 (- 25000002) = Fin (- 25000002)" "f32 (- 25000001) = Fin (- 25000000)"
  "f32 25000000 = Fin 25000000" "f32 25000002 = Fin 25000002"
  using f32_binade [of 3 8] f32_binade [of "- 3" "1 / 8"] f32_binade [of "- 2" "1 / 4"]
    f32_binade [of 1 2] f32_binade [of 0 1]
    f32_binade [of 26 100000000] f32_binade [of 26 100000008]
    f32_binade [of 24 "- 25000002"] f32_binade [of 24 "- 25000001"]
    f32_binade [of 24 25000000] f32_binade [of 24 25000002]
  by (simp_all add: round_even_def)


lemma f32_zero: "f32 0 = Fin 0"
  by (simp add: f32_def)

lemma f32_large:
  "f32 (2 ^ 128) = PInf" "f32 (2 ^ 127) = Fin (2 ^ 127)" "f32 (- (2 ^ 127)) = Fin (- (2 ^ 127))"
  using f32_binade [of 128 "2 ^ 128"] f32_binade [of 127 "2 ^ 127"] f32_binade [of 127 "- (2 ^ 127)"]
  by (simp_all add: round_even_def)

text \<open>
  Claim C6, as stated, fails in the arithmetic of the code. Fitted in single precision on
  the data \<open>100000000\<close> and \<open>100000008\<close> with the bounds \<open>-1\<close> and \<open>1\<close>, the
  normalizer has \<open>a = 1/4\<close> and \<open>b = -25000000\<close>, the sum \<open>-25000002 + 1\<close> rounded, and
  encodes the minimum to 0 and the maximum to 2. Fitted on \<open>-(2 ^ 127)\<close> and \<open>2 ^ 127\<close>,
  whose difference overflows, it has \<open>a = 0\<close> and \<open>b = 1\<close> and encodes both to 1.
\<close>

theorem MinMax_encode_extremes_counterexample:
  "rnd (Fin 100000000) = Fin 100000000 \<and> rnd (Fin 100000008) = Fin 100000008 \<and>
   MinMax_Normalizer_init_f32 \<lparr>size0 = 1, size1 = 2, rows = [[100000000, 100000008]]\<rparr> (- 1) 1
     = Inr \<lparr>mm_a = Fin (1 / 4), mm_b = Fin (- 25000000)\<rparr> \<and>
   MinMax_Normalizer_encode_f32 \<lparr>mm_a = Fin (1 / 4), mm_b = Fin (- 25000000)\<rparr>
       \<lparr>size0 = 1, size1 = 2, rows = [[Fin 100000000, Fin 100000008]]\<rparr>
     = Inr \<lparr>size0 = 1, size1 = 2, rows = [[Fin 0, Fin 2]]\<rparr> \<and>
   rnd (Fin (- (2 ^ 127))) = Fin (- (2 ^ 127)) \<and> rnd (Fin (2 ^ 127)) = Fin (2 ^ 127) \<and>
   MinMax_Normalizer_init_f32 \<lparr>size0 = 1, size1 = 2, rows = [[- (2 ^ 127), 2 ^ 127]]\<rparr> (- 1) 1
     = Inr \<lparr>mm_a = Fin 0, mm_b = Fin 1\<rparr> \<and>
   MinMax_Normalizer_encode_f32 \<lparr>mm_a = Fin 0, mm_b = Fin 1\<rparr>
       \<lparr>size0 = 1, size1 = 2, rows = [[Fin (- (2 ^ 127)), Fin (2 ^ 127)]]\<rparr>
     = Inr \<lparr>size0 = 1, size1 = 2, rows = [[Fin 1, Fin 1]]\<rparr>"
proof -
  have 1: "MinMax_Normalizer_init_f32 \<lparr>size0 = 1, size1 = 2, rows = [[100000000, 100000008]]\<rparr> (- 1) 1
     = Inr \<lparr>mm_a = Fin (1 / 4), mm_b = Fin (- 25000000)\<rparr>"
    by (simp add: MinMax_Normalizer_init_f32_def ebind_def torch_min_def torch_max_def flat_def
        fsub_def f32_examples)
  have 2: "MinMax_Normalizer_encode_f32 \<lparr>mm_a = Fin (1 / 4), mm_b = Fin (- 25000000)\<rparr>
       \<lparr>size0 = 1, size1 = 2, rows = [[Fin 100000000, Fin 100000008]]\<rparr>
     = Inr \<lparr>size0 = 1, size1 = 2, rows = [[Fin 0, Fin 2]]\<rparr>"
    by (simp add: MinMax_Normalizer_encode_f32_def f32_examples f32_zero)
  have 3: "MinMax_Normalizer_init_f32 \<lparr>size0 = 1, size1 = 2, rows = [[- (2 ^ 127), 2 ^ 127]]\<rparr> (- 1) 1
     = Inr \<lparr>mm_a = Fin 0, mm_b = Fin 1\<rparr>"
    using f32_large(1)
    by (simp add: MinMax_Normalizer_init_f32_def ebind_def torch_min_def torch_max_def flat_def
        fsub_def f32_examples f32_zero)
  have 4: "MinMax_Normalizer_encode_f32 \<lparr>mm_a = Fin 0, mm_b = Fin 1\<rparr>
       \<lparr>size0 = 1, size1 = 2, rows = [[Fin (- (2 ^ 127)), Fin (2 ^ 127)]]\<rparr>
     = Inr \<lparr>size0 = 1, size1 = 2, rows = [[Fin 1, Fin 1]]\<rparr>"
    by (simp add: MinMax_Normalizer_encode_f32_def f32_examples f32_zero)
  show ?thesis
    using 1 2 3 4 f32_large(2,3) by (simp add: f32_examples)
qed

text \<open>
  Claim C6, amended. In arithmetic without rounding and overflow, a \<open>MinMax_Normalizer\<close>
  fitted on data with minimum \<open>m\<close> and maximum \<open>M\<close>, \<open>m < M\<close>, encodes any tensor that
  has a sample so that every entry equal to \<open>m\<close> becomes \<open>low\<close> and every entry equal
  to \<open>M\<close> becomes \<open>high\<close>.
\<close>

theorem MinMax_encode_extremes:
  assumes init: "MinMax_Normalizer_init d low high = Inr N"
    and m: "m = Min (set (flat d))" and M: "M = Max (set (flat d))" and lt: "m < M"
    and ne: "size0 x \<noteq> 0"
  shows "\<exists>y. MinMax_Normalizer_encode N x = Inr y \<and>
           (\<forall>i<length (rows x). \<forall>j<length (rows x ! i).
              (rows x ! i ! j = Fin m \<longrightarrow> rows y ! i ! j = Fin low) \<and>
              (rows x ! i ! j = Fin M \<longrightarrow> rows y ! i ! j = Fin high))"
proof -
  have nonempty: "flat d \<noteq> []"
    using init by (auto simp: MinMax_Normalizer_init_def ebind_def torch_min_def split: if_splits)
  define a where "a = (high - low) / (M - m)"
  have N: "N = \<lparr>mm_a = Fin a, mm_b = Fin (- a * M + high)\<rparr>"
    using MinMax_init_fit [OF nonempty, of low high] lt init unfolding m M a_def by simp
  have "a * (M - m) = high - low"
    using lt by (simp add: a_def)
  then have lo: "a * m + (- a * M + high) = low"
    by (simp add: algebra_simps)
  have hi: "a * M + (- a * M + high) = high"
    by simp
  show ?thesis
    using ne lo hi by (simp add: MinMax_Normalizer_encode_def N)
qed

theorem MinMax_encode_extremes_witness:
  "\<exists>y. MinMax_Normalizer_encode \<lparr>mm_a = Fin 1, mm_b = Fin (- 2)\<rparr>
          \<lparr>size0 = 1, size1 = 2, rows = [[Fin 1, Fin 3]]\<rparr> = Inr y \<and>
       rows y ! 0 ! 0 = Fin (- 1) \<and> rows y ! 0 ! 1 = Fin 1"
  using MinMax_encode_extremes [of "\<lparr>size0 = 1, size1 = 2, rows = [[1, 3]]\<rparr>" "- 1" 1
      "\<lparr>mm_a = Fin 1, mm_b = Fin (- 2)\<rparr>" 1 3 "\<lparr>size0 = 1, size1 = 2, rows = [[Fin 1, Fin 3]]\<rparr>"]
  by (auto simp: MinMax_Normalizer_init_def ebind_def torch_min_def torch_max_def fsub_def flat_def
      less_Suc_eq)

subsection \<open>Decoding what was encoded\<close>

lemma bc_get_nth: "j < length v \<Longrightarrow> bc_get v j = v ! j"
  by (auto simp: bc_get_def)

lemma tensor2_eqI:
  fixes x y :: "'a tensor2"
  assumes "wf2 x" "wf2 y" "size0 y = size0 x" "size1 y = size1 x"
    and "\<And>i j. i < size0 x \<Longrightarrow> j < size1 x \<Longrightarrow> rows y ! i ! j = rows x ! i ! j"
  shows "y = x"
proof -
  have "rows y = rows x"
  proof (rule nth_equalityI)
    show "length (rows y) = length (rows x)" using assms by (simp add: wf2_def)
  next
    fix i assume i: "i < length (rows y)"
    then have ix: "i < size0 x" using assms by (simp add: wf2_def)
    have ly: "length (rows y ! i) = size1 x"
      using assms(2,4) i by (simp add: wf2_def list_all_length)
    have lx: "length (rows x ! i) = size1 x"
      using assms(1) ix by (simp add: wf2_def list_all_length)
    show "rows y ! i = rows x ! i"
      by (rule nth_equalityI) (use ly lx assms(5) ix in auto)
  qed
  with assms(3,4) show ?thesis by simp
qed

lemma bc_rows_same:
  assumes "wf2 x" "length v = size1 x"
  shows "\<exists>y. bc_rows f x v = Inr y \<and> wf2 y \<and> size0 y = size0 x \<and> size1 y = size1 x \<and>
           (\<forall>i<size0 x. \<forall>j<size1 x. rows y ! i ! j = f (rows x ! i ! j) (v ! j))"
proof -
  have "\<forall>i<size0 x. \<forall>j<size1 x. bc_get (rows x ! i) j = rows x ! i ! j"
    using assms(1) by (simp add: wf2_def list_all_length bc_get_nth)
  then show ?thesis
    using assms by (simp add: bc_rows_def bc_dim_def wf2_def list_all_length bc_get_nth)
qed

lemma gauss_point:
  "s \<noteq> 0 \<Longrightarrow> fadd (fmul (fdiv (fsub (Fin v) (Fin mu)) (Fin s)) (Fin s)) (Fin mu) = Fin v"
  by (simp add: fsub_def)

lemma range_point:
  "a \<noteq> 0 \<Longrightarrow> fdiv (fsub (fadd (fmul (Fin a) (Fin v)) (Fin b)) (Fin b)) (Fin a) = Fin v"
  by (simp add: fsub_def)

lemma is_finite_Fin: "is_finite v \<Longrightarrow> \<exists>r. v = Fin r"
  by (cases v) auto

lemma all_finite_nth:
  "all_finite x \<Longrightarrow> i < length (rows x) \<Longrightarrow> j < length (rows x ! i) \<Longrightarrow> \<exists>r. rows x ! i ! j = Fin r"
  by (auto simp: all_finite_def list_all_length intro: is_finite_Fin)

lemma map_map_id:
  "list_all (list_all P) xs \<Longrightarrow> (\<And>v. P v \<Longrightarrow> f v = v) \<Longrightarrow> map (map f) xs = xs"
  by (induction xs) (auto simp: list_all_iff intro: map_idI)

lemma MinMax_roundtrip:
  assumes init: "MinMax_Normalizer_init d low high = Inr N"
    and ne: "Min (set (flat d)) \<noteq> Max (set (flat d))" and hl: "high \<noteq> low"
    and fin: "all_finite x" and nz: "size0 x * size1 x \<noteq> 0"
  shows "ebind (MinMax_Normalizer_encode N x) (MinMax_Normalizer_decode N) = Inr x"
proof -
  have nonempty: "flat d \<noteq> []"
    using init by (auto simp: MinMax_Normalizer_init_def ebind_def torch_min_def split: if_splits)
  define a where "a = (high - low) / (Max (set (flat d)) - Min (set (flat d)))"
  define b where "b = - a * Max (set (flat d)) + high"
  have N: "N = \<lparr>mm_a = Fin a, mm_b = Fin b\<rparr>"
    using MinMax_init_fit [OF nonempty ne, of low high] init by (simp add: a_def b_def)
  have a0: "a \<noteq> 0" using ne hl by (simp add: a_def)
  have "map (map (\<lambda>v. fdiv (fsub (fadd (fmul (Fin a) v) (Fin b)) (Fin b)) (Fin a))) (rows x) = rows x"
    using fin range_point [OF a0] unfolding all_finite_def
    by (intro map_map_id [where P = is_finite]) (auto dest: is_finite_Fin)
  then show ?thesis
    using nz by (simp add: MinMax_Normalizer_encode_def MinMax_Normalizer_decode_def ebind_def N comp_def)
qed

lemma torch_std_nonneg:
  assumes "2 \<le> length xs"
  shows "\<exists>s. torch_std xs = Fin s \<and> 0 \<le> s"
proof -
  have "0 \<le> sum_list (map (\<lambda>x. (x - sum_list xs / real (length xs))\<^sup>2) xs)"
    by (rule sum_list_nonneg) auto
  then have "0 \<le> sum_list (map (\<lambda>x. (x - sum_list xs / real (length xs))\<^sup>2) xs) / real (length xs - 1)"
    by (rule divide_nonneg_nonneg) simp
  then show ?thesis
    using assms by (simp add: torch_std_def)
qed

lemma torch_mean_Fin: "xs \<noteq> [] \<Longrightarrow> \<exists>m. torch_mean xs = Fin m"
  by (simp add: torch_mean_def)

lemma Gaussian_roundtrip:
  assumes N: "N = GaussianNormalizer_init d eps" and two: "2 \<le> length (flat d)"
    and eps: "0 < eps" and fin: "all_finite x"
  shows "GaussianNormalizer_decode N (GaussianNormalizer_encode N x) = x"
proof -
  have ne: "flat d \<noteq> []"
    using two by auto
  obtain mu where mu: "g_mean N = Fin mu"
    using torch_mean_Fin [OF ne] by (auto simp: N GaussianNormalizer_init_def)
  obtain s where s: "g_std N = Fin s" "0 \<le> s"
    using torch_std_nonneg [OF two] by (auto simp: N GaussianNormalizer_init_def)
  have e: "g_eps N = eps" by (simp add: N GaussianNormalizer_init_def)
  have s0: "s + eps \<noteq> 0" using s eps by simp
  have "map (map (\<lambda>v. fadd (fmul (fdiv (fsub v (Fin mu)) (Fin (s + eps))) (Fin (s + eps))) (Fin mu))) (rows x) = rows x"
    using fin gauss_point [OF s0] unfolding all_finite_def
    by (intro map_map_id [where P = is_finite]) (auto dest: is_finite_Fin)
  then show ?thesis
    by (simp add: GaussianNormalizer_encode_def GaussianNormalizer_decode_def mu s e comp_def)
qed

lemma column_length: "length (column d j) = length (rows d)"
  by (simp add: column_def)

lemma Range_init_stats:
  assumes init: "RangeNormalizer_init d low high = Inr N"
    and nd: "\<forall>j<size1 d. Min (set (column d j)) \<noteq> Max (set (column d j))" and hl: "high \<noteq> low"
  shows "length (r_a N) = size1 d \<and> length (r_b N) = size1 d \<and>
         (\<forall>j<size1 d. \<exists>a b. r_a N ! j = Fin a \<and> r_b N ! j = Fin b \<and> a \<noteq> 0)"
  using assms
  by (auto simp: RangeNormalizer_init_def Let_def fsub_def split: if_splits)

lemma Range_roundtrip:
  assumes init: "RangeNormalizer_init d low high = Inr N"
    and nd: "\<forall>j<size1 d. Min (set (column d j)) \<noteq> Max (set (column d j))" and hl: "high \<noteq> low"
    and wf: "wf2 x" and k: "size1 x = size1 d" and fin: "all_finite x" and nz: "size0 x * size1 x \<noteq> 0"
  shows "ebind (RangeNormalizer_encode N x) (RangeNormalizer_decode N) = Inr x"
proof -
  note st = Range_init_stats [OF init nd hl]
  have la: "length (r_a N) = size1 x" and lb: "length (r_b N) = size1 x"
    using st k by simp_all
  obtain y1 where y1: "bc_rows (\<lambda>xv av. fmul av xv) x (r_a N) = Inr y1" "wf2 y1"
      "size0 y1 = size0 x" "size1 y1 = size1 x"
      "\<forall>i<size0 x. \<forall>j<size1 x. rows y1 ! i ! j = fmul (r_a N ! j) (rows x ! i ! j)"
    using bc_rows_same [OF wf la, of "\<lambda>xv av. fmul av xv"] by auto
  obtain y2 where y2: "bc_rows fadd y1 (r_b N) = Inr y2" "wf2 y2"
      "size0 y2 = size0 x" "size1 y2 = size1 x"
      "\<forall>i<size0 x. \<forall>j<size1 x. rows y2 ! i ! j = fadd (rows y1 ! i ! j) (r_b N ! j)"
    using bc_rows_same [OF y1(2), of "r_b N" fadd] lb y1(3,4) by auto
  obtain y3 where y3: "bc_rows fsub y2 (r_b N) = Inr y3" "wf2 y3"
      "size0 y3 = size0 x" "size1 y3 = size1 x"
      "\<forall>i<size0 x. \<forall>j<size1 x. rows y3 ! i ! j = fsub (rows y2 ! i ! j) (r_b N ! j)"
    using bc_rows_same [OF y2(2), of "r_b N" fsub] lb y2(3,4) by auto
  obtain y4 where y4: "bc_rows fdiv y3 (r_a N) = Inr y4" "wf2 y4"
      "size0 y4 = size0 x" "size1 y4 = size1 x"
      "\<forall>i<size0 x. \<forall>j<size1 x. rows y4 ! i ! j = fdiv (rows y3 ! i ! j) (r_a N ! j)"
    using bc_rows_same [OF y3(2), of "r_a N" fdiv] la y3(3,4) by auto
  have "y4 = x"
  proof (rule tensor2_eqI [OF wf y4(2) y4(3) y4(4)])
    fix i j assume ij: "i < size0 x" "j < size1 x"
    then obtain a b where ab: "r_a N ! j = Fin a" "r_b N ! j = Fin b" "a \<noteq> 0"
      using st k by auto
    from ij wf have "i < length (rows x)" "j < length (rows x ! i)"
      by (simp_all add: wf2_def list_all_length)
    then obtain v where v: "rows x ! i ! j = Fin v"
      using all_finite_nth [OF fin] by blast
    show "rows y4 ! i ! j = rows x ! i ! j"
      using ij y1(5) y2(5) y3(5) y4(5) range_point [OF ab(3), of v b] by (simp add: ab v)
  qed
  then show ?thesis
    using nz y1 y2 y3 y4
    by (simp add: RangeNormalizer_encode_def RangeNormalizer_decode_def ebind_def)
qed

lemma UnitGaussian_init_stats:
  assumes N: "N = UnitGaussianNormalizer_init d eps" and two: "2 \<le> size0 d" and wfd: "wf2 d"
    and eps: "0 < eps"
  shows "length (ug_mean N) = size1 d \<and> length (ug_std N) = size1 d \<and> ug_eps N = eps \<and>
         (\<forall>j<size1 d. \<exists>mu s. ug_mean N ! j = Fin mu \<and> ug_std N ! j = Fin s \<and> s + eps \<noteq> 0)"
proof -
  have "\<exists>mu s. torch_mean (column d j) = Fin mu \<and> torch_std (column d j) = Fin s \<and> s + eps \<noteq> 0" for j
  proof -
    have len: "2 \<le> length (column d j)"
      using two wfd by (simp add: column_length wf2_def)
    then have "column d j \<noteq> []" by auto
    from torch_mean_Fin [OF this] torch_std_nonneg [OF len] eps show ?thesis
      by force
  qed
  then show ?thesis
    by (simp add: N UnitGaussianNormalizer_init_def)
qed

lemma UnitGaussian_roundtrip:
  assumes N: "N = UnitGaussianNormalizer_init d eps" and two: "2 \<le> size0 d" and wfd: "wf2 d"
    and eps: "0 < eps"
    and wf: "wf2 x" and k: "size1 x = size1 d" and fin: "all_finite x"
  shows "ebind (UnitGaussianNormalizer_encode N x) (UnitGaussianNormalizer_decode N) = Inr x"
proof -
  note st = UnitGaussian_init_stats [OF N two wfd eps]
  define se where "se = map (\<lambda>s. fadd s (Fin (ug_eps N))) (ug_std N)"
  have lm: "length (ug_mean N) = size1 x" and ls: "length se = size1 x"
    using st k by (simp_all add: se_def)
  obtain y1 where y1: "bc_rows fsub x (ug_mean N) = Inr y1" "wf2 y1"
      "size0 y1 = size0 x" "size1 y1 = size1 x"
      "\<forall>i<size0 x. \<forall>j<size1 x. rows y1 ! i ! j = fsub (rows x ! i ! j) (ug_mean N ! j)"
    using bc_rows_same [OF wf lm, of fsub] by auto
  obtain y2 where y2: "bc_rows fdiv y1 se = Inr y2" "wf2 y2"
      "size0 y2 = size0 x" "size1 y2 = size1 x"
      "\<forall>i<size0 x. \<forall>j<size1 x. rows y2 ! i ! j = fdiv (rows y1 ! i ! j) (se ! j)"
    using bc_rows_same [OF y1(2), of se fdiv] ls y1(3,4) by auto
  obtain y3 where y3: "bc_rows fmul y2 se = Inr y3" "wf2 y3"
      "size0 y3 = size0 x" "size1 y3 = size1 x"
      "\<forall>i<size0 x. \<forall>j<size1 x. rows y3 ! i ! j = fmul (rows y2 ! i ! j) (se ! j)"
    using bc_rows_same [OF y2(2), of se fmul] ls y2(3,4) by auto
  obtain y4 where y4: "bc_rows fadd y3 (ug_mean N) = Inr y4" "wf2 y4"
      "size0 y4 = size0 x" "size1 y4 = size1 x"
      "\<forall>i<size0 x. \<forall>j<size1 x. rows y4 ! i ! j = fadd (rows y3 ! i ! j) (ug_mean N ! j)"
    using bc_rows_same [OF y3(2), of "ug_mean N" fadd] lm y3(3,4) by auto
  have "y4 = x"
  proof (rule tensor2_eqI [OF wf y4(2) y4(3) y4(4)])
    fix i j assume ij: "i < size0 x" "j < size1 x"
    then obtain mu s where ms: "ug_mean N ! j = Fin mu" "ug_std N ! j = Fin s" "s + eps \<noteq> 0"
      using st k by auto
    have sej: "se ! j = Fin (s + eps)"
      using ij st k ms by (simp add: se_def)
    from ij wf have "i < length (rows x)" "j < length (rows x ! i)"
      by (simp_all add: wf2_def list_all_length)
    then obtain v where v: "rows x ! i ! j = Fin v"
      using all_finite_nth [OF fin] by blast
    show "rows y4 ! i ! j = rows x ! i ! j"
      using ij y1(5) y2(5) y3(5) y4(5) gauss_point [OF ms(3), of v mu] by (simp add: ms sej v)
  qed
  then show ?thesis
    using y1 y2 y3 y4
    by (simp add: UnitGaussianNormalizer_encode_def UnitGaussianNormalizer_decode_def ebind_def
        se_def [symmetric] Let_def)
qed

text \<open>
  Claim C5, as stated, fails: a \<open>MinMax_Normalizer\<close> fitted on constant data has an
  infinite scale, and encoding then decoding the training data gives NaN.
\<close>

theorem normalizers_roundtrip_counterexample:
  "MinMax_Normalizer_init \<lparr>size0 = 1, size1 = 2, rows = [[1, 1]]\<rparr> (- 1) 1
     = Inr \<lparr>mm_a = PInf, mm_b = NInf\<rparr> \<and>
   ebind (MinMax_Normalizer_encode \<lparr>mm_a = PInf, mm_b = NInf\<rparr>
            \<lparr>size0 = 1, size1 = 2, rows = [[Fin 1, Fin 1]]\<rparr>)
         (MinMax_Normalizer_decode \<lparr>mm_a = PInf, mm_b = NInf\<rparr>)
     = Inr \<lparr>size0 = 1, size1 = 2, rows = [[NaN, NaN]]\<rparr> \<and>
   ebind (MinMax_Normalizer_encode \<lparr>mm_a = PInf, mm_b = NInf\<rparr>
            \<lparr>size0 = 1, size1 = 2, rows = [[Fin 1, Fin 1]]\<rparr>)
         (MinMax_Normalizer_decode \<lparr>mm_a = PInf, mm_b = NInf\<rparr>)
     \<noteq> Inr \<lparr>size0 = 1, size1 = 2, rows = [[Fin 1, Fin 1]]\<rparr>"
  by (simp add: MinMax_Normalizer_init_def MinMax_Normalizer_encode_def MinMax_Normalizer_decode_def
      ebind_def torch_min_def torch_max_def fsub_def flat_def)

text \<open>
  Claim C5, amended. For each of the four strategies, decoding the encoding of a tensor of
  finite values with the fitted number of features gives the tensor back, when the fitted
  scale is a finite number other than zero: the gaussian normalizers are fitted on at least
  two samples with a positive \<open>eps\<close>; for the range and min-max normalizers the maximum
  differs from the minimum (for each feature, or over all the data) and \<open>high\<close> from
  \<open>low\<close>.
\<close>

theorem normalizers_roundtrip:
  "(N1 = UnitGaussianNormalizer_init d eps \<and> 2 \<le> size0 d \<and> wf2 d \<and> 0 < eps \<and>
      wf2 x \<and> size1 x = size1 d \<and> all_finite x
    \<longrightarrow> ebind (UnitGaussianNormalizer_encode N1 x) (UnitGaussianNormalizer_decode N1) = Inr x) \<and>
   (N2 = GaussianNormalizer_init d eps \<and> 2 \<le> length (flat d) \<and> 0 < eps \<and> all_finite x
    \<longrightarrow> GaussianNormalizer_decode N2 (GaussianNormalizer_encode N2 x) = x) \<and>
   (RangeNormalizer_init d low high = Inr N3 \<and>
      (\<forall>j<size1 d. Min (set (column d j)) \<noteq> Max (set (column d j))) \<and> high \<noteq> low \<and>
      wf2 x \<and> size1 x = size1 d \<and> all_finite x \<and> size0 x * size1 x \<noteq> 0
    \<longrightarrow> ebind (RangeNormalizer_encode N3 x) (RangeNormalizer_decode N3) = Inr x) \<and>
   (MinMax_Normalizer_init d low high = Inr N4 \<and>
      Min (set (flat d)) \<noteq> Max (set (flat d)) \<and> high \<noteq> low \<and>
      all_finite x \<and> size0 x * size1 x \<noteq> 0
    \<longrightarrow> ebind (MinMax_Normalizer_encode N4 x) (MinMax_Normalizer_decode N4) = Inr x)"
proof (intro conjI impI)
  assume "N1 = UnitGaussianNormalizer_init d eps \<and> 2 \<le> size0 d \<and> wf2 d \<and> 0 < eps \<and>
      wf2 x \<and> size1 x = size1 d \<and> all_finite x"
  then show "ebind (UnitGaussianNormalizer_encode N1 x) (UnitGaussianNormalizer_decode N1) = Inr x"
    by (elim conjE) (rule UnitGaussian_roundtrip)
next
  assume "N2 = GaussianNormalizer_init d eps \<and> 2 \<le> length (flat d) \<and> 0 < eps \<and> all_finite x"
  then show "GaussianNormalizer_decode N2 (GaussianNormalizer_encode N2 x) = x"
    by (elim conjE) (rule Gaussian_roundtrip)
next
  assume "RangeNormalizer_init d low high = Inr N3 \<and>
      (\<forall>j<size1 d. Min (set (column d j)) \<noteq> Max (set (column d j))) \<and> high \<noteq> low \<and>
      wf2 x \<and> size1 x = size1 d \<and> all_finite x \<and> size0 x * size1 x \<noteq> 0"
  then show "ebind (RangeNormalizer_encode N3 x) (RangeNormalizer_decode N3) = Inr x"
    by (elim conjE) (rule Range_roundtrip)
next
  assume "MinMax_Normalizer_init d low high = Inr N4 \<and>
      Min (set (flat d)) \<noteq> Max (set (flat d)) \<and> high \<noteq> low \<and>
      all_finite x \<and> size0 x * size1 x \<noteq> 0"
  then show "ebind (MinMax_Normalizer_encode N4 x) (MinMax_Normalizer_decode N4) = Inr x"
    by (elim conjE) (rule MinMax_roundtrip)
qed

theorem normalizers_roundtrip_witness:
  "ebind (UnitGaussianNormalizer_encode
            (UnitGaussianNormalizer_init \<lparr>size0 = 2, size1 = 2, rows = [[1, 5], [3, 2]]\<rparr> 1)
            \<lparr>size0 = 1, size1 = 2, rows = [[Fin 1, Fin 5]]\<rparr>)
         (UnitGaussianNormalizer_decode
            (UnitGaussianNormalizer_init \<lparr>size0 = 2, size1 = 2, rows = [[1, 5], [3, 2]]\<rparr> 1))
     = Inr \<lparr>size0 = 1, size1 = 2, rows = [[Fin 1, Fin 5]]\<rparr> \<and>
   GaussianNormalizer_decode
       (GaussianNormalizer_init \<lparr>size0 = 2, size1 = 2, rows = [[1, 5], [3, 2]]\<rparr> 1)
       (GaussianNormalizer_encode
          (GaussianNormalizer_init \<lparr>size0 = 2, size1 = 2, rows = [[1, 5], [3, 2]]\<rparr> 1)
          \<lparr>size0 = 1, size1 = 2, rows = [[Fin 1, Fin 5]]\<rparr>)
     = \<lparr>size0 = 1, size1 = 2, rows = [[Fin 1, Fin 5]]\<rparr> \<and>
   ebind (RangeNormalizer_encode \<lparr>r_a = [Fin 1, Fin (2 / 3)], r_b = [Fin (- 2), Fin (- 7 / 3)]\<rparr>
            \<lparr>size0 = 1, size1 = 2, rows = [[Fin 1, Fin 5]]\<rparr>)
         (RangeNormalizer_decode \<lparr>r_a = [Fin 1, Fin (2 / 3)], r_b = [Fin (- 2), Fin (- 7 / 3)]\<rparr>)
     = Inr \<lparr>size0 = 1, size1 = 2, rows = [[Fin 1, Fin 5]]\<rparr> \<and>
   ebind (MinMax_Normalizer_encode \<lparr>mm_a = Fin (1 / 2), mm_b = Fin (- 3 / 2)\<rparr>
            \<lparr>size0 = 1, size1 = 2, rows = [[Fin 1, Fin 5]]\<rparr>)
         (MinMax_Normalizer_decode \<lparr>mm_a = Fin (1 / 2), mm_b = Fin (- 3 / 2)\<rparr>)
     = Inr \<lparr>size0 = 1, size1 = 2, rows = [[Fin 1, Fin 5]]\<rparr>"
  using normalizers_roundtrip [of
      "UnitGaussianNormalizer_init \<lparr>size0 = 2, size1 = 2, rows = [[1, 5], [3, 2]]\<rparr> 1"
      "\<lparr>size0 = 2, size1 = 2, rows = [[1, 5], [3, 2]]\<rparr>" 1
      "\<lparr>size0 = 1, size1 = 2, rows = [[Fin 1, Fin 5]]\<rparr>"
      "GaussianNormalizer_init \<lparr>size0 = 2, size1 = 2, rows = [[1, 5], [3, 2]]\<rparr> 1"
      "- 1" 1
      "\<lparr>r_a = [Fin 1, Fin (2 / 3)], r_b = [Fin (- 2), Fin (- 7 / 3)]\<rparr>"
      "\<lparr>mm_a = Fin (1 / 2), mm_b = Fin (- 3 / 2)\<rparr>"]
  by (simp add: wf2_def all_finite_def flat_def column_def RangeNormalizer_init_def
      MinMax_Normalizer_init_def ebind_def torch_min_def torch_max_def fsub_def Let_def
      numeral_2_eq_2 less_Suc_eq)

subsection \<open>Constant training data\<close>

lemma torch_std_cases: "torch_std xs = NaN \<or> (\<exists>s. torch_std xs = Fin s \<and> 0 \<le> s)"
proof (cases "2 \<le> length xs")
  case True
  then show ?thesis using torch_std_nonneg by blast
next
  case False
  then show ?thesis by (simp add: torch_std_def)
qed

lemma std_eps_nonzero: "0 < eps \<Longrightarrow> fadd (torch_std xs) (Fin eps) \<noteq> Fin 0"
  using torch_std_cases [of xs] by auto

lemma const_Min_Max:
  assumes "xs \<noteq> []" "\<forall>v\<in>set xs. v = (c::real)"
  shows "Min (set xs) = c \<and> Max (set xs) = c"
proof -
  have "set xs = {c}" using assms by (cases xs) auto
  then show ?thesis by simp
qed

lemma column_subset_flat:
  assumes "wf2 d" "j < size1 d"
  shows "set (column d j) \<subseteq> set (flat d)"
proof
  fix v assume "v \<in> set (column d j)"
  then obtain r where r: "r \<in> set (rows d)" "v = r ! j"
    by (auto simp: column_def)
  with assms have "j < length r"
    by (auto simp: wf2_def list_all_iff)
  then have "r ! j \<in> set r" by simp
  with r show "v \<in> set (flat d)"
    by (auto simp: flat_def)
qed

lemma fdiv_zero_not_finite: "\<not> is_finite (fdiv (Fin a) (Fin 0))"
  by simp

lemma const_mean:
  assumes "xs \<noteq> []" "\<forall>v\<in>set xs. v = (c::real)"
  shows "torch_mean xs = Fin c"
proof -
  have xs: "xs = replicate (length xs) c"
    using assms(2) by (simp add: replicate_length_same)
  have "sum_list xs = real (length xs) * c"
    by (subst xs) (simp add: sum_list_replicate)
  then show ?thesis
    using assms(1) by (simp add: torch_mean_def)
qed

lemma const_std:
  assumes "2 \<le> length xs" "\<forall>v\<in>set xs. v = (c::real)"
  shows "torch_std xs = Fin 0"
proof -
  have xs: "xs = replicate (length xs) c"
    using assms(2) by (simp add: replicate_length_same)
  have ne: "xs \<noteq> []" using assms(1) by auto
  have s: "sum_list xs = real (length xs) * c"
    by (subst xs) (simp add: sum_list_replicate)
  have m: "sum_list xs / real (length xs) = c"
    using ne by (simp add: s)
  have "sum_list (map (\<lambda>x. (x - c)\<^sup>2) xs) = 0"
    using assms(2) by (induction xs) auto
  then show ?thesis
    using assms(1) by (simp add: torch_std_def m)
qed

lemma flat_two:
  assumes "wf2 d" "2 \<le> size0 d" "size1 d \<noteq> 0"
  shows "2 \<le> length (flat d)"
proof -
  from assms obtain r1 r2 rest where r: "rows d = r1 # r2 # rest"
    by (cases "rows d"; cases "tl (rows d)") (auto simp: wf2_def)
  with assms have "r1 \<noteq> []" "r2 \<noteq> []"
    by (auto simp: wf2_def)
  then have "1 \<le> length r1" "1 \<le> length r2"
    by (simp_all add: Suc_leI)
  then show ?thesis
    by (simp add: flat_def r)
qed

lemma round_even_ge:
  assumes "real_of_int k \<le> x"
  shows "k \<le> round_even x"
proof -
  have "k \<le> \<lfloor>x\<rfloor>" using assms by (simp add: le_floor_iff)
  then show ?thesis
    by (simp add: round_even_def Let_def)
qed

lemma f32_ge:
  assumes e: "- 126 \<le> e" and r: "2 powi e \<le> r"
  shows "f32 r = PInf \<or> (\<exists>v. f32 r = Fin v \<and> 2 powi e \<le> v)"
proof -
  have r0: "0 < r"
    using r zero_less_power_int [of "2::real" e] by linarith
  define E where "E = \<lfloor>log 2 r\<rfloor>"
  define q :: real where "q = 2 powi (E - 23)"
  define k where "k = round_even (r / q)"
  have "2 powr real_of_int e \<le> r"
    using r by (simp add: powr_real_of_int')
  then have "real_of_int e \<le> log 2 r"
    using r0 by (simp add: le_log_iff)
  then have eE: "e \<le> E"
    by (simp add: E_def le_floor_iff)
  then have mx: "max (- 126) \<lfloor>log 2 r\<rfloor> = E"
    using e by (simp add: E_def)
  have "2 powr real_of_int E \<le> 2 powr log 2 r"
    unfolding E_def by (intro powr_mono) simp_all
  then have Er: "2 powi E \<le> r"
    using r0 by (simp add: powr_real_of_int')
  have q0: "0 < q" by (simp add: q_def)
  have split: "(2::real) powi E = 2 ^ 23 * q"
    by (simp add: q_def power_int_diff)
  have "real_of_int (2 ^ 23) \<le> r / q"
    using Er q0 by (simp add: split pos_le_divide_eq)
  then have "2 ^ 23 \<le> k"
    unfolding k_def by (rule round_even_ge)
  then have "real_of_int (2 ^ 23) \<le> real_of_int k"
    by (simp only: of_int_le_iff)
  then have "2 ^ 23 * q \<le> real_of_int k * q"
    using q0 by (simp add: mult_right_mono)
  then have kE: "2 powi E \<le> real_of_int k * q"
    by (simp only: split)
  have "(2::real) powi e \<le> 2 powi E"
    using eE by (intro power_int_increasing) simp_all
  with kE have ke: "2 powi e \<le> real_of_int k * q" by linarith
  have f: "f32 r = (if 2 ^ 128 \<le> real_of_int k * q then PInf else Fin (real_of_int k * q))"
    using r0 by (simp add: f32_def mx Let_def q_def k_def)
  show ?thesis
    using f ke by auto
qed

lemma f32_sum_nonzero:
  assumes eps: "2 powi (- 126) \<le> eps" and s: "nonneg_f s"
  shows "rnd (fadd s (f32 eps)) \<noteq> Fin 0"
proof -
  have p: "0 < (2::real) powi (- 126)" by simp
  from f32_ge [OF _ eps] consider "f32 eps = PInf" | v where "f32 eps = Fin v" "2 powi (- 126) \<le> v"
    by auto
  then show ?thesis
  proof cases
    case 1
    then show ?thesis using s by (cases s) simp_all
  next
    case 2
    show ?thesis
    proof (cases s)
      case (Fin a)
      with s have "2 powi (- 126) \<le> a + v" using 2(2) by simp
      from f32_ge [OF _ this] p Fin 2(1) show ?thesis by auto
    qed (use s 2 in simp_all)
  qed
qed

text \<open>
  Claim C7. On constant training data, the gaussian normalizers divide in \<open>encode\<close>, and
  multiply in \<open>decode\<close>, by the standard deviation plus \<open>eps\<close>, and this value is never
  zero, for an \<open>eps\<close> that single precision holds as a positive number (one no smaller than
  the least normal number \<open>2 ^ -126\<close>); nor is the sum rounded to single precision zero,
  whatever the deviation is among the values of \<open>torch.std\<close>: a number that is not
  negative, an infinity or NaN. For data of at least two samples, where the deviation is
  zero, the encoded entry of a number \<open>v\<close> is \<open>(v - c) / eps\<close> and the decoded one
  \<open>v * eps + c\<close>. The min-max and range normalizers are constructed without an error, and
  their scale is the quotient of \<open>high - low\<close> by zero, which is an infinity or NaN and no
  finite default.
\<close>

theorem degenerate_input:
  assumes wf: "wf2 d" and n: "size0 d \<noteq> 0" and k: "size1 d \<noteq> 0"
    and const: "\<forall>v\<in>set (flat d). v = c" and epsn: "2 powi (- 126) \<le> eps"
    and NG: "NG = GaussianNormalizer_init d eps"
    and NU: "NU = UnitGaussianNormalizer_init d eps"
    and wfx: "wf2 x" and kx: "size1 x = size1 d"
  shows "fadd (g_std NG) (Fin (g_eps NG)) \<noteq> Fin 0 \<and>
         (\<forall>s. nonneg_f s \<longrightarrow> rnd (fadd s (f32 eps)) \<noteq> Fin 0) \<and>
         (\<forall>i<size0 x. \<forall>j<size1 x.
            rows (GaussianNormalizer_encode NG x) ! i ! j
              = fdiv (fsub (rows x ! i ! j) (g_mean NG)) (fadd (g_std NG) (Fin (g_eps NG))) \<and>
            rows (GaussianNormalizer_decode NG x) ! i ! j
              = fadd (fmul (rows x ! i ! j) (fadd (g_std NG) (Fin (g_eps NG)))) (g_mean NG)) \<and>
         (\<exists>y z. UnitGaussianNormalizer_encode NU x = Inr y \<and>
                UnitGaussianNormalizer_decode NU x = Inr z \<and>
            (\<forall>i<size0 x. \<forall>j<size1 x.
               fadd (ug_std NU ! j) (Fin (ug_eps NU)) \<noteq> Fin 0 \<and>
               rows y ! i ! j
                 = fdiv (fsub (rows x ! i ! j) (ug_mean NU ! j)) (fadd (ug_std NU ! j) (Fin (ug_eps NU))) \<and>
               rows z ! i ! j
                 = fadd (fmul (rows x ! i ! j) (fadd (ug_std NU ! j) (Fin (ug_eps NU)))) (ug_mean NU ! j)) \<and>
            (2 \<le> size0 d \<longrightarrow>
               (\<forall>i<size0 x. \<forall>j<size1 x. \<forall>v. rows x ! i ! j = Fin v \<longrightarrow>
                  rows (GaussianNormalizer_encode NG x) ! i ! j = Fin ((v - c) / eps) \<and>
                  rows (GaussianNormalizer_decode NG x) ! i ! j = Fin (v * eps + c) \<and>
                  rows y ! i ! j = Fin ((v - c) / eps) \<and>
                  rows z ! i ! j = Fin (v * eps + c)))) \<and>
         (\<exists>N. MinMax_Normalizer_init d low high = Inr N \<and>
              mm_a N = fdiv (Fin (high - low)) (Fin 0) \<and> \<not> is_finite (mm_a N)) \<and>
         (\<exists>N. RangeNormalizer_init d low high = Inr N \<and>
              (\<forall>j<size1 d. r_a N ! j = fdiv (Fin (high - low)) (Fin 0) \<and> \<not> is_finite (r_a N ! j)))"
proof -
  have eps: "0 < eps"
    using epsn zero_less_power_int [of "2::real" "- 126"] by linarith
  have sp: "\<forall>s. nonneg_f s \<longrightarrow> rnd (fadd s (f32 eps)) \<noteq> Fin 0"
    using f32_sum_nonzero [OF epsn] by blast
  have rows_ne: "rows d \<noteq> []" using wf n by (auto simp: wf2_def)
  then obtain r where r: "r \<in> set (rows d)" by (cases "rows d") auto
  with wf k have "r \<noteq> []" by (auto simp: wf2_def list_all_iff)
  with r have ne: "flat d \<noteq> []" by (auto simp: flat_def)
  have coln: "column d j \<noteq> []" for j
    using rows_ne by (simp add: column_def)
  have colc: "\<forall>v\<in>set (column d j). v = c" if "j < size1 d" for j
    using column_subset_flat [OF wf that] const by blast
  have ge: "g_eps NG = eps" and ue: "ug_eps NU = eps"
    by (simp_all add: NG NU GaussianNormalizer_init_def UnitGaussianNormalizer_init_def)
  have gm: "g_mean NG = Fin c"
    using const_mean [OF ne const] by (simp add: NG GaussianNormalizer_init_def)
  have um: "ug_mean NU ! j = Fin c" if "j < size1 d" for j
    using const_mean [OF coln colc [OF that]] that
    by (simp add: NU UnitGaussianNormalizer_init_def)
  have lens: "length (ug_mean NU) = size1 x" "length (ug_std NU) = size1 x"
    by (simp_all add: NU UnitGaussianNormalizer_init_def kx)
  have g0: "fadd (g_std NG) (Fin (g_eps NG)) \<noteq> Fin 0"
    using std_eps_nonzero [OF eps] by (simp add: NG GaussianNormalizer_init_def)
  have u0: "fadd (ug_std NU ! j) (Fin (ug_eps NU)) \<noteq> Fin 0" if "j < size1 x" for j
    using std_eps_nonzero [OF eps] that by (simp add: NU UnitGaussianNormalizer_init_def kx)
  have ix: "i < length (rows x)" "j < length (rows x ! i)" if "i < size0 x" "j < size1 x" for i j
    using wfx that by (simp_all add: wf2_def list_all_length)
  have genc: "rows (GaussianNormalizer_encode NG x) ! i ! j
              = fdiv (fsub (rows x ! i ! j) (g_mean NG)) (fadd (g_std NG) (Fin (g_eps NG)))"
    and gdec: "rows (GaussianNormalizer_decode NG x) ! i ! j
              = fadd (fmul (rows x ! i ! j) (fadd (g_std NG) (Fin (g_eps NG)))) (g_mean NG)"
    if "i < size0 x" "j < size1 x" for i j
    using ix [OF that] by (simp_all add: GaussianNormalizer_encode_def GaussianNormalizer_decode_def)
  define se where "se = map (\<lambda>s. fadd s (Fin (ug_eps NU))) (ug_std NU)"
  have ls: "length se = size1 x" by (simp add: se_def lens)
  have sej: "se ! j = fadd (ug_std NU ! j) (Fin (ug_eps NU))" if "j < size1 x" for j
    using that lens by (simp add: se_def)
  obtain y1 where y1: "bc_rows fsub x (ug_mean NU) = Inr y1" "wf2 y1"
      "size0 y1 = size0 x" "size1 y1 = size1 x"
      "\<forall>i<size0 x. \<forall>j<size1 x. rows y1 ! i ! j = fsub (rows x ! i ! j) (ug_mean NU ! j)"
    using bc_rows_same [OF wfx lens(1), of fsub] by auto
  obtain y where y: "bc_rows fdiv y1 se = Inr y"
      "\<forall>i<size0 x. \<forall>j<size1 x. rows y ! i ! j = fdiv (rows y1 ! i ! j) (se ! j)"
    using bc_rows_same [OF y1(2), of se fdiv] ls y1(3,4) by auto
  obtain z1 where z1: "bc_rows fmul x se = Inr z1" "wf2 z1"
      "size0 z1 = size0 x" "size1 z1 = size1 x"
      "\<forall>i<size0 x. \<forall>j<size1 x. rows z1 ! i ! j = fmul (rows x ! i ! j) (se ! j)"
    using bc_rows_same [OF wfx ls, of fmul] by auto
  obtain z where z: "bc_rows fadd z1 (ug_mean NU) = Inr z"
      "\<forall>i<size0 x. \<forall>j<size1 x. rows z ! i ! j = fadd (rows z1 ! i ! j) (ug_mean NU ! j)"
    using bc_rows_same [OF z1(2), of "ug_mean NU" fadd] lens(1) z1(3,4) by auto
  have ye: "UnitGaussianNormalizer_encode NU x = Inr y"
    by (simp add: UnitGaussianNormalizer_encode_def y1(1) ebind_def se_def [symmetric] y(1))
  have ze: "UnitGaussianNormalizer_decode NU x = Inr z"
    by (simp add: UnitGaussianNormalizer_decode_def Let_def se_def [symmetric] z1(1) ebind_def z(1))
  have uenc: "rows y ! i ! j
        = fdiv (fsub (rows x ! i ! j) (ug_mean NU ! j)) (fadd (ug_std NU ! j) (Fin (ug_eps NU)))"
    and udec: "rows z ! i ! j
        = fadd (fmul (rows x ! i ! j) (fadd (ug_std NU ! j) (Fin (ug_eps NU)))) (ug_mean NU ! j)"
    if "i < size0 x" "j < size1 x" for i j
    using that y(2) y1(5) z(2) z1(5) sej by simp_all
  have vals: "rows (GaussianNormalizer_encode NG x) ! i ! j = Fin ((v - c) / eps) \<and>
              rows (GaussianNormalizer_decode NG x) ! i ! j = Fin (v * eps + c) \<and>
              rows y ! i ! j = Fin ((v - c) / eps) \<and>
              rows z ! i ! j = Fin (v * eps + c)"
    if two: "2 \<le> size0 d" and ij: "i < size0 x" "j < size1 x" and v: "rows x ! i ! j = Fin v"
    for i j v
  proof -
    have gs: "g_std NG = Fin 0"
      using const_std [OF flat_two [OF wf two k] const] by (simp add: NG GaussianNormalizer_init_def)
    have jd: "j < size1 d" using ij kx by simp
    have "2 \<le> length (column d j)"
      using two wf by (simp add: column_length wf2_def)
    from const_std [OF this colc [OF jd]] have us: "ug_std NU ! j = Fin 0"
      using jd by (simp add: NU UnitGaussianNormalizer_init_def)
    have e0: "eps \<noteq> 0" using eps by simp
    show ?thesis
      using e0 by (simp add: genc [OF ij] gdec [OF ij] uenc [OF ij] udec [OF ij] v gs gm ge ue us
          um [OF jd] fsub_def)
  qed
  from const_Min_Max [OF ne const]
  have mm: "\<exists>N. MinMax_Normalizer_init d low high = Inr N \<and>
              mm_a N = fdiv (Fin (high - low)) (Fin 0) \<and> \<not> is_finite (mm_a N)"
    using ne by (simp add: MinMax_Normalizer_init_def ebind_def torch_min_def torch_max_def fsub_def Let_def)
  have col: "Min (set (column d j)) = c \<and> Max (set (column d j)) = c" if "j < size1 d" for j
    by (rule const_Min_Max [OF coln colc [OF that]])
  have rg: "\<exists>N. RangeNormalizer_init d low high = Inr N \<and>
              (\<forall>j<size1 d. r_a N ! j = fdiv (Fin (high - low)) (Fin 0) \<and> \<not> is_finite (r_a N ! j))"
    using n col by (simp add: RangeNormalizer_init_def Let_def fsub_def)
  have ug: "\<exists>y z. UnitGaussianNormalizer_encode NU x = Inr y \<and>
                UnitGaussianNormalizer_decode NU x = Inr z \<and>
            (\<forall>i<size0 x. \<forall>j<size1 x.
               fadd (ug_std NU ! j) (Fin (ug_eps NU)) \<noteq> Fin 0 \<and>
               rows y ! i ! j
                 = fdiv (fsub (rows x ! i ! j) (ug_mean NU ! j)) (fadd (ug_std NU ! j) (Fin (ug_eps NU))) \<and>
               rows z ! i ! j
                 = fadd (fmul (rows x ! i ! j) (fadd (ug_std NU ! j) (Fin (ug_eps NU)))) (ug_mean NU ! j)) \<and>
            (2 \<le> size0 d \<longrightarrow>
               (\<forall>i<size0 x. \<forall>j<size1 x. \<forall>v. rows x ! i ! j = Fin v \<longrightarrow>
                  rows (GaussianNormalizer_encode NG x) ! i ! j = Fin ((v - c) / eps) \<and>
                  rows (GaussianNormalizer_decode NG x) ! i ! j = Fin (v * eps + c) \<and>
                  rows y ! i ! j = Fin ((v - c) / eps) \<and>
                  rows z ! i ! j = Fin (v * eps + c)))"
    using ye ze u0 uenc udec vals by blast
  show ?thesis
    using g0 sp genc gdec ug mm rg by blast
qed


theorem degenerate_input_witness:
  "(\<exists>y z. UnitGaussianNormalizer_encode
             (UnitGaussianNormalizer_init \<lparr>size0 = 2, size1 = 1, rows = [[4], [4]]\<rparr> (1 / 100000))
             \<lparr>size0 = 1, size1 = 1, rows = [[Fin 5]]\<rparr> = Inr y \<and>
          UnitGaussianNormalizer_decode
             (UnitGaussianNormalizer_init \<lparr>size0 = 2, size1 = 1, rows = [[4], [4]]\<rparr> (1 / 100000))
             \<lparr>size0 = 1, size1 = 1, rows = [[Fin 5]]\<rparr> = Inr z \<and>
          rows y ! 0 ! 0 = Fin 100000 \<and> rows z ! 0 ! 0 = Fin (80001 / 20000)) \<and>
   rows (GaussianNormalizer_encode
           (GaussianNormalizer_init \<lparr>size0 = 2, size1 = 1, rows = [[4], [4]]\<rparr> (1 / 100000))
           \<lparr>size0 = 1, size1 = 1, rows = [[Fin 5]]\<rparr>) ! 0 ! 0 = Fin 100000 \<and>
   rows (GaussianNormalizer_decode
           (GaussianNormalizer_init \<lparr>size0 = 2, size1 = 1, rows = [[4], [4]]\<rparr> (1 / 100000))
           \<lparr>size0 = 1, size1 = 1, rows = [[Fin 5]]\<rparr>) ! 0 ! 0 = Fin (80001 / 20000) \<and>
   (\<exists>N. MinMax_Normalizer_init \<lparr>size0 = 2, size1 = 1, rows = [[4], [4]]\<rparr> (- 1) 1 = Inr N \<and>
        mm_a N = PInf) \<and>
   (\<exists>N. RangeNormalizer_init \<lparr>size0 = 2, size1 = 1, rows = [[4], [4]]\<rparr> (- 1) 1 = Inr N \<and>
        r_a N ! 0 = PInf)"
  using degenerate_input [where d = "\<lparr>size0 = 2, size1 = 1, rows = [[4], [4]]\<rparr>" and c = 4
      and eps = "1 / 100000" and x = "\<lparr>size0 = 1, size1 = 1, rows = [[Fin 5]]\<rparr>"
      and low = "- 1" and high = 1, OF _ _ _ _ _ refl refl]
  by (auto simp: wf2_def flat_def)

subsection \<open>The relative loss\<close>

lemma chunks_concat:
  assumes "\<forall>r\<in>set rs. length r = k"
  shows "map (\<lambda>i. take k (drop (i * k) (concat rs))) [0..<length rs] = rs"
  using assms
proof (induction rs)
  case Nil
  then show ?case by simp
next
  case (Cons r rs)
  have "map (\<lambda>i. take k (drop (i * k) (concat (r # rs)))) [0..<length (r # rs)]
      = take k (concat (r # rs)) # map (\<lambda>i. take k (drop (Suc i * k) (concat (r # rs)))) [0..<length rs]"
    by (simp add: upt_conv_Cons map_Suc_upt [symmetric] del: upt_Suc)
  also have "take k (concat (r # rs)) = r"
    using Cons.prems by simp
  also have "map (\<lambda>i. take k (drop (Suc i * k) (concat (r # rs)))) [0..<length rs]
      = map (\<lambda>i. take k (drop (i * k) (concat rs))) [0..<length rs]"
    using Cons.prems by (simp add: add.commute)
  also have "\<dots> = rs"
    using Cons by simp
  finally show ?case .
qed

lemma reshape_rows_id:
  fixes t :: "'a tensor2"
  assumes "wf2 t" "size0 t * size1 t \<noteq> 0"
  shows "reshape_rows (size0 t) t = Inr t"
proof -
  have "map (\<lambda>i. take (size1 t) (drop (i * size1 t) (concat (rows t)))) [0..<length (rows t)] = rows t"
    using assms(1) by (intro chunks_concat) (simp add: wf2_def list_all_iff)
  then show ?thesis
    using assms by (simp add: reshape_rows_def flat_def wf2_def)
qed

lemma fadd_nonneg: "nonneg_f a \<Longrightarrow> nonneg_f b \<Longrightarrow> nonneg_f (fadd a b)"
  by (cases a; cases b) auto

lemma fadd_not_finite:
  "nonneg_f a \<Longrightarrow> nonneg_f b \<Longrightarrow> \<not> is_finite a \<or> \<not> is_finite b \<Longrightarrow> \<not> is_finite (fadd a b)"
  by (cases a; cases b) auto

lemma foldl_fadd_nonneg:
  "nonneg_f acc \<Longrightarrow> \<forall>v\<in>set vs. nonneg_f v \<Longrightarrow> nonneg_f (foldl fadd acc vs)"
  by (induction vs arbitrary: acc) (auto simp: fadd_nonneg)

lemma foldl_fadd_not_finite:
  "nonneg_f acc \<Longrightarrow> \<forall>v\<in>set vs. nonneg_f v \<Longrightarrow>
   \<not> is_finite acc \<or> (\<exists>v\<in>set vs. \<not> is_finite v) \<Longrightarrow> \<not> is_finite (foldl fadd acc vs)"
proof (induction vs arbitrary: acc)
  case Nil
  then show ?case by simp
next
  case (Cons v vs)
  have nn: "nonneg_f (fadd acc v)" using Cons.prems by (simp add: fadd_nonneg)
  show ?case
  proof (cases "\<not> is_finite acc \<or> \<not> is_finite v")
    case True
    then have "\<not> is_finite (fadd acc v)"
      using Cons.prems by (intro fadd_not_finite) auto
    with nn Cons.prems(2) show ?thesis by (simp add: Cons.IH)
  next
    case False
    with Cons.prems(3) have "\<exists>u\<in>set vs. \<not> is_finite u" by auto
    with nn Cons.prems(2) show ?thesis by (simp add: Cons.IH)
  qed
qed

lemma torch_sum_not_finite:
  assumes "\<forall>v\<in>set vs. nonneg_f v" "i < length vs" "\<not> is_finite (vs ! i)"
  shows "\<not> is_finite (torch_sum vs)"
  unfolding torch_sum_def
  using assms by (intro foldl_fadd_not_finite) (auto intro: nth_mem)

lemma torch_mean_f_not_finite:
  assumes "\<forall>v\<in>set vs. nonneg_f v" "i < length vs" "\<not> is_finite (vs ! i)"
  shows "\<not> is_finite (torch_mean_f vs)"
proof -
  have "\<not> is_finite (torch_sum vs)" using assms by (rule torch_sum_not_finite)
  then show ?thesis
    unfolding torch_mean_f_def by (cases "torch_sum vs") auto
qed

lemma fdiv_nonneg: "0 \<le> a \<Longrightarrow> 0 \<le> b \<Longrightarrow> nonneg_f (fdiv (Fin a) (Fin b))"
  by auto

lemma torch_norm_nonneg: "v \<in> set (torch_norm p t) \<Longrightarrow> 0 \<le> v"
  by (auto simp: torch_norm_def)

lemma torch_norm_length: "length (torch_norm p t) = length (rows t)"
  by (simp add: torch_norm_def)

lemma sum_powr_zero: "\<forall>v\<in>set r. v = (0::real) \<Longrightarrow> sum_list (map (\<lambda>v. \<bar>v\<bar> powr p) r) = 0"
  by (induction r) auto

lemma torch_norm_zero_row:
  assumes "i < length (rows t)" "\<forall>v\<in>set (rows t ! i). v = 0"
  shows "torch_norm p t ! i = 0"
  using assms by (simp add: torch_norm_def sum_powr_zero)

lemma bc2_same:
  assumes "size0 y = size0 x" "size1 y = size1 x"
  shows "\<exists>d. bc2 f x y = Inr d \<and> length (rows d) = size0 x"
  using assms by (simp add: bc2_def bc_dim_def ebind_def)

text \<open>
  Claim C10. The loss is the relative one, \<open>__call__\<close> being \<open>rel\<close>. For a prediction
  and a target of the same shape, with at least one element, in which example \<open>i\<close> of the
  target is zero everywhere, the call raises no error, and what it returns is not finite:
  the sum or the mean over the examples is an infinity or NaN, and without reduction the
  entry of example \<open>i\<close> is.
\<close>

theorem rel_zero_target:
  assumes p: "0 < lp_p L"
    and wf: "wf2 x" "wf2 y" and shape: "size0 y = size0 x" "size1 y = size1 x"
    and nz: "size0 x * size1 x \<noteq> 0"
    and i: "i < size0 x" and zero: "\<forall>v\<in>set (rows y ! i). v = 0"
  shows "\<exists>r. LpLoss_call L x y = Inr r \<and>
           (case r of Scalar v \<Rightarrow> \<not> is_finite v | PerExample vs \<Rightarrow> \<not> is_finite (vs ! i))"
proof -
  have rx: "reshape_rows (size0 x) x = Inr x"
    using wf(1) nz by (rule reshape_rows_id)
  have ry: "reshape_rows (size0 x) y = Inr y"
    using reshape_rows_id [OF wf(2)] nz shape by simp
  obtain d where d: "bc2 (-) x y = Inr d" "length (rows d) = size0 x"
    using bc2_same [OF shape] by blast
  define quot where "quot = map2 (\<lambda>dn yn. fdiv (Fin dn) (Fin yn))
      (torch_norm (lp_p L) d) (torch_norm (lp_p L) y)"
  have ly: "length (rows y) = size0 x"
    using wf(2) shape by (simp add: wf2_def)
  have len: "length quot = size0 x"
    by (simp add: quot_def torch_norm_length d ly)
  have nn: "\<forall>v\<in>set quot. nonneg_f v"
    unfolding quot_def by (auto simp: set_zip intro!: fdiv_nonneg torch_norm_nonneg nth_mem
        simp del: fdiv.simps)
  have yi: "torch_norm (lp_p L) y ! i = 0"
    using i zero ly by (intro torch_norm_zero_row) auto
  have qi: "\<not> is_finite (quot ! i)"
    using i yi by (simp add: quot_def torch_norm_length d ly)
  have call: "LpLoss_call L x y =
      (if lp_reduction L
       then (if lp_size_average L then Inr (Scalar (torch_mean_f quot)) else Inr (Scalar (torch_sum quot)))
       else Inr (PerExample quot))"
    by (simp add: LpLoss_call_def LpLoss_rel_def rx ry d ebind_def quot_def Let_def)
  show ?thesis
    using qi torch_sum_not_finite [OF nn _ qi] torch_mean_f_not_finite [OF nn _ qi] i len
    by (simp add: call)
qed

theorem rel_zero_target_witness:
  "\<exists>r. LpLoss_call \<lparr>lp_d = 2, lp_p = 2, lp_reduction = True, lp_size_average = False\<rparr>
          \<lparr>size0 = 2, size1 = 2, rows = [[1, 2], [3, 4]]\<rparr>
          \<lparr>size0 = 2, size1 = 2, rows = [[0, 0], [3, 5]]\<rparr> = Inr r \<and>
       (case r of Scalar v \<Rightarrow> \<not> is_finite v | PerExample vs \<Rightarrow> \<not> is_finite (vs ! 0))"
  using rel_zero_target [of "\<lparr>lp_d = 2, lp_p = 2, lp_reduction = True, lp_size_average = False\<rparr>"
      "\<lparr>size0 = 2, size1 = 2, rows = [[1, 2], [3, 4]]\<rparr>"
      "\<lparr>size0 = 2, size1 = 2, rows = [[0, 0], [3, 5]]\<rparr>" 0]
  by (simp add: wf2_def)

subsection \<open>The Fourier layer\<close>

lemma bc_ix_less: "k < d \<Longrightarrow> bc_ix d k = k"
  by (auto simp: bc_ix_def)

lemma bc_dim_same: "bc_dim n n = Inr n"
  by (simp add: bc_dim_def)

lemma compl_mul2d_same:
  assumes "dim1 input = wdim0 w" "dim2 input = wdim2 w" "dim3 input = wdim4 w" "dim4 input = wdim5 w"
  shows "compl_mul2d input w =
     Inr \<lparr>dim0 = dim0 input, dim1 = wdim1 w, dim2 = wdim3 w, dim3 = wdim4 w, dim4 = wdim5 w,
          at5 = (\<lambda>b j q x y. \<Sum>i<wdim0 w. \<Sum>p<wdim2 w.
                   at5 input b i p (bc_ix (wdim4 w) x) (bc_ix (wdim5 w) y)
                   * at6 w i j p q (bc_ix (wdim4 w) x) (bc_ix (wdim5 w) y))\<rparr>"
proof -
  have "(\<Sum>i<wdim0 w. \<Sum>p<wdim2 w.
           at5 input b (bc_ix (wdim0 w) i) (bc_ix (wdim2 w) p) (bc_ix (wdim4 w) x) (bc_ix (wdim5 w) y)
           * at6 w (bc_ix (wdim0 w) i) j (bc_ix (wdim2 w) p) q (bc_ix (wdim4 w) x) (bc_ix (wdim5 w) y))
      = (\<Sum>i<wdim0 w. \<Sum>p<wdim2 w.
           at5 input b i p (bc_ix (wdim4 w) x) (bc_ix (wdim5 w) y)
           * at6 w i j p q (bc_ix (wdim4 w) x) (bc_ix (wdim5 w) y))" for b j q x y
    by (intro sum.cong refl) (simp add: bc_ix_less)
  then show ?thesis
    using assms by (simp add: compl_mul2d_def ebind_def bc_dim_same)
qed

lemma forward_out_ft_entries:
  assumes wf: "SpectralConv2d_wf L"
    and ch: "dim1 x = in_channels_time L" "dim2 x = in_channels_dim L"
    and m1: "0 < modes1 L" "modes1 L \<le> dim3 x"
    and m2: "modes2 L \<le> dim4 x div 2 + 1" and y0: "0 < dim4 x"
    and ne: "0 < dim0 x" "0 < in_channels_time L" "0 < in_channels_dim L"
      "0 < out_channels_time L" "0 < out_channels_dim L"
  shows "\<exists>out_ft y.
      forward_out_ft lib L x = Inr out_ft \<and>
      shape5 out_ft = (dim0 x, out_channels_time L, out_channels_dim L, dim3 x, dim4 x div 2 + 1) \<and>
      (\<forall>b<dim0 x. \<forall>j<out_channels_time L. \<forall>q<out_channels_dim L. \<forall>r<dim3 x.
       \<forall>c<dim4 x div 2 + 1. at5 out_ft b j q r c =
         (if c < modes2 L \<and> dim3 x - modes1 L \<le> r
          then spec_contraction (rfft2_at lib x) (weights2 L) b j q r (r - (dim3 x - modes1 L)) c
          else if c < modes2 L \<and> r < modes1 L
          then spec_contraction (rfft2_at lib x) (weights1 L) b j q r r c
          else 0)) \<and>
      SpectralConv2d_forward lib L x = Inr y \<and>
      shape5 y = (dim0 x, out_channels_time L, out_channels_dim L, dim3 x, dim4 x)"
proof -
  define X where "X = dim3 x"
  define Yh where "Yh = dim4 x div 2 + 1"
  define x_ft where "x_ft = \<lparr>dim0 = dim0 x, dim1 = dim1 x, dim2 = dim2 x, dim3 = X,
                dim4 = Yh, at5 = rfft2_at lib x\<rparr>"
  have w1: "weights_shape L (weights1 L)" and w2: "weights_shape L (weights2 L)"
    using wf by (simp_all add: SpectralConv2d_wf_def)
  have X0: "0 < X" using m1 by (simp add: X_def)
  have fft: "rfft2 lib x = Inr x_ft"
    using X0 y0 ne ch by (simp add: rfft2_def x_ft_def X_def Yh_def)
  have hs: "hi_start X (modes1 L) = X - modes1 L"
    using m1 by (simp add: hi_start_def)
  have mins: "min (modes1 L) X = modes1 L" "min (modes2 L) Yh = modes2 L"
    using m1 m2 by (simp_all add: X_def Yh_def)
  have xx: "X - (X - modes1 L) = modes1 L"
    using m1 by (simp add: X_def)
  obtain v1 where v1: "compl_mul2d (slice_lo x_ft (modes1 L) (modes2 L)) (weights1 L) = Inr v1"
    and v1s: "dim0 v1 = dim0 x" "dim1 v1 = out_channels_time L" "dim2 v1 = out_channels_dim L"
       "dim3 v1 = modes1 L" "dim4 v1 = modes2 L"
    and v1a: "\<And>b j q r c. r < modes1 L \<Longrightarrow> c < modes2 L \<Longrightarrow>
       at5 v1 b j q r c = spec_contraction (rfft2_at lib x) (weights1 L) b j q r r c"
    using w1 ch mins
    by (simp add: compl_mul2d_same slice_lo_def x_ft_def weights_shape_def spec_contraction_def
        bc_ix_less)
  obtain v2 where v2: "compl_mul2d (slice_hi x_ft (modes1 L) (modes2 L)) (weights2 L) = Inr v2"
    and v2s: "dim0 v2 = dim0 x" "dim1 v2 = out_channels_time L" "dim2 v2 = out_channels_dim L"
       "dim3 v2 = modes1 L" "dim4 v2 = modes2 L"
    and v2a: "\<And>b j q r c. r < modes1 L \<Longrightarrow> c < modes2 L \<Longrightarrow>
       at5 v2 b j q r c = spec_contraction (rfft2_at lib x) (weights2 L) b j q (X - modes1 L + r) r c"
    using w2 ch mins hs xx
    by (simp add: compl_mul2d_same slice_hi_def x_ft_def weights_shape_def spec_contraction_def
        bc_ix_less)
  define out0 :: "complex tensor5"
    where "out0 = zeros5 (dim0 x) (out_channels_time L) (out_channels_dim L) X Yh"
  define out1 where "out1 = out0\<lparr>at5 := (\<lambda>b j q r c.
       if 0 \<le> r \<and> r < modes1 L \<and> c < min (modes2 L) (dim4 out0)
       then at5 v1 (bc_ix (dim0 v1) b) (bc_ix (dim1 v1) j) (bc_ix (dim2 v1) q)
              (bc_ix (dim3 v1) (r - 0)) (bc_ix (dim4 v1) c)
       else at5 out0 b j q r c)\<rparr>"
  define out2 where "out2 = out1\<lparr>at5 := (\<lambda>b j q r c.
       if X - modes1 L \<le> r \<and> r < X \<and> c < min (modes2 L) (dim4 out1)
       then at5 v2 (bc_ix (dim0 v2) b) (bc_ix (dim1 v2) j) (bc_ix (dim2 v2) q)
              (bc_ix (dim3 v2) (r - (X - modes1 L))) (bc_ix (dim4 v2) c)
       else at5 out1 b j q r c)\<rparr>"
  have d0: "dim0 out0 = dim0 x" "dim1 out0 = out_channels_time L" "dim2 out0 = out_channels_dim L"
      "dim3 out0 = X" "dim4 out0 = Yh"
    by (simp_all add: out0_def zeros5_def)
  have s1: "setitem out0 0 (modes1 L) (modes2 L) v1 = Inr out1"
    using mins by (simp add: setitem_def expands_to_def d0 v1s out1_def)
  have d1: "dim0 out1 = dim0 x" "dim1 out1 = out_channels_time L" "dim2 out1 = out_channels_dim L"
      "dim3 out1 = X" "dim4 out1 = Yh"
    by (simp_all add: out1_def d0)
  have s2: "setitem out1 (X - modes1 L) X (modes2 L) v2 = Inr out2"
    using mins xx by (simp add: setitem_def expands_to_def d1 v2s out2_def)
  have d2: "shape5 out2 = (dim0 x, out_channels_time L, out_channels_dim L, X, Yh)"
    by (simp add: shape5_def out2_def d1)
  have "forward_out_ft lib L x =
      ebind (rfft2 lib x) (\<lambda>x_ft.
        ebind (compl_mul2d (slice_lo x_ft (modes1 L) (modes2 L)) (weights1 L)) (\<lambda>v1.
        ebind (setitem out0 0 (min (modes1 L) X) (modes2 L) v1) (\<lambda>out_ft.
        ebind (compl_mul2d (slice_hi x_ft (modes1 L) (modes2 L)) (weights2 L)) (\<lambda>v2.
          setitem out_ft (hi_start X (modes1 L)) X (modes2 L) v2))))"
    by (simp only: forward_out_ft_def Let_def out0_def X_def Yh_def)
  then have out: "forward_out_ft lib L x = Inr out2"
    by (simp add: fft ebind_def v1 v2 mins hs s1 s2)
  have entries: "at5 out2 b j q r c =
         (if c < modes2 L \<and> X - modes1 L \<le> r
          then spec_contraction (rfft2_at lib x) (weights2 L) b j q r (r - (X - modes1 L)) c
          else if c < modes2 L \<and> r < modes1 L
          then spec_contraction (rfft2_at lib x) (weights1 L) b j q r r c
          else 0)"
    if "b < dim0 x" "j < out_channels_time L" "q < out_channels_dim L" "r < X" "c < Yh"
    for b j q r c
  proof -
    have a0: "at5 out0 b j q r c = 0"
      by (simp add: out0_def zeros5_def)
    have a1: "at5 out1 b j q r c = (if r < modes1 L \<and> c < modes2 L then at5 v1 b j q r c else 0)"
      using that mins by (simp add: out1_def d0 v1s bc_ix_less a0)
    have a2: "at5 out2 b j q r c =
        (if X - modes1 L \<le> r \<and> c < modes2 L then at5 v2 b j q (r - (X - modes1 L)) c
         else at5 out1 b j q r c)"
    proof (cases "X - modes1 L \<le> r \<and> c < modes2 L")
      case True
      then have "r - (X - modes1 L) < modes1 L"
        using that m1 by (auto simp: X_def)
      with True that mins show ?thesis
        by (simp add: out2_def d1 v2s bc_ix_less)
    next
      case False
      then have "\<not> (X - modes1 L \<le> r \<and> r < X \<and> c < min (modes2 L) (dim4 out1))"
        using mins by (auto simp: d1)
      then have "at5 out2 b j q r c = at5 out1 b j q r c"
        unfolding out2_def by auto
      with False show ?thesis by auto
    qed
    show ?thesis
    proof (cases "c < modes2 L \<and> X - modes1 L \<le> r")
      case True
      then have k: "r - (X - modes1 L) < modes1 L" and rback: "X - modes1 L + (r - (X - modes1 L)) = r"
        using that m1 by (auto simp: X_def)
      have "at5 v2 b j q (r - (X - modes1 L)) c = spec_contraction (rfft2_at lib x) (weights2 L) b j q
          (X - modes1 L + (r - (X - modes1 L))) (r - (X - modes1 L)) c"
        using k True by (intro v2a) auto
      then have "at5 v2 b j q (r - (X - modes1 L)) c =
          spec_contraction (rfft2_at lib x) (weights2 L) b j q r (r - (X - modes1 L)) c"
        by (simp only: rback)
      with True show ?thesis by (simp add: a2)
    next
      case False
      then have "at5 out2 b j q r c = at5 out1 b j q r c"
        by (auto simp: a2)
      with False show ?thesis
        by (auto simp: a1 v1a)
    qed
  qed
  obtain y where y: "SpectralConv2d_forward lib L x = Inr y"
      "shape5 y = (dim0 x, out_channels_time L, out_channels_dim L, X, dim4 x)"
    using X0 y0 d2 ne
    by (simp add: SpectralConv2d_forward_def out ebind_def irfft2_def shape5_def X_def Yh_def)
  show ?thesis
  proof (intro exI conjI allI impI)
    show "forward_out_ft lib L x = Inr out2" by (rule out)
    show "shape5 out2 = (dim0 x, out_channels_time L, out_channels_dim L, dim3 x, dim4 x div 2 + 1)"
      using d2 by (simp only: X_def Yh_def)
    show "SpectralConv2d_forward lib L x = Inr y" by (rule y(1))
    show "shape5 y = (dim0 x, out_channels_time L, out_channels_dim L, dim3 x, dim4 x)"
      using y(2) by (simp only: X_def)
  next
    fix b j q r c
    assume "b < dim0 x" "j < out_channels_time L" "q < out_channels_dim L" "r < dim3 x"
      "c < dim4 x div 2 + 1"
    then show "at5 out2 b j q r c =
         (if c < modes2 L \<and> dim3 x - modes1 L \<le> r
          then spec_contraction (rfft2_at lib x) (weights2 L) b j q r (r - (dim3 x - modes1 L)) c
          else if c < modes2 L \<and> r < modes1 L
          then spec_contraction (rfft2_at lib x) (weights1 L) b j q r r c
          else 0)"
      using entries [of b j q r c] by (simp only: X_def Yh_def)
  qed
qed

text \<open>
  Claim C1, as stated, fails where the two blocks overlap: with four rows and
  \<open>modes1 = 3\<close>, row 1 belongs to the low-frequency block, and the output spectrum there
  is the contraction with \<open>weights2\<close>, not the one with \<open>weights1\<close>.
\<close>

theorem forward_spectrum_counterexample:
  "entry5 (forward_out_ft ex_lib (ex_layer 3) ex_input) 0 0 0 1 0 = Some 3 \<and>
   spec_contraction (rfft2_at ex_lib ex_input) (weights1 (ex_layer 3)) 0 0 0 1 1 0 = 2"
  by (simp add: entry5_def forward_out_ft_def ex_lib_def ex_layer_def ex_input_def rfft2_def
      ebind_def compl_mul2d_def slice_lo_def slice_hi_def setitem_def zeros5_def bc_dim_def
      expands_to_def hi_start_def bc_ix_def spec_contraction_def Let_def)

text \<open>
  Claim C1, amended. For a layer whose weights have their declared shape and an input with
  the layer's in-channels, where no axis of the input and no channel axis of the layer is
  empty, with \<open>0 < modes1 \<le> x\<close>, \<open>modes2 \<le> y div 2 + 1\<close> and \<open>0 < y\<close>,
  \<open>forward\<close> raises nothing. The output spectrum has the shape (batch,
  out-time, out-variable, x, y div 2 + 1). In its first \<open>modes2\<close> columns, the last
  \<open>modes1\<close> rows hold the contraction of the input spectrum with \<open>weights2\<close>, and the
  first \<open>modes1\<close> rows that are not among the last \<open>modes1\<close> rows hold the contraction
  with \<open>weights1\<close>; every other entry is zero. The result of the inverse transform has
  the spatial sizes x, y of the input.
\<close>

theorem forward_spectrum:
  assumes "SpectralConv2d_wf L"
    and "dim1 x = in_channels_time L" "dim2 x = in_channels_dim L"
    and "0 < modes1 L" "modes1 L \<le> dim3 x"
    and "modes2 L \<le> dim4 x div 2 + 1" and "0 < dim4 x"
    and "0 < dim0 x" "0 < in_channels_time L" "0 < in_channels_dim L"
      "0 < out_channels_time L" "0 < out_channels_dim L"
  shows "\<exists>out_ft y.
      forward_out_ft lib L x = Inr out_ft \<and>
      shape5 out_ft = (dim0 x, out_channels_time L, out_channels_dim L, dim3 x, dim4 x div 2 + 1) \<and>
      (\<forall>b<dim0 x. \<forall>j<out_channels_time L. \<forall>q<out_channels_dim L. \<forall>r<dim3 x.
       \<forall>c<dim4 x div 2 + 1. at5 out_ft b j q r c =
         (if c < modes2 L \<and> dim3 x - modes1 L \<le> r
          then spec_contraction (rfft2_at lib x) (weights2 L) b j q r (r - (dim3 x - modes1 L)) c
          else if c < modes2 L \<and> r < modes1 L
          then spec_contraction (rfft2_at lib x) (weights1 L) b j q r r c
          else 0)) \<and>
      SpectralConv2d_forward lib L x = Inr y \<and>
      shape5 y = (dim0 x, out_channels_time L, out_channels_dim L, dim3 x, dim4 x)"
  using assms by (rule forward_out_ft_entries)

theorem forward_spectrum_witness:
  "\<exists>out_ft y. forward_out_ft ex_lib (ex_layer 1) ex_input = Inr out_ft \<and>
      shape5 out_ft = (1, 1, 1, 4, 3) \<and>
      at5 out_ft 0 0 0 0 0 = 2 \<and> at5 out_ft 0 0 0 3 0 = 3 \<and>
      at5 out_ft 0 0 0 1 0 = 0 \<and> at5 out_ft 0 0 0 0 1 = 0 \<and>
      SpectralConv2d_forward ex_lib (ex_layer 1) ex_input = Inr y \<and>
      shape5 y = (1, 1, 1, 4, 4)"
proof -
  have hyps: "SpectralConv2d_wf (ex_layer 1)"
      "dim1 ex_input = in_channels_time (ex_layer 1)" "dim2 ex_input = in_channels_dim (ex_layer 1)"
      "0 < modes1 (ex_layer 1)" "modes1 (ex_layer 1) \<le> dim3 ex_input"
      "modes2 (ex_layer 1) \<le> dim4 ex_input div 2 + 1" "0 < dim4 ex_input"
      "0 < dim0 ex_input" "0 < in_channels_time (ex_layer 1)" "0 < in_channels_dim (ex_layer 1)"
      "0 < out_channels_time (ex_layer 1)" "0 < out_channels_dim (ex_layer 1)"
    by (simp_all add: ex_layer_def ex_input_def SpectralConv2d_wf_def weights_shape_def)
  from forward_spectrum [OF hyps, of ex_lib] obtain out_ft y where
    1: "forward_out_ft ex_lib (ex_layer 1) ex_input = Inr out_ft"
    and 2: "shape5 out_ft = (dim0 ex_input, out_channels_time (ex_layer 1),
        out_channels_dim (ex_layer 1), dim3 ex_input, dim4 ex_input div 2 + 1)"
    and 3: "\<And>b j q r c. b < dim0 ex_input \<Longrightarrow> j < out_channels_time (ex_layer 1) \<Longrightarrow>
        q < out_channels_dim (ex_layer 1) \<Longrightarrow> r < dim3 ex_input \<Longrightarrow> c < dim4 ex_input div 2 + 1 \<Longrightarrow>
        at5 out_ft b j q r c =
         (if c < modes2 (ex_layer 1) \<and> dim3 ex_input - modes1 (ex_layer 1) \<le> r
          then spec_contraction (rfft2_at ex_lib ex_input) (weights2 (ex_layer 1)) b j q r
                 (r - (dim3 ex_input - modes1 (ex_layer 1))) c
          else if c < modes2 (ex_layer 1) \<and> r < modes1 (ex_layer 1)
          then spec_contraction (rfft2_at ex_lib ex_input) (weights1 (ex_layer 1)) b j q r r c
          else 0)"
    and 4: "SpectralConv2d_forward ex_lib (ex_layer 1) ex_input = Inr y"
    and 5: "shape5 y = (dim0 ex_input, out_channels_time (ex_layer 1),
        out_channels_dim (ex_layer 1), dim3 ex_input, dim4 ex_input)"
    by blast
  have "at5 out_ft 0 0 0 0 0 = 2" "at5 out_ft 0 0 0 3 0 = 3"
    "at5 out_ft 0 0 0 1 0 = 0" "at5 out_ft 0 0 0 0 1 = 0"
    using 3 [of 0 0 0 0 0] 3 [of 0 0 0 3 0] 3 [of 0 0 0 1 0] 3 [of 0 0 0 0 1]
    by (simp_all add: ex_layer_def ex_input_def ex_lib_def spec_contraction_def)
  moreover have "shape5 out_ft = (1, 1, 1, 4, 3)" "shape5 y = (1, 1, 1, 4, 4)"
    using 2 5 by (simp_all add: ex_layer_def ex_input_def)
  ultimately show ?thesis using 1 4 by blast
qed

lemma bc_then_expand:
  assumes "bc_dim a m = Inr n" "expands_to n a"
  shows "a = m \<or> m = 1"
  using assms by (auto simp: bc_dim_def expands_to_def split: if_splits)

lemma compl_mul2d_Inr:
  assumes "compl_mul2d input w = Inr v"
  shows "bc_dim (dim3 input) (wdim4 w) = Inr (dim3 v) \<and> bc_dim (dim4 input) (wdim5 w) = Inr (dim4 v)"
  using assms by (auto simp: compl_mul2d_def ebind_def split: sum.splits)

lemma setitem_Inr:
  assumes "setitem t a b m2 v = Inr t'"
  shows "expands_to (dim3 v) (b - a) \<and> expands_to (dim4 v) (min m2 (dim4 t)) \<and>
         dim3 t' = dim3 t \<and> dim4 t' = dim4 t"
  using assms by (auto simp: setitem_def split: if_splits)

lemma ebind_Inr: "ebind m f = Inr r \<Longrightarrow> \<exists>v. m = Inr v \<and> f v = Inr r"
  by (cases m) (simp_all add: ebind_def)

lemma forward_out_ft_Inr:
  assumes wf: "SpectralConv2d_wf L" and ok: "forward_out_ft lib L x = Inr out"
  shows "0 < modes1 L \<and> modes1 L \<le> dim3 x \<and> modes2 L \<le> dim4 x div 2 + 1"
proof -
  define X where "X = dim3 x"
  define Yh where "Yh = dim4 x div 2 + 1"
  define out0 :: "complex tensor5"
    where "out0 = zeros5 (dim0 x) (out_channels_time L) (out_channels_dim L) X Yh"
  have w: "wdim4 (weights1 L) = modes1 L" "wdim5 (weights1 L) = modes2 L"
      "wdim4 (weights2 L) = modes1 L" "wdim5 (weights2 L) = modes2 L"
    using wf by (simp_all add: SpectralConv2d_wf_def weights_shape_def)
  have unf: "forward_out_ft lib L x =
      ebind (rfft2 lib x) (\<lambda>x_ft.
        ebind (compl_mul2d (slice_lo x_ft (modes1 L) (modes2 L)) (weights1 L)) (\<lambda>v1.
        ebind (setitem out0 0 (min (modes1 L) X) (modes2 L) v1) (\<lambda>out_ft.
        ebind (compl_mul2d (slice_hi x_ft (modes1 L) (modes2 L)) (weights2 L)) (\<lambda>v2.
          setitem out_ft (hi_start X (modes1 L)) X (modes2 L) v2))))"
    by (simp only: forward_out_ft_def Let_def out0_def X_def Yh_def)
  from ok [unfolded unf] obtain x_ft v1 out1 v2 where
    f: "rfft2 lib x = Inr x_ft"
    and c1: "compl_mul2d (slice_lo x_ft (modes1 L) (modes2 L)) (weights1 L) = Inr v1"
    and s1: "setitem out0 0 (min (modes1 L) X) (modes2 L) v1 = Inr out1"
    and c2: "compl_mul2d (slice_hi x_ft (modes1 L) (modes2 L)) (weights2 L) = Inr v2"
    and s2: "setitem out1 (hi_start X (modes1 L)) X (modes2 L) v2 = Inr out"
    by (blast dest: ebind_Inr)
  from f have X0: "0 < X" and dx: "dim3 x_ft = X" "dim4 x_ft = Yh"
    by (auto simp: rfft2_def X_def Yh_def split: if_splits)
  have d0: "dim4 out0 = Yh" by (simp add: out0_def zeros5_def)
  from compl_mul2d_Inr [OF c1] setitem_Inr [OF s1]
  have r1: "min (modes1 L) X = modes1 L \<or> modes1 L = 1"
    and k1: "min (modes2 L) Yh = modes2 L \<or> modes2 L = 1"
    by (auto simp: slice_lo_def dx w d0 dest: bc_then_expand)
  from compl_mul2d_Inr [OF c2] setitem_Inr [OF s2]
  have r2: "X - hi_start X (modes1 L) = modes1 L \<or> modes1 L = 1"
    by (auto simp: slice_hi_def dx w dest: bc_then_expand)
  have "0 < modes1 L" using r2 X0 by (auto simp: hi_start_def split: if_splits)
  moreover have "modes1 L \<le> X" using r1 X0 by auto
  moreover have "modes2 L \<le> Yh" using k1 by (auto simp: Yh_def)
  ultimately show ?thesis by (simp add: X_def Yh_def)
qed

lemma forward_raises:
  assumes wf: "SpectralConv2d_wf L"
    and bad: "dim3 x < modes1 L \<or> dim4 x div 2 + 1 < modes2 L \<or> modes1 L = 0"
  shows "isl (SpectralConv2d_forward lib L x)"
proof (cases "forward_out_ft lib L x")
  case (Inl e)
  then show ?thesis by (simp add: SpectralConv2d_forward_def ebind_def)
next
  case (Inr out)
  from forward_out_ft_Inr [OF wf Inr] bad show ?thesis by auto
qed

lemma SpectralConv2d_init_ok:
  assumes "in_t * out_t \<noteq> 0"
  shows "\<exists>L. SpectralConv2d_init in_t out_t in_d out_d m1 m2 r1 r2 = Inr L \<and>
           modes1 L = m1 \<and> modes2 L = m2 \<and> SpectralConv2d_wf L"
  using assms
  by (simp add: SpectralConv2d_init_def Let_def SpectralConv2d_wf_def weights_shape_def)

text \<open>
  Claim C4, as stated, fails: a layer with \<open>modes1 = 4\<close> is constructed without an
  error, and its forward pass on an input of four rows, where \<open>4 div 2 + 1 = 3\<close>,
  raises nothing either; the second assignment has overwritten the whole low-frequency
  block.
\<close>

theorem construction_counterexample:
  "SpectralConv2d_init 1 1 1 1 4 1 (\<lambda>i j p q x y. 2) (\<lambda>i j p q x y. 3) = Inr (ex_layer 4) \<and>
   dim3 ex_input div 2 + 1 < modes1 (ex_layer 4) \<and>
   \<not> isl (SpectralConv2d_forward ex_lib (ex_layer 4) ex_input) \<and>
   entry5 (forward_out_ft ex_lib (ex_layer 4) ex_input) 0 0 0 0 0 = Some 3"
  by (simp add: SpectralConv2d_init_def SpectralConv2d_forward_def irfft2_def
      entry5_def forward_out_ft_def ex_lib_def ex_layer_def ex_input_def rfft2_def
      ebind_def compl_mul2d_def slice_lo_def slice_hi_def setitem_def zeros5_def bc_dim_def
      expands_to_def hi_start_def bc_ix_def Let_def)

text \<open>
  Claim C4, amended. \<open>__init__\<close> does not see a spatial size: it constructs the layer for
  every pair of mode counts, and raises only for a zero product of the time channels. A
  mode count beyond the spectrum (\<open>modes1\<close> above the number of rows, \<open>modes2\<close> above
  \<open>y div 2 + 1\<close>), or \<open>modes1 = 0\<close>, makes the forward pass raise. With
  \<open>0 < modes1 \<le> x\<close>, on an input with the layer's in-channels where no axis of the
  input and no channel axis of the layer is empty, the forward pass raises nothing, also
  when \<open>modes1\<close> exceeds \<open>x div 2 + 1\<close>.
\<close>

theorem construction_checks_no_modes:
  "(in_t * out_t \<noteq> 0 \<longrightarrow>
      (\<exists>L. SpectralConv2d_init in_t out_t in_d out_d m1 m2 r1 r2 = Inr L \<and>
           modes1 L = m1 \<and> modes2 L = m2 \<and> SpectralConv2d_wf L)) \<and>
   (SpectralConv2d_wf L1 \<and>
      (dim3 x1 < modes1 L1 \<or> dim4 x1 div 2 + 1 < modes2 L1 \<or> modes1 L1 = 0)
    \<longrightarrow> isl (SpectralConv2d_forward lib L1 x1)) \<and>
   (SpectralConv2d_wf L2 \<and> dim1 x2 = in_channels_time L2 \<and> dim2 x2 = in_channels_dim L2 \<and>
      0 < modes1 L2 \<and> modes1 L2 \<le> dim3 x2 \<and> modes2 L2 \<le> dim4 x2 div 2 + 1 \<and> 0 < dim4 x2 \<and>
      0 < dim0 x2 \<and> 0 < in_channels_time L2 \<and> 0 < in_channels_dim L2 \<and>
      0 < out_channels_time L2 \<and> 0 < out_channels_dim L2
    \<longrightarrow> \<not> isl (SpectralConv2d_forward lib L2 x2))"
proof (intro conjI impI)
  assume "in_t * out_t \<noteq> 0"
  then show "\<exists>L. SpectralConv2d_init in_t out_t in_d out_d m1 m2 r1 r2 = Inr L \<and>
           modes1 L = m1 \<and> modes2 L = m2 \<and> SpectralConv2d_wf L"
    by (rule SpectralConv2d_init_ok)
next
  assume "SpectralConv2d_wf L1 \<and>
      (dim3 x1 < modes1 L1 \<or> dim4 x1 div 2 + 1 < modes2 L1 \<or> modes1 L1 = 0)"
  then show "isl (SpectralConv2d_forward lib L1 x1)"
    by (elim conjE) (rule forward_raises)
next
  assume a: "SpectralConv2d_wf L2 \<and> dim1 x2 = in_channels_time L2 \<and> dim2 x2 = in_channels_dim L2 \<and>
      0 < modes1 L2 \<and> modes1 L2 \<le> dim3 x2 \<and> modes2 L2 \<le> dim4 x2 div 2 + 1 \<and> 0 < dim4 x2 \<and>
      0 < dim0 x2 \<and> 0 < in_channels_time L2 \<and> 0 < in_channels_dim L2 \<and>
      0 < out_channels_time L2 \<and> 0 < out_channels_dim L2"
  have "\<exists>out_ft y. forward_out_ft lib L2 x2 = Inr out_ft \<and>
      shape5 out_ft = (dim0 x2, out_channels_time L2, out_channels_dim L2, dim3 x2, dim4 x2 div 2 + 1) \<and>
      (\<forall>b<dim0 x2. \<forall>j<out_channels_time L2. \<forall>q<out_channels_dim L2. \<forall>r<dim3 x2.
       \<forall>c<dim4 x2 div 2 + 1. at5 out_ft b j q r c =
         (if c < modes2 L2 \<and> dim3 x2 - modes1 L2 \<le> r
          then spec_contraction (rfft2_at lib x2) (weights2 L2) b j q r (r - (dim3 x2 - modes1 L2)) c
          else if c < modes2 L2 \<and> r < modes1 L2
          then spec_contraction (rfft2_at lib x2) (weights1 L2) b j q r r c
          else 0)) \<and>
      SpectralConv2d_forward lib L2 x2 = Inr y \<and>
      shape5 y = (dim0 x2, out_channels_time L2, out_channels_dim L2, dim3 x2, dim4 x2)"
    using a by (intro forward_out_ft_entries) simp_all
  then obtain y where "SpectralConv2d_forward lib L2 x2 = Inr y" by blast
  then show "\<not> isl (SpectralConv2d_forward lib L2 x2)" by simp
qed

theorem construction_checks_no_modes_witness:
  "(\<exists>L. SpectralConv2d_init 1 1 1 1 4 1 (\<lambda>i j p q x y. 2) (\<lambda>i j p q x y. 3) = Inr L \<and>
        modes1 L = 4 \<and> modes2 L = 1 \<and> SpectralConv2d_wf L) \<and>
   isl (SpectralConv2d_forward ex_lib (ex_layer 5) ex_input) \<and>
   \<not> isl (SpectralConv2d_forward ex_lib (ex_layer 4) ex_input)"
  using construction_checks_no_modes [of 1 1 1 1 4 1 "\<lambda>i j p q x y. 2" "\<lambda>i j p q x y. 3"
      "ex_layer 5" ex_input ex_lib "ex_layer 4" ex_input]
  by (simp add: ex_layer_def ex_input_def SpectralConv2d_wf_def weights_shape_def)

subsection \<open>The block stack\<close>

lemma ebind_assoc: "ebind (ebind m f) g = ebind m (\<lambda>v. ebind (f v) g)"
  by (cases m) (simp_all add: ebind_def)

lemma ebind_Inr_left: "ebind (Inr v) f = f v"
  by (simp add: ebind_def)

lemma forward_blocks_unfold:
  "forward_blocks lib M x =
     ebind (block_gelu lib (conv0 M) (w0 M) x) (\<lambda>x.
     ebind (block_gelu lib (conv1 M) (w1 M) x) (\<lambda>x.
     ebind (block_gelu lib (conv2 M) (w2 M) x) (\<lambda>x.
     ebind (block_sum lib (conv3 M) (w3 M) x) (\<lambda>x.
     ebind (block_sum lib (conv4 M) (w4 M) x) (\<lambda>x.
     block_sum lib (conv5 M) (w5 M) x)))))"
  by (simp only: forward_blocks_def block_gelu_def block_sum_def norm_identity_def Let_def
      ebind_assoc ebind_Inr_left)

text \<open>
  Claim C2, amended. Each of the six blocks computes the sum of the Fourier layer and of
  the pointwise convolution of its input; GELU is applied to the sum of blocks 1, 2 and 3,
  and blocks 4, 5 and 6 pass the sum on as it is.
\<close>

theorem blocks_nonlinearity:
  "forward_blocks lib M x =
     ebind (block_gelu lib (conv0 M) (w0 M) x) (\<lambda>x.
     ebind (block_gelu lib (conv1 M) (w1 M) x) (\<lambda>x.
     ebind (block_gelu lib (conv2 M) (w2 M) x) (\<lambda>x.
     ebind (block_sum lib (conv3 M) (w3 M) x) (\<lambda>x.
     ebind (block_sum lib (conv4 M) (w4 M) x) (\<lambda>x.
     block_sum lib (conv5 M) (w5 M) x)))))"
  by (rule forward_blocks_unfold)

lemma SpectralConv2d_forward_at:
  assumes "SpectralConv2d_forward lib L x = Inr y"
  shows "\<exists>out. at5 y = irfft2_at lib out (dim3 x) (dim4 x)"
  using assms
  by (auto simp: SpectralConv2d_forward_def irfft2_def ebind_def split: sum.splits if_splits)

lemma ex_block_sum:
  assumes "shape5 x = (1, 1, 1, 4, 4)"
  shows "\<exists>s. block_sum ex_lib (ex_layer 1) ex_conv3d x = Inr s \<and> shape5 s = (1, 1, 1, 4, 4) \<and>
           at5 s 0 0 0 0 0 = at5 x 0 0 0 0 0"
proof -
  have d: "dim0 x = 1" "dim1 x = 1" "dim2 x = 1" "dim3 x = 4" "dim4 x = 4"
    using assms by (simp_all add: shape5_def)
  have "\<exists>out_ft y. forward_out_ft ex_lib (ex_layer 1) x = Inr out_ft \<and>
      shape5 out_ft = (dim0 x, out_channels_time (ex_layer 1), out_channels_dim (ex_layer 1),
        dim3 x, dim4 x div 2 + 1) \<and>
      (\<forall>b<dim0 x. \<forall>j<out_channels_time (ex_layer 1). \<forall>q<out_channels_dim (ex_layer 1). \<forall>r<dim3 x.
       \<forall>c<dim4 x div 2 + 1. at5 out_ft b j q r c =
         (if c < modes2 (ex_layer 1) \<and> dim3 x - modes1 (ex_layer 1) \<le> r
          then spec_contraction (rfft2_at ex_lib x) (weights2 (ex_layer 1)) b j q r
                 (r - (dim3 x - modes1 (ex_layer 1))) c
          else if c < modes2 (ex_layer 1) \<and> r < modes1 (ex_layer 1)
          then spec_contraction (rfft2_at ex_lib x) (weights1 (ex_layer 1)) b j q r r c
          else 0)) \<and>
      SpectralConv2d_forward ex_lib (ex_layer 1) x = Inr y \<and>
      shape5 y = (dim0 x, out_channels_time (ex_layer 1), out_channels_dim (ex_layer 1), dim3 x, dim4 x)"
    by (rule forward_out_ft_entries)
       (simp_all add: d ex_layer_def SpectralConv2d_wf_def weights_shape_def)
  then obtain y where y: "SpectralConv2d_forward ex_lib (ex_layer 1) x = Inr y"
    and ys: "shape5 y = (1, 1, 1, 4, 4)"
    by (auto simp: d ex_layer_def)
  from SpectralConv2d_forward_at [OF y] have y0: "at5 y 0 0 0 0 0 = 0"
    by (auto simp: ex_lib_def)
  have c: "Conv3d_forward ex_conv3d x = Inr (x\<lparr>dim1 := 1,
      at5 := (\<lambda>b h v r c. (\<Sum>k<1. 1 * at5 x b k v r c) + 0)\<rparr>)"
    by (simp add: Conv3d_forward_def ex_conv3d_def d)
  have "block_sum ex_lib (ex_layer 1) ex_conv3d x =
      add5 y (x\<lparr>dim1 := 1, at5 := (\<lambda>b h v r c. (\<Sum>k<1. 1 * at5 x b k v r c) + 0)\<rparr>)"
    by (simp only: block_sum_def y c ebind_Inr_left)
  then show ?thesis
    using ys y0 by (simp add: ebind_def add5_def bc_dim_def shape5_def d bc_ix_def)
qed

lemma ex_block_gelu:
  assumes "shape5 x = (1, 1, 1, 4, 4)"
  shows "\<exists>s. block_gelu ex_lib (ex_layer 1) ex_conv3d x = Inr s \<and> shape5 s = (1, 1, 1, 4, 4) \<and>
           at5 s 0 0 0 0 0 = at5 x 0 0 0 0 0 / 2"
  using ex_block_sum [OF assms]
  by (auto simp: block_gelu_def ebind_def gelu_def ex_lib_def shape5_def)

text \<open>
  Claim C2, as stated, fails: with an activation that halves its argument, the identity as
  pointwise convolution and a Fourier layer that returns zero, the stack of the source
  maps 16 to 2, three halvings, and the stack with the nonlinearity after blocks 1 to 4
  maps it to 1.
\<close>

theorem blocks_nonlinearity_counterexample:
  "entry5 (forward_blocks ex_lib ex_model ex_latent) 0 0 0 0 0 = Some 2 \<and>
   entry5 (spec_blocks ex_lib ex_model ex_latent) 0 0 0 0 0 = Some 1"
proof -
  have s0: "shape5 ex_latent = (1, 1, 1, 4, 4)" and v0: "at5 ex_latent 0 0 0 0 0 = 16"
    by (simp_all add: ex_latent_def shape5_def)
  obtain x1 where x1: "block_gelu ex_lib (ex_layer 1) ex_conv3d ex_latent = Inr x1"
      "shape5 x1 = (1, 1, 1, 4, 4)" "at5 x1 0 0 0 0 0 = 8"
    using ex_block_gelu [OF s0] v0 by auto
  obtain x2 where x2: "block_gelu ex_lib (ex_layer 1) ex_conv3d x1 = Inr x2"
      "shape5 x2 = (1, 1, 1, 4, 4)" "at5 x2 0 0 0 0 0 = 4"
    using ex_block_gelu [OF x1(2)] x1(3) by auto
  obtain x3 where x3: "block_gelu ex_lib (ex_layer 1) ex_conv3d x2 = Inr x3"
      "shape5 x3 = (1, 1, 1, 4, 4)" "at5 x3 0 0 0 0 0 = 2"
    using ex_block_gelu [OF x2(2)] x2(3) by auto
  obtain a4 where a4: "block_sum ex_lib (ex_layer 1) ex_conv3d x3 = Inr a4"
      "shape5 a4 = (1, 1, 1, 4, 4)" "at5 a4 0 0 0 0 0 = 2"
    using ex_block_sum [OF x3(2)] x3(3) by auto
  obtain a5 where a5: "block_sum ex_lib (ex_layer 1) ex_conv3d a4 = Inr a5"
      "shape5 a5 = (1, 1, 1, 4, 4)" "at5 a5 0 0 0 0 0 = 2"
    using ex_block_sum [OF a4(2)] a4(3) by auto
  obtain a6 where a6: "block_sum ex_lib (ex_layer 1) ex_conv3d a5 = Inr a6"
      "shape5 a6 = (1, 1, 1, 4, 4)" "at5 a6 0 0 0 0 0 = 2"
    using ex_block_sum [OF a5(2)] a5(3) by auto
  obtain b4 where b4: "block_gelu ex_lib (ex_layer 1) ex_conv3d x3 = Inr b4"
      "shape5 b4 = (1, 1, 1, 4, 4)" "at5 b4 0 0 0 0 0 = 1"
    using ex_block_gelu [OF x3(2)] x3(3) by auto
  obtain b5 where b5: "block_sum ex_lib (ex_layer 1) ex_conv3d b4 = Inr b5"
      "shape5 b5 = (1, 1, 1, 4, 4)" "at5 b5 0 0 0 0 0 = 1"
    using ex_block_sum [OF b4(2)] b4(3) by auto
  obtain b6 where b6: "block_sum ex_lib (ex_layer 1) ex_conv3d b5 = Inr b6"
      "shape5 b6 = (1, 1, 1, 4, 4)" "at5 b6 0 0 0 0 0 = 1"
    using ex_block_sum [OF b5(2)] b5(3) by auto
  have m: "conv0 ex_model = ex_layer 1" "conv1 ex_model = ex_layer 1" "conv2 ex_model = ex_layer 1"
      "conv3 ex_model = ex_layer 1" "conv4 ex_model = ex_layer 1" "conv5 ex_model = ex_layer 1"
      "w0 ex_model = ex_conv3d" "w1 ex_model = ex_conv3d" "w2 ex_model = ex_conv3d"
      "w3 ex_model = ex_conv3d" "w4 ex_model = ex_conv3d" "w5 ex_model = ex_conv3d"
    by (simp_all add: ex_model_def)
  have code: "forward_blocks ex_lib ex_model ex_latent = Inr a6"
    by (simp only: forward_blocks_unfold m x1 x2 x3 a4 a5 a6 ebind_Inr_left)
  have spec: "spec_blocks ex_lib ex_model ex_latent = Inr b6"
    by (simp only: spec_blocks_def m x1 x2 x3 b4 b5 b6 ebind_Inr_left)
  show ?thesis
    by (simp add: code spec entry5_def a6 b6)
qed

subsection \<open>The heads and the shape of the forward pass\<close>

lemma FNO2d_Multi_init_Inr:
  assumes "FNO2d_Multi_init g d m1 m2 wd = Inr M"
  shows "fc0 M = Linear_init d 0 (T_in g + 2) wd" "fc1 M = Linear_init d 2 wd 128"
    "fc2 M = Linear_init d 3 128 (step g)"
    "w0 M = Conv3d_init d 0 wd wd" "w1 M = Conv3d_init d 1 wd wd" "w2 M = Conv3d_init d 2 wd wd"
    "w3 M = Conv3d_init d 3 wd wd" "w4 M = Conv3d_init d 4 wd wd" "w5 M = Conv3d_init d 5 wd wd"
    "SpectralConv2d_init wd wd (num_vars g) (num_vars g) m1 m2 (spectral_rand1 d 0) (spectral_rand2 d 0) = Inr (conv0 M)"
    "SpectralConv2d_init wd wd (num_vars g) (num_vars g) m1 m2 (spectral_rand1 d 1) (spectral_rand2 d 1) = Inr (conv1 M)"
    "SpectralConv2d_init wd wd (num_vars g) (num_vars g) m1 m2 (spectral_rand1 d 2) (spectral_rand2 d 2) = Inr (conv2 M)"
    "SpectralConv2d_init wd wd (num_vars g) (num_vars g) m1 m2 (spectral_rand1 d 3) (spectral_rand2 d 3) = Inr (conv3 M)"
    "SpectralConv2d_init wd wd (num_vars g) (num_vars g) m1 m2 (spectral_rand1 d 4) (spectral_rand2 d 4) = Inr (conv4 M)"
    "SpectralConv2d_init wd wd (num_vars g) (num_vars g) m1 m2 (spectral_rand1 d 5) (spectral_rand2 d 5) = Inr (conv5 M)"
proof -
  from assms obtain c0 c1 c2 c3 c4 c5 where
    c: "SpectralConv2d_init wd wd (num_vars g) (num_vars g) m1 m2 (spectral_rand1 d 0) (spectral_rand2 d 0) = Inr c0"
       "SpectralConv2d_init wd wd (num_vars g) (num_vars g) m1 m2 (spectral_rand1 d 1) (spectral_rand2 d 1) = Inr c1"
       "SpectralConv2d_init wd wd (num_vars g) (num_vars g) m1 m2 (spectral_rand1 d 2) (spectral_rand2 d 2) = Inr c2"
       "SpectralConv2d_init wd wd (num_vars g) (num_vars g) m1 m2 (spectral_rand1 d 3) (spectral_rand2 d 3) = Inr c3"
       "SpectralConv2d_init wd wd (num_vars g) (num_vars g) m1 m2 (spectral_rand1 d 4) (spectral_rand2 d 4) = Inr c4"
       "SpectralConv2d_init wd wd (num_vars g) (num_vars g) m1 m2 (spectral_rand1 d 5) (spectral_rand2 d 5) = Inr c5"
    and M: "M = \<lparr>fno_modes1 = m1, fno_modes2 = m2, width = wd,
             fc0 = Linear_init d 0 (T_in g + 2) wd,
             fc_d0 = Linear_init d 1 (num_vars g) wd,
             conv0 = c0, conv1 = c1, conv2 = c2, conv3 = c3, conv4 = c4, conv5 = c5,
             w0 = Conv3d_init d 0 wd wd, w1 = Conv3d_init d 1 wd wd,
             w2 = Conv3d_init d 2 wd wd, w3 = Conv3d_init d 3 wd wd,
             w4 = Conv3d_init d 4 wd wd, w5 = Conv3d_init d 5 wd wd,
             fc1 = Linear_init d 2 wd 128,
             fc2 = Linear_init d 3 128 (step g),
             fc_d1 = Linear_init d 4 wd 128,
             fc_d2 = Linear_init d 5 128 (num_vars g),
             training = True\<rparr>"
    unfolding FNO2d_Multi_init_def Let_def
    by (auto dest!: ebind_Inr)
  show "fc0 M = Linear_init d 0 (T_in g + 2) wd" "fc1 M = Linear_init d 2 wd 128"
    "fc2 M = Linear_init d 3 128 (step g)"
    "w0 M = Conv3d_init d 0 wd wd" "w1 M = Conv3d_init d 1 wd wd" "w2 M = Conv3d_init d 2 wd wd"
    "w3 M = Conv3d_init d 3 wd wd" "w4 M = Conv3d_init d 4 wd wd" "w5 M = Conv3d_init d 5 wd wd"
    by (simp_all add: M)
  show "SpectralConv2d_init wd wd (num_vars g) (num_vars g) m1 m2 (spectral_rand1 d 0) (spectral_rand2 d 0) = Inr (conv0 M)"
    "SpectralConv2d_init wd wd (num_vars g) (num_vars g) m1 m2 (spectral_rand1 d 1) (spectral_rand2 d 1) = Inr (conv1 M)"
    "SpectralConv2d_init wd wd (num_vars g) (num_vars g) m1 m2 (spectral_rand1 d 2) (spectral_rand2 d 2) = Inr (conv2 M)"
    "SpectralConv2d_init wd wd (num_vars g) (num_vars g) m1 m2 (spectral_rand1 d 3) (spectral_rand2 d 3) = Inr (conv3 M)"
    "SpectralConv2d_init wd wd (num_vars g) (num_vars g) m1 m2 (spectral_rand1 d 4) (spectral_rand2 d 4) = Inr (conv4 M)"
    "SpectralConv2d_init wd wd (num_vars g) (num_vars g) m1 m2 (spectral_rand1 d 5) (spectral_rand2 d 5) = Inr (conv5 M)"
    using c by (simp_all add: M)
qed

lemma sum_lessThan_plus2:
  fixes f :: "nat \<Rightarrow> real"
  shows "(\<Sum>k<n + 2. f k) = (\<Sum>k<n. f k) + f n + f (n + 1)"
proof -
  have "n + 2 = Suc (Suc n)" by simp
  then show ?thesis by (simp only: sum.lessThan_Suc) simp
qed

lemma forward_lift_formula:
  assumes fc: "in_features (fc0 M) = T_in g + 2"
    and x: "dim4 x = T_in g" "length (x_grid g) = dim2 x" "length (y_grid g) = dim3 x"
  shows "\<exists>z. forward_lift g M x = Inr z \<and>
           shape5 z = (dim0 x, out_features (fc0 M), dim1 x, dim2 x, dim3 x) \<and>
           (\<forall>b h v r c. at5 z b h v r c =
              (\<Sum>k<T_in g. at5 x b v r c k * weight (fc0 M) h k)
              + x_grid g ! r * weight (fc0 M) h (T_in g)
              + y_grid g ! c * weight (fc0 M) h (T_in g + 1)
              + bias (fc0 M) h)"
  using assms
  by (simp add: forward_lift_def get_grid_def cat_last_def Linear_forward_def permute_04123_def
      ebind_def Let_def shape5_def sum_lessThan_plus2)

lemma forward_project_formula:
  assumes fc: "in_features (fc1 M) = dim1 z" "out_features (fc1 M) = in_features (fc2 M)"
  shows "\<exists>y. forward_project lib M z = Inr y \<and>
           shape5 y = (dim0 z, dim2 z, dim3 z, dim4 z, out_features (fc2 M)) \<and>
           (\<forall>b v r c s. at5 y b v r c s =
              (\<Sum>h<in_features (fc2 M).
                 gelu_at lib ((\<Sum>k<dim1 z. at5 z b k v r c * weight (fc1 M) h k) + bias (fc1 M) h)
                 * weight (fc2 M) s h)
              + bias (fc2 M) s)"
  using assms
  by (simp add: forward_project_def permute_02341_def Linear_forward_def gelu_def
      ebind_def Let_def shape5_def)

lemma SpectralConv2d_init_fields:
  assumes "SpectralConv2d_init in_t out_t in_d out_d m1 m2 r1 r2 = Inr L"
  shows "SpectralConv2d_wf L \<and> in_channels_time L = in_t \<and> out_channels_time L = out_t \<and>
         in_channels_dim L = in_d \<and> out_channels_dim L = out_d \<and> modes1 L = m1 \<and> modes2 L = m2"
    and "0 < in_t" "0 < out_t"
  using assms
  by (auto simp: SpectralConv2d_init_def Let_def SpectralConv2d_wf_def weights_shape_def
      split: if_splits)

lemma block_sum_shape:
  assumes wf: "SpectralConv2d_wf L"
    and ch: "in_channels_time L = dim1 z" "out_channels_time L = dim1 z"
      "in_channels_dim L = dim2 z" "out_channels_dim L = dim2 z"
    and w: "in_channels w = dim1 z" "out_channels w = dim1 z"
    and m: "0 < modes1 L" "modes1 L \<le> dim3 z" "modes2 L \<le> dim4 z div 2 + 1"
    and pos: "0 < dim2 z" "0 < dim4 z" "0 < dim0 z" "0 < dim1 z"
  shows "\<exists>s. block_sum lib L w z = Inr s \<and> shape5 s = shape5 z"
proof -
  have "\<exists>out_ft y. forward_out_ft lib L z = Inr out_ft \<and>
      shape5 out_ft = (dim0 z, out_channels_time L, out_channels_dim L, dim3 z, dim4 z div 2 + 1) \<and>
      (\<forall>b<dim0 z. \<forall>j<out_channels_time L. \<forall>q<out_channels_dim L. \<forall>r<dim3 z.
       \<forall>c<dim4 z div 2 + 1. at5 out_ft b j q r c =
         (if c < modes2 L \<and> dim3 z - modes1 L \<le> r
          then spec_contraction (rfft2_at lib z) (weights2 L) b j q r (r - (dim3 z - modes1 L)) c
          else if c < modes2 L \<and> r < modes1 L
          then spec_contraction (rfft2_at lib z) (weights1 L) b j q r r c
          else 0)) \<and>
      SpectralConv2d_forward lib L z = Inr y \<and>
      shape5 y = (dim0 z, out_channels_time L, out_channels_dim L, dim3 z, dim4 z)"
    using wf ch m pos by (intro forward_out_ft_entries) simp_all
  then obtain y where y: "SpectralConv2d_forward lib L z = Inr y"
    and ys: "shape5 y = shape5 z"
    using ch by (auto simp: shape5_def)
  have d3: "0 < dim3 z" using m by simp
  obtain x2 where x2: "Conv3d_forward w z = Inr x2" and x2s: "shape5 x2 = shape5 z"
    using w pos d3 by (simp add: Conv3d_forward_def shape5_def)
  have "block_sum lib L w z = add5 y x2"
    by (simp only: block_sum_def y x2 ebind_Inr_left)
  then show ?thesis
    using ys x2s by (simp add: add5_def bc_dim_def ebind_def shape5_def)
qed

lemma block_gelu_shape:
  assumes "\<exists>s. block_sum lib L w z = Inr s \<and> shape5 s = shape5 z"
  shows "\<exists>s. block_gelu lib L w z = Inr s \<and> shape5 s = shape5 z"
  using assms by (auto simp: block_gelu_def ebind_def gelu_def shape5_def)

lemma forward_blocks_shape:
  assumes init: "FNO2d_Multi_init g d m1 m2 wd = Inr M"
    and z: "dim1 z = wd" "dim2 z = num_vars g" 
    and m: "0 < m1" "m1 \<le> dim3 z" "m2 \<le> dim4 z div 2 + 1"
    and pos: "0 < num_vars g" "0 < dim4 z" "0 < dim0 z"
  shows "\<exists>s. forward_blocks lib M z = Inr s \<and> shape5 s = shape5 z"
proof -
  note I = FNO2d_Multi_init_Inr [OF init]
  note c0 = SpectralConv2d_init_fields(1) [OF I(10)]
  note c1 = SpectralConv2d_init_fields(1) [OF I(11)]
  note c2 = SpectralConv2d_init_fields(1) [OF I(12)]
  note c3 = SpectralConv2d_init_fields(1) [OF I(13)]
  note c4 = SpectralConv2d_init_fields(1) [OF I(14)]
  note c5 = SpectralConv2d_init_fields(1) [OF I(15)]
  have wd: "0 < wd" by (rule SpectralConv2d_init_fields(2) [OF I(10)])
  have sum: "\<exists>s. block_sum lib L w x = Inr s \<and> shape5 s = shape5 x"
    if "shape5 x = shape5 z"
      "SpectralConv2d_wf L \<and> in_channels_time L = wd \<and> out_channels_time L = wd \<and>
         in_channels_dim L = num_vars g \<and> out_channels_dim L = num_vars g \<and> modes1 L = m1 \<and> modes2 L = m2"
      "w = Conv3d_init d n wd wd" for L w x n
    using that z m pos wd by (intro block_sum_shape) (auto simp: shape5_def Conv3d_init_def)
  obtain x1 where x1: "block_gelu lib (conv0 M) (w0 M) z = Inr x1" "shape5 x1 = shape5 z"
    using block_gelu_shape [OF sum [OF refl c0 I(4)]] by auto
  obtain x2 where x2: "block_gelu lib (conv1 M) (w1 M) x1 = Inr x2" "shape5 x2 = shape5 z"
    using block_gelu_shape [OF sum [OF x1(2) c1 I(5)]] x1(2) by auto
  obtain x3 where x3: "block_gelu lib (conv2 M) (w2 M) x2 = Inr x3" "shape5 x3 = shape5 z"
    using block_gelu_shape [OF sum [OF x2(2) c2 I(6)]] x2(2) by auto
  obtain x4 where x4: "block_sum lib (conv3 M) (w3 M) x3 = Inr x4" "shape5 x4 = shape5 z"
    using sum [OF x3(2) c3 I(7)] x3(2) by auto
  obtain x5 where x5: "block_sum lib (conv4 M) (w4 M) x4 = Inr x5" "shape5 x5 = shape5 z"
    using sum [OF x4(2) c4 I(8)] x4(2) by auto
  obtain x6 where x6: "block_sum lib (conv5 M) (w5 M) x5 = Inr x6" "shape5 x6 = shape5 z"
    using sum [OF x5(2) c5 I(9)] x5(2) by auto
  have "forward_blocks lib M z = Inr x6"
    by (simp only: forward_blocks_unfold x1 x2 x3 x4 x5 x6 ebind_Inr_left)
  with x6(2) show ?thesis by simp
qed

lemma FNO2d_Multi_forward_shape:
  assumes init: "FNO2d_Multi_init g d m1 m2 wd = Inr M"
    and x: "dim1 x = num_vars g" "dim4 x = T_in g"
      "length (x_grid g) = dim2 x" "length (y_grid g) = dim3 x"
    and m: "0 < m1" "m1 \<le> dim2 x" "m2 \<le> dim3 x div 2 + 1"
    and pos: "0 < num_vars g" "0 < dim3 x" "0 < dim0 x"
  shows "\<exists>y. FNO2d_Multi_forward g lib M x = Inr y \<and>
           shape5 y = (dim0 x, dim1 x, dim2 x, dim3 x, step g)"
proof -
  note I = FNO2d_Multi_init_Inr [OF init]
  have fc0: "in_features (fc0 M) = T_in g + 2" "out_features (fc0 M) = wd"
    and fc1: "in_features (fc1 M) = wd" "out_features (fc1 M) = 128"
    and fc2: "in_features (fc2 M) = 128" "out_features (fc2 M) = step g"
    by (simp_all add: I Linear_init_def)
  obtain z where z: "forward_lift g M x = Inr z"
      "shape5 z = (dim0 x, wd, dim1 x, dim2 x, dim3 x)"
    using forward_lift_formula [OF fc0(1) x(2,3,4)] fc0(2) by auto
  then have zd: "dim0 z = dim0 x" "dim1 z = wd" "dim2 z = num_vars g" "dim3 z = dim2 x" "dim4 z = dim3 x"
    using x(1) by (simp_all add: shape5_def)
  obtain s where s: "forward_blocks lib M z = Inr s" "shape5 s = shape5 z"
    using forward_blocks_shape [OF init zd(2,3), of lib] m pos zd by auto
  then have sd: "dim0 s = dim0 x" "dim1 s = wd" "dim2 s = num_vars g" "dim3 s = dim2 x" "dim4 s = dim3 x"
    using zd by (simp_all add: shape5_def)
  obtain y where y: "forward_project lib M s = Inr y"
      "shape5 y = (dim0 s, dim2 s, dim3 s, dim4 s, out_features (fc2 M))"
    using forward_project_formula [of M s lib] fc1 fc2 sd by auto
  have "FNO2d_Multi_forward g lib M x = Inr y"
    by (simp only: FNO2d_Multi_forward_def z s y ebind_Inr_left)
  with y(2) show ?thesis
    by (simp add: sd fc2 x(1))
qed

lemma ex_model_init: "FNO2d_Multi_init ex_globals ex_draws 1 1 1 = Inr ex_model"
  by (simp add: FNO2d_Multi_init_def ex_globals_def ex_draws_def ex_model_def ex_layer_def
      ex_linear_def ex_conv3d_def Linear_init_def Conv3d_init_def SpectralConv2d_init_def
      ebind_def Let_def)

text \<open>
  Claim C8. In a constructed model, \<open>fc0\<close> maps \<open>T_in + 2\<close> channels to the width,
  \<open>fc1\<close> the width to 128 and \<open>fc2\<close> 128 to \<open>step\<close>. The lift head returns, at every
  point, the linear map \<open>fc0\<close> of the window's time channels and the two coordinates of
  that point; the projection head returns, at every point, \<open>fc2\<close> of GELU of \<open>fc1\<close> of
  the latent channels of that point, with no activation after \<open>fc2\<close>. Both keep the
  sizes of the batch, variable and spatial axes.
\<close>

theorem heads_pointwise:
  assumes init: "FNO2d_Multi_init g d m1 m2 wd = Inr M"
  shows "in_features (fc0 M) = T_in g + 2 \<and> out_features (fc0 M) = wd \<and>
         in_features (fc1 M) = wd \<and> out_features (fc1 M) = 128 \<and>
         in_features (fc2 M) = 128 \<and> out_features (fc2 M) = step g \<and>
         (dim4 x = T_in g \<and> length (x_grid g) = dim2 x \<and> length (y_grid g) = dim3 x \<longrightarrow>
            (\<exists>z. forward_lift g M x = Inr z \<and>
               shape5 z = (dim0 x, wd, dim1 x, dim2 x, dim3 x) \<and>
               (\<forall>b h v r c. at5 z b h v r c =
                  (\<Sum>k<T_in g. at5 x b v r c k * weight (fc0 M) h k)
                  + x_grid g ! r * weight (fc0 M) h (T_in g)
                  + y_grid g ! c * weight (fc0 M) h (T_in g + 1)
                  + bias (fc0 M) h))) \<and>
         (dim1 z = wd \<longrightarrow>
            (\<exists>y. forward_project lib M z = Inr y \<and>
               shape5 y = (dim0 z, dim2 z, dim3 z, dim4 z, step g) \<and>
               (\<forall>b v r c s. at5 y b v r c s =
                  (\<Sum>h<128.
                     gelu_at lib ((\<Sum>k<wd. at5 z b k v r c * weight (fc1 M) h k) + bias (fc1 M) h)
                     * weight (fc2 M) s h)
                  + bias (fc2 M) s)))"
proof -
  note I = FNO2d_Multi_init_Inr [OF init]
  have fc0: "in_features (fc0 M) = T_in g + 2" "out_features (fc0 M) = wd"
    and fc1: "in_features (fc1 M) = wd" "out_features (fc1 M) = 128"
    and fc2: "in_features (fc2 M) = 128" "out_features (fc2 M) = step g"
    by (simp_all add: I Linear_init_def)
  have lift: "\<exists>z. forward_lift g M x = Inr z \<and>
               shape5 z = (dim0 x, wd, dim1 x, dim2 x, dim3 x) \<and>
               (\<forall>b h v r c. at5 z b h v r c =
                  (\<Sum>k<T_in g. at5 x b v r c k * weight (fc0 M) h k)
                  + x_grid g ! r * weight (fc0 M) h (T_in g)
                  + y_grid g ! c * weight (fc0 M) h (T_in g + 1)
                  + bias (fc0 M) h)"
    if "dim4 x = T_in g" "length (x_grid g) = dim2 x" "length (y_grid g) = dim3 x"
    using forward_lift_formula [OF fc0(1) that] by (simp only: fc0(2))
  have proj: "\<exists>y. forward_project lib M z = Inr y \<and>
               shape5 y = (dim0 z, dim2 z, dim3 z, dim4 z, step g) \<and>
               (\<forall>b v r c s. at5 y b v r c s =
                  (\<Sum>h<128.
                     gelu_at lib ((\<Sum>k<wd. at5 z b k v r c * weight (fc1 M) h k) + bias (fc1 M) h)
                     * weight (fc2 M) s h)
                  + bias (fc2 M) s)"
    if zw: "dim1 z = wd"
    using forward_project_formula [of M z lib] fc1 fc2 zw by simp
  show ?thesis
    using fc0 fc1 fc2 lift proj by blast
qed

theorem heads_pointwise_witness:
  "in_features (fc0 ex_model) = 4 \<and> out_features (fc0 ex_model) = 1 \<and>
   in_features (fc1 ex_model) = 1 \<and> out_features (fc1 ex_model) = 128 \<and>
   in_features (fc2 ex_model) = 128 \<and> out_features (fc2 ex_model) = 2 \<and>
   (\<exists>z. forward_lift ex_globals ex_model ex_window = Inr z \<and> shape5 z = (1, 1, 1, 4, 4) \<and>
        at5 z 0 0 0 3 2 = 7) \<and>
   (\<exists>y. forward_project ex_lib ex_model ex_latent = Inr y \<and> shape5 y = (1, 1, 4, 4, 2) \<and>
        at5 y 0 0 0 0 0 = 1024)"
proof -
  note h = heads_pointwise [OF ex_model_init, of ex_window ex_latent ex_lib]
  have a: "dim4 ex_window = T_in ex_globals \<and> length (x_grid ex_globals) = dim2 ex_window \<and>
      length (y_grid ex_globals) = dim3 ex_window"
    by (simp add: ex_window_def ex_globals_def)
  have b: "dim1 ex_latent = 1"
    by (simp add: ex_latent_def)
  from h a obtain z where z: "forward_lift ex_globals ex_model ex_window = Inr z"
      "shape5 z = (dim0 ex_window, 1, dim1 ex_window, dim2 ex_window, dim3 ex_window)"
      "\<And>b h v r c. at5 z b h v r c =
          (\<Sum>k<T_in ex_globals. at5 ex_window b v r c k * weight (fc0 ex_model) h k)
          + x_grid ex_globals ! r * weight (fc0 ex_model) h (T_in ex_globals)
          + y_grid ex_globals ! c * weight (fc0 ex_model) h (T_in ex_globals + 1)
          + bias (fc0 ex_model) h"
    by blast
  from h b obtain y where y: "forward_project ex_lib ex_model ex_latent = Inr y"
      "shape5 y = (dim0 ex_latent, dim2 ex_latent, dim3 ex_latent, dim4 ex_latent, step ex_globals)"
      "\<And>b v r c s. at5 y b v r c s =
          (\<Sum>h<128. gelu_at ex_lib ((\<Sum>k<1. at5 ex_latent b k v r c * weight (fc1 ex_model) h k)
                + bias (fc1 ex_model) h) * weight (fc2 ex_model) s h)
          + bias (fc2 ex_model) s"
    by blast
  have "at5 z 0 0 0 3 2 = 7"
    by (simp add: z(3) ex_window_def ex_globals_def ex_model_def ex_linear_def)
  moreover have "at5 y 0 0 0 0 0 = 1024"
    by (simp add: y(3) ex_latent_def ex_lib_def ex_model_def ex_linear_def)
  moreover have "shape5 z = (1, 1, 1, 4, 4)" "shape5 y = (1, 1, 4, 4, 2)"
    using z(2) y(2) by (simp_all add: ex_window_def ex_latent_def ex_globals_def)
  ultimately show ?thesis
    using h z(1) y(1) by (simp add: ex_globals_def)
qed

subsection \<open>The rollout\<close>

lemma LpLoss_call_myloss:
  assumes wf: "wf2 x" "wf2 y" and shape: "size0 y = size0 x" "size1 y = size1 x"
    and nz: "size0 x * size1 x \<noteq> 0"
  shows "\<exists>v. LpLoss_call myloss x y = Inr (Scalar v)"
proof -
  have rx: "reshape_rows (size0 x) x = Inr x"
    using wf(1) nz by (rule reshape_rows_id)
  have ry: "reshape_rows (size0 x) y = Inr y"
    using reshape_rows_id [OF wf(2)] nz shape by simp
  obtain d where d: "bc2 (-) x y = Inr d"
    using bc2_same [OF shape] by blast
  show ?thesis
    by (simp add: LpLoss_call_def LpLoss_rel_def rx ry d ebind_def myloss_def Let_def)
qed

lemma reshape5_ok:
  assumes "dim0 t * dim1 t * dim2 t * dim3 t * dim4 t = n * k" "0 < n" "0 < k"
  shows "\<exists>r. reshape5 n t = Inr r \<and> wf2 r \<and> size0 r = n \<and> size1 r = k"
  using assms by (simp add: reshape5_def Let_def wf2_def list_all_iff)

lemma rollout_loop_append:
  "rollout_loop g lib M yy (ts @ us) st =
     ebind (rollout_loop g lib M yy ts st) (rollout_loop g lib M yy us)"
proof (induction ts arbitrary: st)
  case Nil
  show ?case by (simp add: ebind_Inr_left)
next
  case (Cons t ts)
  have "rollout_loop g lib M yy (ts @ us) =
      (\<lambda>v. ebind (rollout_loop g lib M yy ts v) (rollout_loop g lib M yy us))"
    by (rule ext) (rule Cons.IH)
  then show ?case by (simp add: ebind_assoc)
qed

lemma rollout_step_inv:
  assumes init: "FNO2d_Multi_init g d m1 m2 wd = Inr M"
    and grid: "length (x_grid g) = X" "length (y_grid g) = Y"
    and m: "0 < m1" "m1 \<le> X" "m2 \<le> Y div 2 + 1"
    and pos: "0 < num_vars g" "0 < Y" "0 < B"
    and bs: "batch_size g = B"
    and stp: "0 < step g"
    and yy: "shape5 yy = (B, num_vars g, X, Y, T_out g)"
    and t: "t = k * step g" "t + step g \<le> T_out g"
    and inv1: "shape5 (xx st) = (B, num_vars g, X, Y, T_in g)"
    and inv2: "loss st = None \<or> (\<exists>v. loss st = Some (Scalar v))"
    and inv3: "0 < k \<Longrightarrow> \<exists>p. pred st = Some p \<and> shape5 p = (B, num_vars g, X, Y, k * step g)"
  shows "\<exists>st'. rollout_step g lib M yy t st = Inr st' \<and>
           shape5 (xx st') = (B, num_vars g, X, Y, T_in g - step g + step g) \<and>
           (\<exists>v. loss st' = Some (Scalar v)) \<and>
           (\<exists>p. pred st' = Some p \<and> shape5 p = (B, num_vars g, X, Y, (k + 1) * step g))"
proof -
  have xd: "dim0 (xx st) = B" "dim1 (xx st) = num_vars g" "dim2 (xx st) = X" "dim3 (xx st) = Y"
      "dim4 (xx st) = T_in g"
    using inv1 by (simp_all add: shape5_def)
  have yd: "dim0 yy = B" "dim1 yy = num_vars g" "dim2 yy = X" "dim3 yy = Y" "dim4 yy = T_out g"
    using yy by (simp_all add: shape5_def)
  have X0: "0 < X" using m by simp
  define K where "K = num_vars g * X * Y * step g"
  have K0: "0 < K" using pos X0 stp by (simp add: K_def)
  obtain im where im: "FNO2d_Multi_forward g lib M (xx st) = Inr im"
    and ims: "shape5 im = (B, num_vars g, X, Y, step g)"
    using FNO2d_Multi_forward_shape [OF init, of "xx st" lib] xd grid m pos by auto
  then have imd: "dim0 im = B" "dim1 im = num_vars g" "dim2 im = X" "dim3 im = Y" "dim4 im = step g"
    by (simp_all add: shape5_def)
  define y where "y = slice_last yy t (t + step g)"
  have ys: "dim0 y = B" "dim1 y = num_vars g" "dim2 y = X" "dim3 y = Y" "dim4 y = step g"
    using t(2) by (simp_all add: y_def slice_last_def yd)
  obtain imr where imr: "reshape5 B im = Inr imr" "wf2 imr" "size0 imr = B" "size1 imr = K"
    using reshape5_ok [of im B K] pos K0 by (auto simp: imd K_def)
  obtain yr where yr: "reshape5 B y = Inr yr" "wf2 yr" "size0 yr = B" "size1 yr = K"
    using reshape5_ok [of y B K] pos K0 by (auto simp: ys K_def)
  obtain l where l: "LpLoss_call myloss imr yr = Inr (Scalar l)"
    using LpLoss_call_myloss [OF imr(2) yr(2)] imr yr pos K0 by auto
  obtain p' where p': "(if t = 0 then Inr im
             else (case pred st of None \<Rightarrow> Inl NameError | Some p \<Rightarrow> cat_last p im)) = Inr p'"
    and p's: "shape5 p' = (B, num_vars g, X, Y, (k + 1) * step g)"
  proof (cases "k = 0")
    case True
    then show ?thesis using that t(1) ims by simp
  next
    case False
    then obtain p where p: "pred st = Some p" "shape5 p = (B, num_vars g, X, Y, k * step g)"
      using inv3 by auto
    from False stp t(1) have "t \<noteq> 0" by simp
    with p show ?thesis
      using that imd by (simp add: cat_last_def shape5_def)
  qed
  obtain x' where x': "cat_last (slice_last (xx st) (step g) (dim4 (xx st))) im = Inr x'"
    and x's: "shape5 x' = (B, num_vars g, X, Y, T_in g - step g + step g)"
    using imd xd by (simp add: cat_last_def slice_last_def shape5_def)
  obtain v where v: "add_loss (loss st) (Scalar l) = Inr (Scalar v)"
    using inv2 by auto
  have "rollout_step g lib M yy t st =
      Inr \<lparr>xx = x', pred = Some p', loss = Some (Scalar v)\<rparr>"
    unfolding rollout_step_def Let_def y_def [symmetric] bs
    by (simp only: im imr yr l v p' x' ebind_Inr_left)
  then show ?thesis
    using x's p's by simp
qed

lemma py_range_dvd:
  assumes "0 < s" "s dvd n"
  shows "py_range n s = Inr (map (\<lambda>i. i * s) [0..<n div s])"
proof -
  from assms obtain q where q: "n = q * s" by (auto simp: dvd_def)
  have "q * s + s - 1 = (s - 1) + q * s"
    using assms(1) by simp
  then have "(q * s + s - 1) div s = q"
    using assms(1) by (simp only: div_mult_self1) simp
  then show ?thesis
    using assms(1) by (simp add: py_range_def q)
qed

lemma rollout_loop_inv:
  assumes init: "FNO2d_Multi_init g d m1 m2 wd = Inr M"
    and grid: "length (x_grid g) = X" "length (y_grid g) = Y"
    and m: "0 < m1" "m1 \<le> X" "m2 \<le> Y div 2 + 1"
    and pos: "0 < num_vars g" "0 < Y" "0 < B"
    and bs: "batch_size g = B"
    and stp: "0 < step g" "step g \<le> T_in g"
    and yy: "shape5 yy = (B, num_vars g, X, Y, T_out g)"
    and x0: "shape5 xx0 = (B, num_vars g, X, Y, T_in g)"
    and n: "n * step g \<le> T_out g"
    and k: "k \<le> n"
  shows "\<exists>st. rollout_loop g lib M yy (take k (map (\<lambda>i. i * step g) [0..<n]))
                \<lparr>xx = xx0, pred = None, loss = None\<rparr> = Inr st \<and>
           shape5 (xx st) = (B, num_vars g, X, Y, T_in g) \<and>
           (loss st = None \<or> (\<exists>v. loss st = Some (Scalar v))) \<and>
           (0 < k \<longrightarrow> (\<exists>v. loss st = Some (Scalar v))) \<and>
           (case pred st of None \<Rightarrow> k = 0
            | Some p \<Rightarrow> 0 < k \<and> shape5 p = (B, num_vars g, X, Y, k * step g))"
  using k
proof (induction k)
  case 0
  show ?case using x0 by simp
next
  case (Suc k)
  let ?ts = "map (\<lambda>i. i * step g) [0..<n]"
  from Suc.prems have kn: "k < n" by simp
  with Suc.IH obtain st where
    st: "rollout_loop g lib M yy (take k ?ts) \<lparr>xx = xx0, pred = None, loss = None\<rparr> = Inr st"
    and i1: "shape5 (xx st) = (B, num_vars g, X, Y, T_in g)"
    and i2: "loss st = None \<or> (\<exists>v. loss st = Some (Scalar v))"
    and i3: "case pred st of None \<Rightarrow> k = 0
            | Some p \<Rightarrow> 0 < k \<and> shape5 p = (B, num_vars g, X, Y, k * step g)"
    by auto
  have i3': "\<exists>p. pred st = Some p \<and> shape5 p = (B, num_vars g, X, Y, k * step g)" if "0 < k"
    using i3 that by (cases "pred st") auto
  have "Suc k * step g \<le> n * step g"
    using kn by (intro mult_le_mono1) simp
  with n have le: "k * step g + step g \<le> T_out g" by simp
  from rollout_step_inv [OF init grid m pos bs stp(1) yy refl le i1 i2 i3', of lib]
  obtain st' where st': "rollout_step g lib M yy (k * step g) st = Inr st'"
    and j1: "shape5 (xx st') = (B, num_vars g, X, Y, T_in g - step g + step g)"
    and j2: "\<exists>v. loss st' = Some (Scalar v)"
    and j3: "\<exists>p. pred st' = Some p \<and> shape5 p = (B, num_vars g, X, Y, (k + 1) * step g)"
    by blast
  have tk: "take (Suc k) ?ts = take k ?ts @ [k * step g]"
    using kn by (simp add: take_Suc_conv_app_nth)
  have "rollout_loop g lib M yy (take (Suc k) ?ts) \<lparr>xx = xx0, pred = None, loss = None\<rparr>
      = Inr st'"
    by (simp only: tk rollout_loop_append st ebind_Inr_left rollout_loop.simps st')
  then show ?case
    using j1 j2 j3 stp(2) by auto
qed

lemma cat_last_Inr:
  assumes "cat_last a b = Inr c"
  shows "at5 c i v r s k = (if k < dim4 a then at5 a i v r s k else at5 b i v r s (k - dim4 a))"
  using assms by (auto simp: cat_last_def split: if_splits)

lemma rollout_step_entries:
  assumes ok: "rollout_step g lib M yy t st = Inr st'"
    and t: "t = k * step g" and stp: "0 < step g"
    and w: "dim4 (xx st) = T_in g"
    and buf: "0 < k \<Longrightarrow> \<exists>p. pred st = Some p \<and> dim4 p = k * step g"
  shows "\<exists>im p'. FNO2d_Multi_forward g lib M (xx st) = Inr im \<and> pred st' = Some p' \<and>
      (\<forall>b v r c.
         (\<forall>j<T_in g - step g. at5 (xx st') b v r c j = at5 (xx st) b v r c (step g + j)) \<and>
         (\<forall>j<step g. at5 (xx st') b v r c (T_in g - step g + j) = at5 im b v r c j \<and>
                      at5 p' b v r c (k * step g + j) = at5 im b v r c j) \<and>
         (\<forall>p. pred st = Some p \<longrightarrow> (\<forall>j<k * step g. at5 p' b v r c j = at5 p b v r c j)))"
proof -
  from ok [unfolded rollout_step_def Let_def] obtain im imr yr l loss' pred' xx' where
    im: "FNO2d_Multi_forward g lib M (xx st) = Inr im"
    and pr: "(if t = 0 then Inr im
             else (case pred st of None \<Rightarrow> Inl NameError | Some p \<Rightarrow> cat_last p im)) = Inr pred'"
    and xw: "cat_last (slice_last (xx st) (step g) (dim4 (xx st))) im = Inr xx'"
    and st': "st' = \<lparr>xx = xx', pred = Some pred', loss = Some loss'\<rparr>"
    by (blast dest: ebind_Inr)
  define S where "S = slice_last (xx st) (step g) (dim4 (xx st))"
  have dS: "dim4 S = T_in g - min (step g) (T_in g)"
    by (simp add: S_def slice_last_def w)
  have aS: "at5 S b v r c j = at5 (xx st) b v r c (min (step g) (T_in g) + j)" for b v r c j
    by (simp add: S_def slice_last_def w)
  note xe = cat_last_Inr [OF xw [folded S_def]]
  have w1: "at5 xx' b v r c j = at5 (xx st) b v r c (step g + j)" if "j < T_in g - step g" for b v r c j
    using that by (auto simp: xe dS aS min_def)
  have w2: "at5 xx' b v r c (T_in g - step g + j) = at5 im b v r c j" for b v r c j
    by (auto simp: xe dS min_def)
  have b1: "at5 pred' b v r c (k * step g + j) = at5 im b v r c j" for b v r c j
  proof (cases "k = 0")
    case True
    with pr t show ?thesis by simp
  next
    case False
    then obtain p where p: "pred st = Some p" "dim4 p = k * step g"
      using buf by auto
    from False stp t have "t \<noteq> 0" by simp
    with pr p have "cat_last p im = Inr pred'" by simp
    from cat_last_Inr [OF this] p(2) show ?thesis by simp
  qed
  have b2: "at5 pred' b v r c j = at5 p b v r c j" if "pred st = Some p" "j < k * step g" for p b v r c j
  proof -
    from that(2) have k0: "0 < k" by (cases k) auto
    then have dp: "dim4 p = k * step g" using buf that(1) by auto
    from k0 stp t have "t \<noteq> 0" by simp
    with pr that(1) have "cat_last p im = Inr pred'" by simp
    from cat_last_Inr [OF this] dp that(2) show ?thesis by simp
  qed
  show ?thesis
    using im w1 w2 b1 b2 by (simp add: st')
qed


lemma ebind_loop_Nil: "ebind m (rollout_loop g lib M yy []) = m"
  by (cases m) (simp_all add: ebind_def)

text \<open>
  Claim C3, amended. For a constructed model, a batch without an empty axis that fits its
  grids and mode counts, and \<open>0 < step \<le> T_in\<close>, \<open>0 < T_out\<close>, \<open>step\<close> dividing
  \<open>T_out\<close>: the loop runs over \<open>T_out div step\<close> indices. After each number \<open>k\<close> of
  passes the window has \<open>T_in\<close> time channels and the prediction buffer, unbound before
  the first pass, has \<open>k * step\<close>. Pass \<open>k + 1\<close> calls the model on the window; the new
  window holds the old one without its first \<open>step\<close> channels, followed by the \<open>step\<close>
  channels of the prediction, and the new buffer holds the old one followed by the
  prediction. The rollout raises nothing, ends with a buffer of \<open>T_out\<close> channels, and its
  second loss is the loss of the whole buffer against the whole target.
\<close>

theorem rollout_lengths:
  assumes init: "FNO2d_Multi_init g d m1 m2 wd = Inr M"
    and grid: "length (x_grid g) = X" "length (y_grid g) = Y"
    and m: "0 < m1" "m1 \<le> X" "m2 \<le> Y div 2 + 1"
    and pos: "0 < num_vars g" "0 < Y" "0 < B"
    and bs: "batch_size g = B"
    and stp: "0 < step g" "step g \<le> T_in g" "step g dvd T_out g" "0 < T_out g"
    and yy: "shape5 yy = (B, num_vars g, X, Y, T_out g)"
    and x0: "shape5 xx0 = (B, num_vars g, X, Y, T_in g)"
  shows "\<exists>ts. py_range (T_out g) (step g) = Inr ts \<and> length ts = T_out g div step g \<and>
      (\<forall>k\<le>T_out g div step g.
         \<exists>st. rollout_loop g lib M yy (take k ts) \<lparr>xx = xx0, pred = None, loss = None\<rparr>
                = Inr st \<and>
              dim4 (xx st) = T_in g \<and>
              (case pred st of None \<Rightarrow> k = 0 | Some p \<Rightarrow> 0 < k \<and> dim4 p = k * step g)) \<and>
      (\<forall>k<T_out g div step g.
         \<exists>st st' im p'.
           rollout_loop g lib M yy (take k ts) \<lparr>xx = xx0, pred = None, loss = None\<rparr>
             = Inr st \<and>
           rollout_loop g lib M yy (take (Suc k) ts) \<lparr>xx = xx0, pred = None, loss = None\<rparr>
             = Inr st' \<and>
           FNO2d_Multi_forward g lib M (xx st) = Inr im \<and> dim4 im = step g \<and>
           pred st' = Some p' \<and>
           (\<forall>b v r c.
              (\<forall>j<T_in g - step g. at5 (xx st') b v r c j = at5 (xx st) b v r c (step g + j)) \<and>
              (\<forall>j<step g. at5 (xx st') b v r c (T_in g - step g + j) = at5 im b v r c j \<and>
                           at5 p' b v r c (k * step g + j) = at5 im b v r c j) \<and>
              (\<forall>p. pred st = Some p \<longrightarrow>
                 (\<forall>j<k * step g. at5 p' b v r c j = at5 p b v r c j)))) \<and>
      (\<exists>l2_step l2_full st p pr yr.
         rollout g lib M xx0 yy = Inr (l2_step, l2_full, st) \<and>
         dim4 (xx st) = T_in g \<and> pred st = Some p \<and> dim4 p = T_out g \<and>
         reshape5 (batch_size g) p = Inr pr \<and> reshape5 (batch_size g) yy = Inr yr \<and>
         LpLoss_call myloss pr yr = Inr (Scalar l2_full))"
proof -
  define n where "n = T_out g div step g"
  define ts where "ts = map (\<lambda>i. i * step g) [0..<n]"
  define st0 where "st0 = \<lparr>xx = xx0, pred = None, loss = None\<rparr>"
  have nT: "n * step g = T_out g"
    using stp(3) by (simp add: n_def)
  have n0: "0 < n"
    using nT stp(4) by (cases n) auto
  have range: "py_range (T_out g) (step g) = Inr ts"
    unfolding ts_def n_def using stp(1,3) by (rule py_range_dvd)
  have len: "length ts = n" by (simp add: ts_def)
  have loop: "\<exists>st. rollout_loop g lib M yy (take k ts) st0 = Inr st \<and>
           shape5 (xx st) = (B, num_vars g, X, Y, T_in g) \<and>
           (loss st = None \<or> (\<exists>v. loss st = Some (Scalar v))) \<and>
           (0 < k \<longrightarrow> (\<exists>v. loss st = Some (Scalar v))) \<and>
           (case pred st of None \<Rightarrow> k = 0
            | Some p \<Rightarrow> 0 < k \<and> shape5 p = (B, num_vars g, X, Y, k * step g))"
    if "k \<le> n" for k
    unfolding ts_def st0_def
    using init grid m pos bs stp(1,2) yy x0 _ that
    by (rule rollout_loop_inv) (simp add: nT)
  have part1: "\<exists>st. rollout_loop g lib M yy (take k ts) st0 = Inr st \<and>
              dim4 (xx st) = T_in g \<and>
              (case pred st of None \<Rightarrow> k = 0 | Some p \<Rightarrow> 0 < k \<and> dim4 p = k * step g)"
    if "k \<le> n" for k
    using loop [OF that] by (auto simp: shape5_def split: option.splits)
  have part3: "\<exists>st st' im p'.
           rollout_loop g lib M yy (take k ts) st0 = Inr st \<and>
           rollout_loop g lib M yy (take (Suc k) ts) st0 = Inr st' \<and>
           FNO2d_Multi_forward g lib M (xx st) = Inr im \<and> dim4 im = step g \<and>
           pred st' = Some p' \<and>
           (\<forall>b v r c.
              (\<forall>j<T_in g - step g. at5 (xx st') b v r c j = at5 (xx st) b v r c (step g + j)) \<and>
              (\<forall>j<step g. at5 (xx st') b v r c (T_in g - step g + j) = at5 im b v r c j \<and>
                           at5 p' b v r c (k * step g + j) = at5 im b v r c j) \<and>
              (\<forall>p. pred st = Some p \<longrightarrow>
                 (\<forall>j<k * step g. at5 p' b v r c j = at5 p b v r c j)))"
    if kn: "k < n" for k
  proof -
    from loop [of k] kn obtain st where
      st: "rollout_loop g lib M yy (take k ts) st0 = Inr st"
      and i1: "shape5 (xx st) = (B, num_vars g, X, Y, T_in g)"
      and i3: "case pred st of None \<Rightarrow> k = 0
            | Some p \<Rightarrow> 0 < k \<and> shape5 p = (B, num_vars g, X, Y, k * step g)"
      by auto
    from loop [of "Suc k"] kn obtain st' where
      st': "rollout_loop g lib M yy (take (Suc k) ts) st0 = Inr st'"
      by auto
    have xd: "dim0 (xx st) = B" "dim1 (xx st) = num_vars g" "dim2 (xx st) = X" "dim3 (xx st) = Y"
        "dim4 (xx st) = T_in g"
      using i1 by (simp_all add: shape5_def)
    have buf: "\<exists>p. pred st = Some p \<and> dim4 p = k * step g" if "0 < k"
      using i3 that by (cases "pred st") (auto simp: shape5_def)
    have tk: "take (Suc k) ts = take k ts @ [k * step g]"
      using kn by (simp add: ts_def take_Suc_conv_app_nth)
    have one: "rollout_step g lib M yy (k * step g) st = Inr st'"
      using st' by (simp only: tk rollout_loop_append st ebind_Inr_left rollout_loop.simps
          ebind_loop_Nil)
    from rollout_step_entries [OF one refl stp(1) xd(5) buf]
    obtain im p' where im: "FNO2d_Multi_forward g lib M (xx st) = Inr im"
      and p': "pred st' = Some p'"
      and ent: "\<forall>b v r c.
         (\<forall>j<T_in g - step g. at5 (xx st') b v r c j = at5 (xx st) b v r c (step g + j)) \<and>
         (\<forall>j<step g. at5 (xx st') b v r c (T_in g - step g + j) = at5 im b v r c j \<and>
                      at5 p' b v r c (k * step g + j) = at5 im b v r c j) \<and>
         (\<forall>p. pred st = Some p \<longrightarrow> (\<forall>j<k * step g. at5 p' b v r c j = at5 p b v r c j))"
      by blast
    have "\<exists>y. FNO2d_Multi_forward g lib M (xx st) = Inr y \<and>
           shape5 y = (dim0 (xx st), dim1 (xx st), dim2 (xx st), dim3 (xx st), step g)"
      using xd grid m pos by (intro FNO2d_Multi_forward_shape [OF init]) simp_all
    with im have "dim4 im = step g"
      by (auto simp: shape5_def)
    with st st' im p' ent show ?thesis by blast
  qed
  from loop [of n] obtain st p v where
    st: "rollout_loop g lib M yy ts st0 = Inr st"
    and s1: "shape5 (xx st) = (B, num_vars g, X, Y, T_in g)"
    and s2: "loss st = Some (Scalar v)"
    and s3: "pred st = Some p" "shape5 p = (B, num_vars g, X, Y, T_out g)"
    using n0 len nT by (auto split: option.splits)
  have X0: "0 < X" using m by simp
  define K where "K = num_vars g * X * Y * T_out g"
  have K0: "0 < K" using pos X0 stp(4) by (simp add: K_def)
  have pd: "dim0 p * dim1 p * dim2 p * dim3 p * dim4 p = B * K"
    using s3(2) by (simp add: shape5_def K_def)
  have yd: "dim0 yy * dim1 yy * dim2 yy * dim3 yy * dim4 yy = B * K"
    using yy by (simp add: shape5_def K_def)
  obtain pr where pr: "reshape5 B p = Inr pr" "wf2 pr" "size0 pr = B" "size1 pr = K"
    using reshape5_ok [OF pd pos(3) K0] by blast
  obtain yr where yr: "reshape5 B yy = Inr yr" "wf2 yr" "size0 yr = B" "size1 yr = K"
    using reshape5_ok [OF yd pos(3) K0] by blast
  obtain l where l: "LpLoss_call myloss pr yr = Inr (Scalar l)"
    using LpLoss_call_myloss [OF pr(2) yr(2)] pr yr pos K0 by auto
  have roll: "rollout g lib M xx0 yy = Inr (v, l, st)"
    unfolding rollout_def st0_def [symmetric] bs
    by (simp add: range ebind_Inr_left st s2 s3 pr yr l)
  have part2: "\<exists>l2_step l2_full st p pr yr.
         rollout g lib M xx0 yy = Inr (l2_step, l2_full, st) \<and>
         dim4 (xx st) = T_in g \<and> pred st = Some p \<and> dim4 p = T_out g \<and>
         reshape5 (batch_size g) p = Inr pr \<and> reshape5 (batch_size g) yy = Inr yr \<and>
         LpLoss_call myloss pr yr = Inr (Scalar l2_full)"
    using roll s1 s3 pr(1) yr(1) l unfolding bs by (auto simp: shape5_def)
  show ?thesis
    using range len part1 part3 part2 unfolding n_def st0_def by blast
qed


lemma ex_model_wide_init: "FNO2d_Multi_init ex_globals_wide ex_draws 1 1 1 = Inr ex_model_wide"
  by (simp add: FNO2d_Multi_init_def ex_globals_wide_def ex_model_wide_def ex_globals_def
      ex_draws_def ex_model_def ex_layer_def
      ex_linear_def ex_conv3d_def Linear_init_def Conv3d_init_def SpectralConv2d_init_def
      ebind_def Let_def)

text \<open>
  Claim C3, as stated, fails for a step longer than the window: with \<open>T_in = 2\<close> and
  \<open>step = T_out = 4\<close> the slice \<open>xx[..., step:]\<close> is empty, and after the one pass of the
  loop the window has four time channels.
\<close>

theorem rollout_lengths_counterexample:
  "T_in ex_globals_wide = 2 \<and> step ex_globals_wide dvd T_out ex_globals_wide \<and>
   py_range (T_out ex_globals_wide) (step ex_globals_wide) = Inr [0] \<and>
   window_length (rollout_loop ex_globals_wide ex_lib ex_model_wide ex_target [0]
                    \<lparr>xx = ex_window, pred = None, loss = None\<rparr>) = Some 4"
proof -
  have g: "T_in ex_globals_wide = 2" "step ex_globals_wide = 4" "T_out ex_globals_wide = 4"
      "num_vars ex_globals_wide = 1" "batch_size ex_globals_wide = 1"
      "length (x_grid ex_globals_wide) = 4" "length (y_grid ex_globals_wide) = 4"
    by (simp_all add: ex_globals_wide_def ex_globals_def)
  define st0 where "st0 = \<lparr>xx = ex_window, pred = None, loss = None\<rparr>"
  have "\<exists>st'. rollout_step ex_globals_wide ex_lib ex_model_wide ex_target 0 st0 = Inr st' \<and>
           shape5 (xx st') = (1, num_vars ex_globals_wide, 4, 4,
              T_in ex_globals_wide - step ex_globals_wide + step ex_globals_wide) \<and>
           (\<exists>v. loss st' = Some (Scalar v)) \<and>
           (\<exists>p. pred st' = Some p \<and>
              shape5 p = (1, num_vars ex_globals_wide, 4, 4, (0 + 1) * step ex_globals_wide))"
    by (rule rollout_step_inv [OF ex_model_wide_init, where k = 0])
       (simp_all add: g st0_def ex_target_def ex_window_def shape5_def)
  then obtain st' where "rollout_step ex_globals_wide ex_lib ex_model_wide ex_target 0 st0 = Inr st'"
    and "dim4 (xx st') = 4"
    by (auto simp: g shape5_def)
  then have "window_length (rollout_loop ex_globals_wide ex_lib ex_model_wide ex_target [0] st0) = Some 4"
    by (simp add: window_length_def ebind_Inr_left)
  moreover have "py_range (T_out ex_globals_wide) (step ex_globals_wide) = Inr [0]"
    by (simp add: g py_range_def)
  ultimately show ?thesis
    unfolding st0_def by (simp add: g)
qed

lemma ex_model_slide_init: "FNO2d_Multi_init ex_globals_slide ex_draws 1 1 1 = Inr ex_model_slide"
  by (simp add: FNO2d_Multi_init_def ex_globals_slide_def ex_model_slide_def ex_globals_def
      ex_draws_def ex_model_def ex_layer_def
      ex_linear_def ex_conv3d_def Linear_init_def Conv3d_init_def SpectralConv2d_init_def
      ebind_def Let_def)

theorem rollout_lengths_witness:
  "py_range (T_out ex_globals_slide) (step ex_globals_slide) = Inr [0, 1] \<and>
   (\<exists>st im p. rollout_loop ex_globals_slide ex_lib ex_model_slide ex_window [0]
              \<lparr>xx = ex_ramp, pred = None, loss = None\<rparr> = Inr st \<and>
           FNO2d_Multi_forward ex_globals_slide ex_lib ex_model_slide ex_ramp = Inr im \<and>
           dim4 (xx st) = 2 \<and> at5 (xx st) 0 0 0 0 0 = 2 \<and>
           at5 (xx st) 0 0 0 0 1 = at5 im 0 0 0 0 0 \<and>
           pred st = Some p \<and> dim4 p = 1 \<and> at5 p 0 0 0 0 0 = at5 im 0 0 0 0 0) \<and>
   (\<exists>l2_step l2_full st p. rollout ex_globals_slide ex_lib ex_model_slide ex_ramp ex_window
              = Inr (l2_step, l2_full, st) \<and>
           dim4 (xx st) = 2 \<and> pred st = Some p \<and> dim4 p = 2)"
proof -
  let ?g = ex_globals_slide
  let ?st0 = "\<lparr>xx = ex_ramp, pred = None, loss = None\<rparr>"
  have g: "T_in ?g = 2" "step ?g = 1" "T_out ?g = 2"
      "num_vars ?g = 1" "batch_size ?g = 1"
      "length (x_grid ?g) = 4" "length (y_grid ?g) = 4"
    by (simp_all add: ex_globals_slide_def ex_globals_def)
  have r: "py_range (T_out ?g) (step ?g) = Inr [0, 1]"
    by (simp add: g py_range_def upt_conv_Cons)
  from rollout_lengths [OF ex_model_slide_init, where X = 4 and Y = 4 and B = 1
      and yy = ex_window and ?xx0.0 = ex_ramp and lib = ex_lib]
  obtain ts where ts: "py_range (T_out ?g) (step ?g) = Inr ts"
    and loop0: "\<forall>k\<le>T_out ?g div step ?g.
         \<exists>st. rollout_loop ?g ex_lib ex_model_slide ex_window (take k ts) ?st0 = Inr st \<and>
              dim4 (xx st) = T_in ?g \<and>
              (case pred st of None \<Rightarrow> k = 0 | Some p \<Rightarrow> 0 < k \<and> dim4 p = k * step ?g)"
    and step0: "\<forall>k<T_out ?g div step ?g.
         \<exists>st st' im p'.
           rollout_loop ?g ex_lib ex_model_slide ex_window (take k ts) ?st0 = Inr st \<and>
           rollout_loop ?g ex_lib ex_model_slide ex_window (take (Suc k) ts) ?st0 = Inr st' \<and>
           FNO2d_Multi_forward ?g ex_lib ex_model_slide (xx st) = Inr im \<and> dim4 im = step ?g \<and>
           pred st' = Some p' \<and>
           (\<forall>b v r c.
              (\<forall>j<T_in ?g - step ?g. at5 (xx st') b v r c j = at5 (xx st) b v r c (step ?g + j)) \<and>
              (\<forall>j<step ?g. at5 (xx st') b v r c (T_in ?g - step ?g + j) = at5 im b v r c j \<and>
                           at5 p' b v r c (k * step ?g + j) = at5 im b v r c j) \<and>
              (\<forall>p. pred st = Some p \<longrightarrow>
                 (\<forall>j<k * step ?g. at5 p' b v r c j = at5 p b v r c j)))"
    and full0: "\<exists>l2_step l2_full st p pr yr.
         rollout ?g ex_lib ex_model_slide ex_ramp ex_window = Inr (l2_step, l2_full, st) \<and>
         dim4 (xx st) = T_in ?g \<and> pred st = Some p \<and> dim4 p = T_out ?g \<and>
         reshape5 (batch_size ?g) p = Inr pr \<and>
         reshape5 (batch_size ?g) ex_window = Inr yr \<and>
         LpLoss_call myloss pr yr = Inr (Scalar l2_full)"
    by (simp add: g ex_window_def ex_ramp_def shape5_def) blast
  from ts r have tse: "ts = [0, 1]" by simp
  from step0 [rule_format, of 0] obtain st' im p' where
    s1: "rollout_loop ?g ex_lib ex_model_slide ex_window [0] ?st0 = Inr st'"
    and s2: "FNO2d_Multi_forward ?g ex_lib ex_model_slide ex_ramp = Inr im"
    and s3: "pred st' = Some p'"
    and s4: "at5 (xx st') 0 0 0 0 0 = at5 ex_ramp 0 0 0 0 1"
    and s5: "at5 (xx st') 0 0 0 0 1 = at5 im 0 0 0 0 0"
    and s6: "at5 p' 0 0 0 0 0 = at5 im 0 0 0 0 0"
    by (auto simp: g tse)
  from loop0 [rule_format, of 1] s1 s3 have s7: "dim4 (xx st') = 2" "dim4 p' = 1"
    by (auto simp: g tse)
  have full: "\<exists>l2_step l2_full st p.
         rollout ?g ex_lib ex_model_slide ex_ramp ex_window = Inr (l2_step, l2_full, st) \<and>
         dim4 (xx st) = 2 \<and> pred st = Some p \<and> dim4 p = 2"
    using full0 by (auto simp: g)
  have "at5 ex_ramp 0 0 0 0 1 = 2" by (simp add: ex_ramp_def)
  with r full s1 s2 s3 s4 s5 s6 s7 show ?thesis by auto
qed

end
